theory Spec2Isabelle
  imports Complex_Main "HOL-Library.Log_Nat"
begin

section \<open>JavaScript values\<close>

text \<open>
  The two pipelines (\<^verbatim>\<open>src/lib/scrapers.js\<close>, the SnoCountry feed, and
  \<^verbatim>\<open>src/njskihaus-api/lib/scrapers.js\<close>, one adapter per resort) compute with
  JavaScript primitives. A number is \<open>NaN\<close>, an infinity or a finite value. A finite
  value is the rational it denotes; what a numeric literal, \<^verbatim>\<open>parseFloat\<close>,
  \<^verbatim>\<open>parseInt\<close>, \<^verbatim>\<open>Number\<close>, \<^verbatim>\<open>*\<close> and \<^verbatim>\<open>/\<close> produce is rounded to binary64
  by \<open>fl\<close> below. The two zeros are one value: no operation used here tells them
  apart. Text is a list of 8-bit characters, each one code point (Latin-1).
\<close>

datatype jsnum = NaN | PInf | NInf | Fin rat

text \<open>
  Rounding to binary64 (IEEE 754, round to nearest, a tie going to the even
  significand). \<open>pow2 k\<close> is \<open>2\<close> to the power \<open>k\<close> and \<open>ilog2 x\<close>, for positive \<open>x\<close>,
  the exponent \<open>k\<close> with \<open>pow2 k \<le> x < pow2 (k + 1)\<close>. A value is rounded to a
  multiple of \<open>pow2 e\<close>, where \<open>e\<close> leaves 53 significant bits and is at least
  \<open>- 1074\<close> (the subnormal numbers); a result of magnitude \<open>2 ^ 1024\<close> or more is an
  infinity.
\<close>

definition pow2 :: "int \<Rightarrow> rat" where
  "pow2 k = (if 0 \<le> k then 2 ^ nat k else 1 / 2 ^ nat (- k))"

definition ilog2 :: "rat \<Rightarrow> int" where
  "ilog2 x = (if 1 \<le> x then bitlen \<lfloor>x\<rfloor> - 1 else - bitlen (\<lceil>1 / x\<rceil> - 1))"

definition round_even :: "rat \<Rightarrow> int" where
  "round_even y =
     (let f = \<lfloor>y\<rfloor>; d = y - of_int f in
      if d < 1 / 2 then f else if 1 / 2 < d then f + 1 else if even f then f else f + 1)"

definition fl :: "rat \<Rightarrow> jsnum" where
  "fl x =
     (if x = 0 then Fin 0
      else
        let e = max (ilog2 \<bar>x\<bar> - 52) (- 1074);
            y = of_int (round_even (x / pow2 e)) * pow2 e
        in if 2 ^ 1024 \<le> \<bar>y\<bar> then (if x < 0 then NInf else PInf) else Fin y)"

datatype jsval = JUndefined | JNull | JBool bool | JNum jsnum | JStr string

text \<open>Thrown values are \<^verbatim>\<open>Error\<close> objects; each carries a message.\<close>

datatype error = Error string | TypeError string | SyntaxError string | FetchError string | AbortError string

fun message :: "error \<Rightarrow> string" where
  "message (Error m) = m"
| "message (TypeError m) = m"
| "message (SyntaxError m) = m"
| "message (FetchError m) = m"
| "message (AbortError m) = m"

text \<open>\<^verbatim>\<open>!!v\<close>: the values that count as true.\<close>

fun truthy :: "jsval \<Rightarrow> bool" where
  "truthy JUndefined = False"
| "truthy JNull = False"
| "truthy (JBool b) = b"
| "truthy (JNum NaN) = False"
| "truthy (JNum (Fin q)) = (q \<noteq> 0)"
| "truthy (JNum PInf) = True"
| "truthy (JNum NInf) = True"
| "truthy (JStr s) = (s \<noteq> [])"

text \<open>\<^verbatim>\<open>a || b\<close> on values that are already computed.\<close>

definition js_or :: "jsval \<Rightarrow> jsval \<Rightarrow> jsval" where
  "js_or a b = (if truthy a then a else b)"

text \<open>\<^verbatim>\<open>v == null\<close> holds of \<^verbatim>\<open>null\<close> and \<^verbatim>\<open>undefined\<close> only.\<close>

fun nullish :: "jsval \<Rightarrow> bool" where
  "nullish JUndefined = True"
| "nullish JNull = True"
| "nullish _ = False"

text \<open>\<^verbatim>\<open>n || null\<close> for a number \<open>n\<close>.\<close>

definition num_or_null :: "jsnum \<Rightarrow> jsval" where
  "num_or_null n = js_or (JNum n) JNull"

section \<open>Text\<close>

definition is_ws :: "char \<Rightarrow> bool" where
  "is_ws c = (c \<in> set [CHR 0x09, CHR 0x0A, CHR 0x0B, CHR 0x0C, CHR 0x0D, CHR 0x20, CHR 0xA0])"

text \<open>\<^verbatim>\<open>String.prototype.trim\<close>.\<close>

definition trim :: "string \<Rightarrow> string" where
  "trim s = rev (dropWhile is_ws (rev (dropWhile is_ws s)))"

definition starts_with :: "string \<Rightarrow> string \<Rightarrow> bool" where
  "starts_with p s = (take (length p) s = p)"

text \<open>\<^verbatim>\<open>s.includes(t)\<close>.\<close>

fun js_includes :: "string \<Rightarrow> string \<Rightarrow> bool" where
  "js_includes [] t = (t = [])"
| "js_includes (c # cs) t = (starts_with t (c # cs) \<or> js_includes cs t)"

definition toUpperCase :: "string \<Rightarrow> string" where
  "toUpperCase s =
     map (\<lambda>c. if 97 \<le> (of_char c :: nat) \<and> (of_char c :: nat) \<le> 122
               then char_of (of_char c - 32 :: nat) else c) s"

definition toLowerCase :: "string \<Rightarrow> string" where
  "toLowerCase s =
     map (\<lambda>c. if 65 \<le> (of_char c :: nat) \<and> (of_char c :: nat) \<le> 90
               then char_of (of_char c + 32 :: nat) else c) s"

text \<open>The value of a digit in a radix up to 36, as \<^verbatim>\<open>parseInt\<close> reads it.\<close>

definition radix_digit :: "char \<Rightarrow> nat option" where
  "radix_digit c =
     (let n = (of_char c :: nat) in
      if 48 \<le> n \<and> n \<le> 57 then Some (n - 48)
      else if 97 \<le> n \<and> n \<le> 122 then Some (n - 87)
      else if 65 \<le> n \<and> n \<le> 90 then Some (n - 55)
      else None)"

definition is_radix_digit :: "nat \<Rightarrow> char \<Rightarrow> bool" where
  "is_radix_digit R c = (case radix_digit c of Some d \<Rightarrow> d < R | None \<Rightarrow> False)"

definition radix_value :: "nat \<Rightarrow> string \<Rightarrow> nat" where
  "radix_value R z =
     foldl (\<lambda>a c. R * a + (case radix_digit c of Some d \<Rightarrow> d | None \<Rightarrow> 0)) 0 z"

definition is_digit :: "char \<Rightarrow> bool" where
  "is_digit c = is_radix_digit 10 c"

fun strip_sign :: "string \<Rightarrow> bool \<times> string" where
  "strip_sign [] = (False, [])"
| "strip_sign (c # cs) =
     (if c = CHR ''-'' then (True, cs)
      else if c = CHR ''+'' then (False, cs)
      else (False, c # cs))"

definition pow10 :: "int \<Rightarrow> rat" where
  "pow10 e = (if 0 \<le> e then 10 ^ nat e else 1 / 10 ^ nat (- e))"

text \<open>The optional exponent of a decimal literal: its value and the text after it.\<close>

definition exponent_part :: "string \<Rightarrow> int \<times> string" where
  "exponent_part s =
     (case s of
        [] \<Rightarrow> (0, s)
      | c # t \<Rightarrow>
          if c = CHR ''e'' \<or> c = CHR ''E'' then
            (let (neg, u) = strip_sign t; ds = takeWhile is_digit u in
             if ds = [] then (0, s)
             else (if neg then - int (radix_value 10 ds) else int (radix_value 10 ds),
                   dropWhile is_digit u))
          else (0, s))"

text \<open>
  The longest prefix of \<open>s\<close> that is a \<^verbatim>\<open>StrDecimalLiteral\<close> of ECMAScript (sign,
  \<^verbatim>\<open>Infinity\<close> or digits with an optional fraction and exponent): its value and the
  rest of the text, or \<open>None\<close> when no prefix is one.
\<close>

definition str_decimal :: "string \<Rightarrow> (jsnum \<times> string) option" where
  "str_decimal s =
     (let (neg, s1) = strip_sign s in
      if starts_with ''Infinity'' s1 then Some (if neg then NInf else PInf, drop 8 s1)
      else
        let ip = takeWhile is_digit s1;
            r1 = dropWhile is_digit s1;
            dot = (r1 \<noteq> [] \<and> hd r1 = CHR ''.'');
            fp = (if dot then takeWhile is_digit (tl r1) else []);
            r2 = (if dot then dropWhile is_digit (tl r1) else r1)
        in if ip = [] \<and> fp = [] then None
           else
             let (ex, r3) = exponent_part r2;
                 v = of_nat (radix_value 10 (ip @ fp)) * pow10 (ex - int (length fp))
             in Some (fl (if neg then - v else v), r3))"

text \<open>\<^verbatim>\<open>parseFloat\<close> on text: leading white space is skipped.\<close>

definition parseFloat_str :: "string \<Rightarrow> jsnum" where
  "parseFloat_str s =
     (case str_decimal (dropWhile is_ws s) of None \<Rightarrow> NaN | Some (v, rest) \<Rightarrow> v)"

text \<open>
  \<^verbatim>\<open>parseInt\<close> on text, with the radix argument when the call gives one. Without a
  radix (or with 16) a \<^verbatim>\<open>0x\<close> prefix selects radix 16.
\<close>

definition parseInt_str :: "nat option \<Rightarrow> string \<Rightarrow> jsnum" where
  "parseInt_str radix s =
     (let (neg, s1) = strip_sign (dropWhile is_ws s);
          R0 = (case radix of None \<Rightarrow> 0 | Some r \<Rightarrow> r)
      in if R0 \<noteq> 0 \<and> (R0 < 2 \<or> 36 < R0) then NaN
         else
           let strip = ((R0 = 0 \<or> R0 = 16) \<and> (starts_with ''0x'' s1 \<or> starts_with ''0X'' s1));
               R = (if strip then 16 else if R0 = 0 then 10 else R0);
               s2 = (if strip then drop 2 s1 else s1);
               z = takeWhile (is_radix_digit R) s2
           in if z = [] then NaN
              else fl (if neg then - of_nat (radix_value R z) else of_nat (radix_value R z)))"

text \<open>
  \<^verbatim>\<open>String(v)\<close>. The formatting of a number (\<^verbatim>\<open>Number.prototype.toString\<close>, the
  shortest digits that read back) is a built-in of the language, not code of this
  repository: it is the parameter \<open>ns\<close>.
\<close>

fun to_string :: "(jsnum \<Rightarrow> string) \<Rightarrow> jsval \<Rightarrow> string" where
  "to_string ns JUndefined = ''undefined''"
| "to_string ns JNull = ''null''"
| "to_string ns (JBool b) = (if b then ''true'' else ''false'')"
| "to_string ns (JNum n) = ns n"
| "to_string ns (JStr s) = s"

definition js_parseFloat :: "(jsnum \<Rightarrow> string) \<Rightarrow> jsval \<Rightarrow> jsnum" where
  "js_parseFloat ns v = parseFloat_str (to_string ns v)"

definition js_parseInt :: "(jsnum \<Rightarrow> string) \<Rightarrow> jsval \<Rightarrow> jsnum" where
  "js_parseInt ns v = parseInt_str None (to_string ns v)"

text \<open>
  \<^verbatim>\<open>Number(s)\<close> for text: the whole trimmed text must be one numeric literal; the
  empty text is 0.
\<close>

definition radix_literal :: "nat \<Rightarrow> string \<Rightarrow> jsnum" where
  "radix_literal R z =
     (if z \<noteq> [] \<and> list_all (is_radix_digit R) z then fl (of_nat (radix_value R z)) else NaN)"

definition string_to_number :: "string \<Rightarrow> jsnum" where
  "string_to_number s =
     (let t = trim s in
      if t = [] then Fin 0
      else if starts_with ''0x'' t \<or> starts_with ''0X'' t then radix_literal 16 (drop 2 t)
      else if starts_with ''0o'' t \<or> starts_with ''0O'' t then radix_literal 8 (drop 2 t)
      else if starts_with ''0b'' t \<or> starts_with ''0B'' t then radix_literal 2 (drop 2 t)
      else (case str_decimal t of
              Some (v, rest) \<Rightarrow> if rest = [] then v else NaN
            | None \<Rightarrow> NaN))"

fun to_number :: "jsval \<Rightarrow> jsnum" where
  "to_number JUndefined = NaN"
| "to_number JNull = Fin 0"
| "to_number (JBool b) = (if b then Fin 1 else Fin 0)"
| "to_number (JNum n) = n"
| "to_number (JStr s) = string_to_number s"

text \<open>
  The operand of an arithmetic operator is a binary64 number. A finite value that is
  not one, as the decimal \<open>Fin (3937 / 100)\<close>, stands for the number nearest to it, as
  the literal \<^verbatim>\<open>39.37\<close> does.
\<close>

definition to_binary64 :: "jsnum \<Rightarrow> jsnum" where
  "to_binary64 n = (case n of Fin q \<Rightarrow> fl q | other \<Rightarrow> other)"

text \<open>
  \<^verbatim>\<open>n * k\<close> and \<^verbatim>\<open>n / k\<close> for a positive finite constant \<open>k\<close>: the exact product
  or quotient, rounded.
\<close>

definition num_times :: "jsnum \<Rightarrow> rat \<Rightarrow> jsnum" where
  "num_times n k = (case to_binary64 n of Fin q \<Rightarrow> fl (q * k) | other \<Rightarrow> other)"

definition num_over :: "jsnum \<Rightarrow> rat \<Rightarrow> jsnum" where
  "num_over n k = (case to_binary64 n of Fin q \<Rightarrow> fl (q / k) | other \<Rightarrow> other)"

text \<open>\<^verbatim>\<open>Math.round\<close>: the nearest integer, a tie going up. The result is exact.\<close>

fun math_round :: "jsnum \<Rightarrow> jsnum" where
  "math_round (Fin q) = Fin (of_int \<lfloor>q + 1 / 2\<rfloor>)"
| "math_round n = n"

text \<open>\<^verbatim>\<open>n <= k\<close> for a finite constant \<open>k\<close>.\<close>

fun num_le :: "jsnum \<Rightarrow> rat \<Rightarrow> bool" where
  "num_le (Fin q) k = (q \<le> k)"
| "num_le NInf k = True"
| "num_le PInf k = False"
| "num_le NaN k = False"

section \<open>Records, snapshots and the environment\<close>

text \<open>
  A condition record is an object literal; a key the literal does not give reads as
  \<^verbatim>\<open>undefined\<close>. All fifteen fields are kept as JavaScript values.
\<close>

record mountain =
  name :: jsval
  base :: jsval
  summit :: jsval
  newSnow24 :: jsval
  newSnow48 :: jsval
  newSnow7d :: jsval
  trailsOpen :: jsval
  trailsTotal :: jsval
  liftsOpen :: jsval
  liftsTotal :: jsval
  surface :: jsval
  season :: jsval
  status :: jsval
  updatedAt :: jsval
  source :: jsval

text \<open>The object literal with no key.\<close>

definition no_fields :: mountain where
  "no_fields =
     \<lparr>name = JUndefined, base = JUndefined, summit = JUndefined, newSnow24 = JUndefined,
      newSnow48 = JUndefined, newSnow7d = JUndefined, trailsOpen = JUndefined,
      trailsTotal = JUndefined, liftsOpen = JUndefined, liftsTotal = JUndefined,
      surface = JUndefined, season = JUndefined, status = JUndefined,
      updatedAt = JUndefined, source = JUndefined\<rparr>"

record snapshot =
  mountains :: "mountain list"
  scrapedAt :: string
  successCount :: nat
  totalCount :: nat

text \<open>What \<^verbatim>\<open>setData\<close> writes: the snapshot and \<^verbatim>\<open>storedAt\<close>.\<close>

record stored = snapshot +
  storedAt :: string

text \<open>
  Parsed JSON. An upstream entry is an object with scalar members (\<open>jsobj\<close>); a member
  it lacks reads as \<^verbatim>\<open>undefined\<close>. The SnoCountry feed is an array of entries, an
  object whose members may hold such arrays, or a scalar. The document of a resort's own
  JSON endpoint is a scalar or an object: \<open>DocObject subs scalars\<close> has the sub-objects
  \<open>subs\<close>, which an adapter may step into, and the scalar members \<open>scalars\<close>, which
  are what an adapter reads as field values.
\<close>

type_synonym jsobj = "string \<rightharpoonup> jsval"

definition get :: "jsobj \<Rightarrow> string \<Rightarrow> jsval" where
  "get r k = (case r k of None \<Rightarrow> JUndefined | Some v \<Rightarrow> v)"

datatype member = MScalar jsval | MObject jsobj | MArray "jsobj list"

datatype feed = FeedScalar jsval | FeedArray "jsobj list" | FeedObject "string \<rightharpoonup> member"

datatype jdoc = DocScalar jsval | DocObject "string \<rightharpoonup> jsobj" jsobj

text \<open>
  A loaded page, as the adapters query it: \<open>text_of p sel\<close> is
  \<^verbatim>\<open>$(sel).first().text()\<close>, and \<open>report_rows p\<close> lists, for each element of
  \<^verbatim>\<open>$('table tr, .report-row')\<close>, the text of its label cell and of its value cell.
\<close>

record page =
  text_of :: "string \<Rightarrow> string"
  report_rows :: "(string \<times> string) list"

text \<open>
  A response of \<^verbatim>\<open>node-fetch\<close>: its status, and what reading the body gives to
  each consumer (\<^verbatim>\<open>res.text()\<close> with \<^verbatim>\<open>JSON.parse\<close>, \<^verbatim>\<open>res.json()\<close>,
  \<^verbatim>\<open>res.text()\<close> with \<^verbatim>\<open>cheerio.load\<close>), each of which may throw.
\<close>

record response =
  http_status :: nat
  text_json :: "error + feed"
  json :: "error + jdoc"
  html :: "error + page"

text \<open>\<^verbatim>\<open>res.ok\<close>.\<close>

definition res_ok :: "response \<Rightarrow> bool" where
  "res_ok res = (200 \<le> http_status res \<and> http_status res \<le> 299)"

text \<open>
  Everything outside the program: the clock (one reading serves a whole run), number
  formatting, the process environment, the network (\<open>fetch w url\<close> rejects, also on
  the 15 s abort, or resolves), and the two storage back ends.
\<close>

record world =
  now :: string
  numstr :: "jsnum \<Rightarrow> string"
  env :: "string \<rightharpoonup> string"
  fetch :: "string \<Rightarrow> error + response"
  kv_set :: "string \<Rightarrow> stored \<Rightarrow> nat \<Rightarrow> error + unit"
  writeFileSync :: "string \<Rightarrow> stored \<Rightarrow> error + unit"

text \<open>\<^verbatim>\<open>try { body } catch (e) { handler }\<close> on computed outcomes.\<close>

definition try_catch :: "error + 'a \<Rightarrow> (error \<Rightarrow> error + 'a) \<Rightarrow> error + 'a" where
  "try_catch body handler = (case body of Inr x \<Rightarrow> Inr x | Inl e \<Rightarrow> handler e)"

text \<open>Sequencing: the first throw ends the computation.\<close>

definition and_then :: "error + 'a \<Rightarrow> ('a \<Rightarrow> error + 'b) \<Rightarrow> error + 'b" where
  "and_then m f = (case m of Inl e \<Rightarrow> Inl e | Inr x \<Rightarrow> f x)"

text \<open>\<^verbatim>\<open>Promise.allSettled\<close> turns each outcome into a settled result.\<close>

datatype 'a settled = Fulfilled 'a | Rejected error

definition settle :: "error + 'a \<Rightarrow> 'a settled" where
  "settle r = (case r of Inr x \<Rightarrow> Fulfilled x | Inl e \<Rightarrow> Rejected e)"

text \<open>Decimal digits of a status code, for the messages.\<close>

fun show_nat :: "nat \<Rightarrow> string" where
  "show_nat n =
     (if n < 10 then [char_of (48 + n)]
      else show_nat (n div 10) @ [char_of (48 + n mod 10)])"

section \<open>The SnoCountry pipeline (\<^verbatim>\<open>src/lib/scrapers.js\<close>)\<close>

definition SNOCOUNTRY_KEY :: "world \<Rightarrow> string" where
  "SNOCOUNTRY_KEY w =
     (case env w ''SNOCOUNTRY_API_KEY'' of
        Some k \<Rightarrow> if k \<noteq> [] then k else ''SnoCountry.example''
      | None \<Rightarrow> ''SnoCountry.example'')"

definition SNOCOUNTRY_URL :: string where
  "SNOCOUNTRY_URL = ''https://feeds.snocountry.net/conditions.json''"

definition NAME_MAP :: "(string \<times> string) list" where
  "NAME_MAP =
    [(''Mountain Creek'', ''MOUNTAIN CREEK''),
     (''Killington Resort'', ''KILLINGTON''),
     (''Killington'', ''KILLINGTON''),
     (''Stowe Mountain Resort'', ''STOWE''),
     (''Stowe'', ''STOWE''),
     (''Stratton Mountain'', ''STRATTON''),
     (''Stratton'', ''STRATTON''),
     (''Sugarbush Resort'', ''SUGARBUSH''),
     (''Sugarbush'', ''SUGARBUSH''),
     (''Pico Mountain'', ''PICO MTN''),
     (''Pico'', ''PICO MTN''),
     (''Okemo Mountain Resort'', ''OKEMO''),
     (''Okemo'', ''OKEMO''),
     (''Mount Snow'', ''MOUNT SNOW''),
     (''Jay Peak'', ''JAY PEAK''),
     (''Jay Peak Resort'', ''JAY PEAK''),
     (''Burke Mountain'', ''BURKE MTN''),
     (''Bolton Valley'', ''BOLTON VALLEY''),
     (''Bolton Valley Resort'', ''BOLTON VALLEY''),
     (''Magic Mountain'', ''MAGIC MTN''),
     (''Hunter Mountain'', ''HUNTER MTN''),
     (''Whiteface Mountain'', ''WHITEFACE''),
     (''Whiteface'', ''WHITEFACE''),
     (''Gore Mountain'', ''GORE MTN''),
     (''Gore'', ''GORE MTN''),
     (''Belleayre Mountain'', ''BELLEAYRE''),
     (''Belleayre'', ''BELLEAYRE''),
     (''Catamount'', ''CATAMOUNT''),
     (''Greek Peak Mountain Resort'', ''GREEK PEAK''),
     (''Greek Peak'', ''GREEK PEAK''),
     (''West Mountain'', ''WEST MTN''),
     (''Camelback Mountain Resort'', ''CAMELBACK''),
     (''Camelback'', ''CAMELBACK''),
     (''Blue Mountain'', ''BLUE MTN PA''),
     (''Blue Mountain Resort'', ''BLUE MTN PA''),
     (''Shawnee Mountain'', ''SHAWNEE MTN''),
     (''Sunday River'', ''SUNDAY RIVER''),
     (''Sunday River Resort'', ''SUNDAY RIVER''),
     (''Sugarloaf'', ''SUGARLOAF''),
     (''Sugarloaf Mountain'', ''SUGARLOAF''),
     (''Saddleback Maine'', ''SADDLEBACK''),
     (''Saddleback Mountain'', ''SADDLEBACK''),
     (''Saddleback'', ''SADDLEBACK''),
     (''Loon Mountain'', ''LOON MTN''),
     (''Loon Mountain Resort'', ''LOON MTN''),
     (''Attitash'', ''ATTITASH''),
     (''Attitash Mountain Resort'', ''ATTITASH''),
     (''Wildcat Mountain'', ''WILDCAT''),
     (''Wildcat'', ''WILDCAT''),
     (''Cannon Mountain'', ''CANNON MTN''),
     (''Waterville Valley'', ''WATERVILLE VLY''),
     (''Waterville Valley Resort'', ''WATERVILLE VLY''),
     (''Mont-Tremblant'', ''MONT-TREMBLANT''),
     (''Tremblant'', ''MONT-TREMBLANT''),
     (''Le Massif de Charlevoix'', ''LE MASSIF''),
     (''Le Massif'', ''LE MASSIF''),
     (''Mont-Sainte-Anne'', ''MONT-STE-ANNE''),
     (''Mont Sainte Anne'', ''MONT-STE-ANNE'')]"

text \<open>
  \<^verbatim>\<open>NAME_MAP\<close> is a plain object, so \<^verbatim>\<open>NAME_MAP[key]\<close> also finds the members
  every object inherits from \<^verbatim>\<open>Object.prototype\<close>; their values are functions (an
  object for \<^verbatim>\<open>__proto__\<close>), all of which count as true.
\<close>

definition object_prototype_keys :: "string list" where
  "object_prototype_keys =
    [''constructor'', ''__defineGetter__'', ''__defineSetter__'', ''hasOwnProperty'',
     ''__lookupGetter__'', ''__lookupSetter__'', ''isPrototypeOf'', ''propertyIsEnumerable'',
     ''toString'', ''valueOf'', ''__proto__'', ''toLocaleString'']"

datatype looked_up = Missing | Canon string | Inherited

definition NAME_MAP_get :: "string \<Rightarrow> looked_up" where
  "NAME_MAP_get key =
     (case map_of NAME_MAP key of
        Some c \<Rightarrow> Canon c
      | None \<Rightarrow> if key \<in> set object_prototype_keys then Inherited else Missing)"

text \<open>
  \<^verbatim>\<open>name?.trim()\<close>: \<^verbatim>\<open>undefined\<close> for a nullish name, the trimmed text for a
  string; any other primitive has no \<^verbatim>\<open>trim\<close> method and the call throws.
\<close>

fun optional_trim :: "jsval \<Rightarrow> error + jsval" where
  "optional_trim JUndefined = Inr JUndefined"
| "optional_trim JNull = Inr JUndefined"
| "optional_trim (JStr s) = Inr (JStr (trim s))"
| "optional_trim v = Inl (TypeError ''name?.trim is not a function'')"

text \<open>\<^verbatim>\<open>NAME_MAP[name] || NAME_MAP[name?.trim()]\<close>.\<close>

definition resolve :: "(jsnum \<Rightarrow> string) \<Rightarrow> jsval \<Rightarrow> error + looked_up" where
  "resolve ns nm =
     (case NAME_MAP_get (to_string ns nm) of
        Missing \<Rightarrow> and_then (optional_trim nm) (\<lambda>t. Inr (NAME_MAP_get (to_string ns t)))
      | found \<Rightarrow> Inr found)"

definition parseRecord :: "world \<Rightarrow> jsobj \<Rightarrow> error + mountain option" where
  "parseRecord w r =
     (let nm = js_or (get r ''resort_name'') (get r ''resortName'') in
      and_then (resolve (numstr w) nm) (\<lambda>ourName.
        if ourName = Missing then Inr None
        else
          let pf = (\<lambda>v. num_or_null (js_parseFloat (numstr w) v));
              pint = (\<lambda>v. num_or_null (js_parseInt (numstr w) v));
              code = js_parseInt (numstr w) (js_or (get r ''resort_status'') (get r ''resortStatus''));
              statusCode = (if truthy (JNum code) then code else Fin 0)
          in Inr (Some
            \<lparr>name = nm,
             base = pf (js_or (get r ''base_depth'') (get r ''baseDepth'')),
             summit = pf (js_or (get r ''summit_depth'') (get r ''summitDepth'')),
             newSnow24 = pf (js_or (js_or (js_or (get r ''fresh_snow'') (get r ''freshSnow''))
                                     (get r ''snow_last_24h'')) (get r ''snowLast24Hours'')),
             newSnow48 = pf (js_or (get r ''snow_last_48h'') (get r ''snowLast48Hours'')),
             newSnow7d = pf (js_or (get r ''snow_last_7d'') (get r ''snowLast7Days'')),
             trailsOpen = pint (js_or (js_or (js_or (get r ''open_runs'') (get r ''openRuns''))
                                     (get r ''open_trails'')) (get r ''openTrails'')),
             trailsTotal = pint (js_or (js_or (js_or (get r ''total_runs'') (get r ''totalRuns''))
                                     (get r ''total_trails'')) (get r ''totalTrails'')),
             liftsOpen = pint (js_or (get r ''open_lifts'') (get r ''openLifts'')),
             liftsTotal = pint (js_or (get r ''total_lifts'') (get r ''totalLifts'')),
             surface = js_or (js_or (get r ''primary_surface_condition'')
                                    (get r ''primarySurfaceCondition'')) JNull,
             season = pf (js_or (get r ''season_total'') (get r ''seasonTotal'')),
             status = JStr (if num_le statusCode 3 then ''Open'' else ''Closed''),
             updatedAt = js_or (js_or (get r ''report_date_time'') (get r ''reportDateTime''))
                               (JStr (now w)),
             source = JStr ''SnoCountry''\<rparr>)))"

text \<open>Reading a member of the parsed feed: it throws on \<^verbatim>\<open>null\<close>.\<close>

definition feed_get :: "feed \<Rightarrow> string \<Rightarrow> error + member" where
  "feed_get d k =
     (case d of
        FeedScalar v \<Rightarrow>
          if nullish v then Inl (TypeError ''Cannot read properties of null'')
          else Inr (MScalar JUndefined)
      | FeedArray xs \<Rightarrow> Inr (MScalar JUndefined)
      | FeedObject m \<Rightarrow> Inr (case m k of None \<Rightarrow> MScalar JUndefined | Some x \<Rightarrow> x))"

fun member_truthy :: "member \<Rightarrow> bool" where
  "member_truthy (MScalar v) = truthy v"
| "member_truthy (MObject ob) = True"
| "member_truthy (MArray xs) = True"

definition fetchState :: "world \<Rightarrow> string \<Rightarrow> error + member" where
  "fetchState w stateCode =
     (let url = SNOCOUNTRY_URL @ ''?apiKey='' @ SNOCOUNTRY_KEY w @ ''&states='' @ stateCode in
      try_catch
        (and_then (fetch w url) (\<lambda>res.
           if \<not> res_ok res
           then Inl (Error (''HTTP '' @ show_nat (http_status res) @ '' for state '' @ stateCode))
           else and_then (text_json res) (\<lambda>data.
             case data of
               FeedArray xs \<Rightarrow> Inr (MArray xs)
             | other \<Rightarrow>
                 and_then (feed_get data ''resorts'') (\<lambda>a.
                   if member_truthy a then Inr a
                   else and_then (feed_get data ''data'') (\<lambda>b.
                     if member_truthy b then Inr b else Inr (MArray []))))))
        (\<lambda>e. Inr (MArray [])))"

text \<open>
  \<^verbatim>\<open>allResorts.push(...value)\<close>: an array gives its entries; text gives its
  characters, on which every member reads as \<^verbatim>\<open>undefined\<close>; anything else is not
  iterable.
\<close>

fun spread :: "member \<Rightarrow> error + jsobj list" where
  "spread (MArray xs) = Inr xs"
| "spread (MScalar (JStr s)) = Inr (map (\<lambda>c. Map.empty) s)"
| "spread (MScalar v) = Inl (TypeError ''Spread syntax requires ...iterable'')"
| "spread (MObject ob) = Inl (TypeError ''Spread syntax requires ...iterable'')"

definition states :: "string list" where
  "states = [''NJ'', ''VT'', ''NY'', ''PA'', ''NH'', ''ME'', ''QC'']"

text \<open>The first \<^verbatim>\<open>forEach\<close>: the entries of every fulfilled state, in order.\<close>

fun collect :: "member settled list \<Rightarrow> jsobj list \<Rightarrow> error + jsobj list" where
  "collect [] allResorts = Inr allResorts"
| "collect (Fulfilled v # rest) allResorts =
     and_then (spread v) (\<lambda>xs. collect rest (allResorts @ xs))"
| "collect (Rejected e # rest) allResorts = collect rest allResorts"

text \<open>
  The second \<^verbatim>\<open>forEach\<close>, over the state \<open>(matched, matchedNames)\<close>: a parsed
  record is kept when its \<open>name\<close> is not yet in the set.
\<close>

fun match_all :: "world \<Rightarrow> jsobj list \<Rightarrow> mountain list \<times> jsval set \<Rightarrow> error + (mountain list \<times> jsval set)" where
  "match_all w [] st = Inr st"
| "match_all w (r # rs) (matched, matchedNames) =
     and_then (parseRecord w r) (\<lambda>parsed.
       case parsed of
         None \<Rightarrow> match_all w rs (matched, matchedNames)
       | Some p \<Rightarrow>
           if name p \<notin> matchedNames
           then match_all w rs (matched @ [p], insert (name p) matchedNames)
           else match_all w rs (matched, matchedNames))"

definition runAllScrapers_sno :: "world \<Rightarrow> error + snapshot" where
  "runAllScrapers_sno w =
     (let allResults = map (\<lambda>s. settle (fetchState w s)) states in
      and_then (collect allResults []) (\<lambda>allResorts.
      and_then (match_all w allResorts ([], {})) (\<lambda>(matched, matchedNames).
        let count = length (filter (\<lambda>m. \<not> nullish (base m)) matched) in
        Inr \<lparr>mountains = matched, scrapedAt = now w,
             successCount = count, totalCount = length matched\<rparr>)))"

section \<open>The per-resort pipeline (\<^verbatim>\<open>src/njskihaus-api/lib/scrapers.js\<close>)\<close>

subsection \<open>Fetch helpers\<close>

text \<open>\<^verbatim>\<open>fetchPage\<close> clears its timer and rethrows what \<^verbatim>\<open>fetch\<close> throws.\<close>

definition fetchPage :: "world \<Rightarrow> string \<Rightarrow> error + response" where
  "fetchPage w url = try_catch (fetch w url) (\<lambda>e. Inl e)"

definition fetchJSON :: "world \<Rightarrow> string \<Rightarrow> error + jdoc" where
  "fetchJSON w url =
     and_then (fetchPage w url) (\<lambda>res.
       if \<not> res_ok res
       then Inl (Error (''HTTP '' @ show_nat (http_status res) @ '' from '' @ url))
       else json res)"

definition fetchHTML :: "world \<Rightarrow> string \<Rightarrow> error + page" where
  "fetchHTML w url =
     and_then (fetchPage w url) (\<lambda>res.
       if \<not> res_ok res
       then Inl (Error (''HTTP '' @ show_nat (http_status res) @ '' from '' @ url))
       else html res)"

subsection \<open>Parsing helpers\<close>

definition parseInches :: "world \<Rightarrow> jsval \<Rightarrow> jsval" where
  "parseInches w str =
     (if \<not> truthy str then JNull
      else
        let n = parseFloat_str
                  (filter (\<lambda>c. is_digit c \<or> c = CHR ''.'') (to_string (numstr w) str))
        in if n = NaN then JNull else JNum n)"

definition parseInt2 :: "world \<Rightarrow> jsval \<Rightarrow> jsval" where
  "parseInt2 w str =
     (if \<not> truthy str then JNull
      else
        let n = parseInt_str (Some 10) (filter is_digit (to_string (numstr w) str))
        in if n = NaN then JNull else JNum n)"

text \<open>
  The literal \<^verbatim>\<open>2.54\<close>: the binary64 number nearest to \<open>254 / 100\<close>, which is
  \<open>2859785763380265 / 2 ^ 50\<close>.
\<close>

definition c2_54 :: rat where
  "c2_54 = 2859785763380265 / 1125899906842624"

definition cmToIn :: "jsval \<Rightarrow> jsval" where
  "cmToIn cm =
     (if nullish cm then JNull
      else JNum (math_round (num_over (to_number cm) c2_54)))"

text \<open>
  Reading the document of a JSON endpoint. \<open>doc_get\<close> is a member read on the
  document itself: it throws on \<^verbatim>\<open>null\<close>, finds nothing on another scalar, and on
  an object gives the sub-object or the scalar member of that name. The value the
  fields are then read from is a scalar or an object; \<open>member_view\<close> gives its member
  reads, which throw on \<^verbatim>\<open>null\<close> and \<^verbatim>\<open>undefined\<close> only.
\<close>

datatype target = TScalar jsval | TObject jsobj

definition doc_get :: "jdoc \<Rightarrow> string \<Rightarrow> error + target" where
  "doc_get d k =
     (case d of
        DocScalar v \<Rightarrow>
          if nullish v then Inl (TypeError ''Cannot read properties of null'')
          else Inr (TScalar JUndefined)
      | DocObject subs scalars \<Rightarrow>
          Inr (case subs k of Some ob \<Rightarrow> TObject ob | None \<Rightarrow> TScalar (get scalars k)))"

fun target_truthy :: "target \<Rightarrow> bool" where
  "target_truthy (TScalar v) = truthy v"
| "target_truthy (TObject ob) = True"

fun doc_itself :: "jdoc \<Rightarrow> target" where
  "doc_itself (DocScalar v) = TScalar v"
| "doc_itself (DocObject subs scalars) = TObject scalars"

fun member_view :: "target \<Rightarrow> error + (string \<Rightarrow> jsval)" where
  "member_view (TScalar v) =
     (if nullish v then Inl (TypeError ''Cannot read properties of undefined'')
      else Inr (\<lambda>k. JUndefined))"
| "member_view (TObject ob) = Inr (get ob)"

subsection \<open>The adapters\<close>

text \<open>
  Each adapter is an \<^verbatim>\<open>async\<close> function: its outcome is the record it returns or
  the error it rejects with. The definitions follow the source function by function,
  selector by selector.
\<close>

definition mountainCreek :: "world \<Rightarrow> error + mountain" where
  \<open>mountainCreek w =
     (let url = ''https://www.mountaincreek.com/mountain/snow-report'' in
      try_catch
        (and_then (fetchHTML w url) (\<lambda>p.
           Inr (no_fields
             \<lparr>name := JStr ''MOUNTAIN CREEK'',
              base := parseInches w (JStr (text_of p ''[class*="base"], [class*="Base"]'')),
              newSnow24 := parseInches w (JStr (text_of p ''[class*="24"], [class*="overnight"]'')),
              trailsOpen := parseInt2 w (JStr (text_of p ''[class*="open"][class*="trail"], [class*="trails-open"]'')),
              trailsTotal := parseInt2 w (JStr (text_of p ''[class*="total"][class*="trail"], [class*="trails-total"]'')),
              surface := js_or (JStr (trim (text_of p ''[class*="surface"], [class*="condition"]''))) JNull,
              status := JStr ''Open'',
              updatedAt := JStr (now w),
              source := JStr url\<rparr>)))
        (\<lambda>e. Inr (no_fields
             \<lparr>name := JStr ''MOUNTAIN CREEK'', updatedAt := JStr (now w), source := JStr url\<rparr>)))\<close>

definition killington :: "world \<Rightarrow> error + mountain" where
  \<open>killington w =
     (let url = ''https://www.killington.com/api/resort-stats'';
          fallbackUrl = ''https://www.killington.com/the-mountain/snow-report'' in
      try_catch
        (and_then (fetchJSON w url) (\<lambda>data.
         and_then (doc_get data ''snowReport'') (\<lambda>a.
         and_then (if target_truthy a then Inr a else doc_get data ''snow_report'') (\<lambda>b.
         and_then (member_view (if target_truthy b then b else doc_itself data)) (\<lambda>sr.
           Inr (no_fields
             \<lparr>name := JStr ''KILLINGTON'',
              base := parseInches w (js_or (js_or (sr ''baseDepth'') (sr ''base_depth'')) (sr ''base'')),
              summit := parseInches w (js_or (js_or (sr ''summitDepth'') (sr ''summit_depth'')) (sr ''summit'')),
              newSnow24 := parseInches w (js_or (js_or (sr ''last24Hours'') (sr ''new_snow_24'')) (sr ''snowfall24'')),
              newSnow48 := parseInches w (js_or (js_or (sr ''last48Hours'') (sr ''new_snow_48'')) (sr ''snowfall48'')),
              trailsOpen := parseInt2 w (js_or (sr ''openTrails'') (sr ''trails_open'')),
              trailsTotal := parseInt2 w (js_or (sr ''totalTrails'') (sr ''trails_total'')),
              liftsOpen := parseInt2 w (js_or (sr ''openLifts'') (sr ''lifts_open'')),
              liftsTotal := parseInt2 w (js_or (sr ''totalLifts'') (sr ''lifts_total'')),
              surface := js_or (js_or (sr ''primarySurface'') (sr ''surface_conditions'')) JNull,
              season := parseInches w (js_or (sr ''seasonTotal'') (sr ''season_total'')),
              status := js_or (js_or (sr ''status'') (sr ''resortStatus'')) (JStr ''Open''),
              updatedAt := JStr (now w),
              source := JStr url\<rparr>))))))
        (\<lambda>e.
           try_catch
             (and_then (fetchHTML w fallbackUrl) (\<lambda>p.
                Inr (no_fields
                  \<lparr>name := JStr ''KILLINGTON'',
                   base := parseInches w (JStr (text_of p ''.snow-report__base, [data-value="base"]'')),
                   newSnow24 := parseInches w (JStr (text_of p ''[data-period="24h"], .snow-24'')),
                   trailsOpen := parseInt2 w (JStr (text_of p ''.trails-open, [data-label="Trails Open"]'')),
                   surface := js_or (JStr (trim (text_of p ''.surface-condition, .primary-surface''))) JNull,
                   status := JStr ''Open'',
                   updatedAt := JStr (now w),
                   source := JStr fallbackUrl\<rparr>)))
             (\<lambda>e2. Inr (no_fields
                  \<lparr>name := JStr ''KILLINGTON'', updatedAt := JStr (now w),
                   source := JStr fallbackUrl\<rparr>))))\<close>

definition stowe :: "world \<Rightarrow> error + mountain" where
  \<open>stowe w =
     (let url = ''https://www.stowe.com/the-mountain/mountain-report.aspx'' in
      try_catch
        (and_then (fetchHTML w url) (\<lambda>p.
           Inr (no_fields
             \<lparr>name := JStr ''STOWE'',
              base := parseInches w (JStr (text_of p ''[data-field="base-depth"], .conditions__base'')),
              summit := parseInches w (JStr (text_of p ''[data-field="summit-depth"], .conditions__summit'')),
              newSnow24 := parseInches w (JStr (text_of p ''[data-field="overnight-snowfall"], [data-hours="24"]'')),
              newSnow48 := parseInches w (JStr (text_of p ''[data-field="48hr-snowfall"], [data-hours="48"]'')),
              trailsOpen := parseInt2 w (JStr (text_of p ''[data-field="open-trails"], .trails__open'')),
              trailsTotal := parseInt2 w (JStr (text_of p ''[data-field="total-trails"], .trails__total'')),
              liftsOpen := parseInt2 w (JStr (text_of p ''[data-field="open-lifts"]'')),
              surface := js_or (JStr (trim (text_of p ''[data-field="surface-conditions"]''))) JNull,
              season := parseInches w (JStr (text_of p ''[data-field="season-total"]'')),
              status := JStr ''Open'',
              updatedAt := JStr (now w),
              source := JStr url\<rparr>)))
        (\<lambda>e. Inr (no_fields
             \<lparr>name := JStr ''STOWE'', updatedAt := JStr (now w), source := JStr url\<rparr>)))\<close>

definition stratton :: "world \<Rightarrow> error + mountain" where
  \<open>stratton w =
     (let url = ''https://www.stratton.com/the-mountain/mountain-report.aspx'' in
      try_catch
        (and_then (fetchHTML w url) (\<lambda>p.
           Inr (no_fields
             \<lparr>name := JStr ''STRATTON'',
              base := parseInches w (JStr (text_of p ''[data-field="base-depth"]'')),
              newSnow24 := parseInches w (JStr (text_of p ''[data-field="overnight-snowfall"]'')),
              trailsOpen := parseInt2 w (JStr (text_of p ''[data-field="open-trails"]'')),
              trailsTotal := parseInt2 w (JStr (text_of p ''[data-field="total-trails"]'')),
              liftsOpen := parseInt2 w (JStr (text_of p ''[data-field="open-lifts"]'')),
              surface := js_or (JStr (trim (text_of p ''[data-field="surface-conditions"]''))) JNull,
              status := JStr ''Open'',
              updatedAt := JStr (now w),
              source := JStr url\<rparr>)))
        (\<lambda>e. Inr (no_fields
             \<lparr>name := JStr ''STRATTON'', updatedAt := JStr (now w), source := JStr url\<rparr>)))\<close>

definition sugarbush :: "world \<Rightarrow> error + mountain" where
  \<open>sugarbush w =
     (let url = ''https://www.sugarbush.com/mountain-info/mountain-report/'' in
      try_catch
        (and_then (fetchHTML w url) (\<lambda>p.
           Inr (no_fields
             \<lparr>name := JStr ''SUGARBUSH'',
              base := parseInches w (JStr (text_of p ''.base-depth, [class*="base"]'')),
              newSnow24 := parseInches w (JStr (text_of p ''[class*="24hour"], [class*="overnight"]'')),
              trailsOpen := parseInt2 w (JStr (text_of p ''[class*="trails-open"]'')),
              trailsTotal := parseInt2 w (JStr (text_of p ''[class*="trails-total"]'')),
              liftsOpen := parseInt2 w (JStr (text_of p ''[class*="lifts-open"]'')),
              surface := js_or (JStr (trim (text_of p ''[class*="surface"]''))) JNull,
              status := JStr ''Open'',
              updatedAt := JStr (now w),
              source := JStr url\<rparr>)))
        (\<lambda>e. Inr (no_fields
             \<lparr>name := JStr ''SUGARBUSH'', updatedAt := JStr (now w), source := JStr url\<rparr>)))\<close>

definition pico :: "world \<Rightarrow> error + mountain" where
  \<open>pico w =
     (let url = ''https://www.picomountain.com/the-mountain/snow-report'' in
      try_catch
        (and_then (fetchHTML w url) (\<lambda>p.
           Inr (no_fields
             \<lparr>name := JStr ''PICO MTN'',
              base := parseInches w (JStr (text_of p ''[class*="base"]'')),
              newSnow24 := parseInches w (JStr (text_of p ''[class*="overnight"], [class*="24"]'')),
              trailsOpen := parseInt2 w (JStr (text_of p ''[class*="trails-open"]'')),
              trailsTotal := parseInt2 w (JStr (text_of p ''[class*="trails-total"]'')),
              surface := js_or (JStr (trim (text_of p ''[class*="surface"]''))) JNull,
              status := JStr ''Open'',
              updatedAt := JStr (now w),
              source := JStr url\<rparr>)))
        (\<lambda>e. Inr (no_fields
             \<lparr>name := JStr ''PICO MTN'', updatedAt := JStr (now w), source := JStr url\<rparr>)))\<close>

definition okemo :: "world \<Rightarrow> error + mountain" where
  \<open>okemo w =
     (let url = ''https://www.okemo.com/the-mountain/mountain-report.aspx'' in
      try_catch
        (and_then (fetchHTML w url) (\<lambda>p.
           Inr (no_fields
             \<lparr>name := JStr ''OKEMO'',
              base := parseInches w (JStr (text_of p ''[data-field="base-depth"]'')),
              newSnow24 := parseInches w (JStr (text_of p ''[data-field="overnight-snowfall"]'')),
              trailsOpen := parseInt2 w (JStr (text_of p ''[data-field="open-trails"]'')),
              trailsTotal := parseInt2 w (JStr (text_of p ''[data-field="total-trails"]'')),
              surface := js_or (JStr (trim (text_of p ''[data-field="surface-conditions"]''))) JNull,
              status := JStr ''Open'',
              updatedAt := JStr (now w),
              source := JStr url\<rparr>)))
        (\<lambda>e. Inr (no_fields
             \<lparr>name := JStr ''OKEMO'', updatedAt := JStr (now w), source := JStr url\<rparr>)))\<close>

definition mountSnow :: "world \<Rightarrow> error + mountain" where
  \<open>mountSnow w =
     (let url = ''https://www.mountsnow.com/the-mountain/mountain-report.aspx'' in
      try_catch
        (and_then (fetchHTML w url) (\<lambda>p.
           Inr (no_fields
             \<lparr>name := JStr ''MOUNT SNOW'',
              base := parseInches w (JStr (text_of p ''[data-field="base-depth"]'')),
              newSnow24 := parseInches w (JStr (text_of p ''[data-field="overnight-snowfall"]'')),
              trailsOpen := parseInt2 w (JStr (text_of p ''[data-field="open-trails"]'')),
              trailsTotal := parseInt2 w (JStr (text_of p ''[data-field="total-trails"]'')),
              surface := js_or (JStr (trim (text_of p ''[data-field="surface-conditions"]''))) JNull,
              status := JStr ''Open'',
              updatedAt := JStr (now w),
              source := JStr url\<rparr>)))
        (\<lambda>e. Inr (no_fields
             \<lparr>name := JStr ''MOUNT SNOW'', updatedAt := JStr (now w), source := JStr url\<rparr>)))\<close>

text \<open>
  The loop of \<^verbatim>\<open>jayPeak\<close> over the report rows: each row may overwrite members
  of \<^verbatim>\<open>tableData\<close>, chosen by what its lower-cased, trimmed label includes.
\<close>

definition table_row :: "jsobj \<Rightarrow> string \<times> string \<Rightarrow> jsobj" where
  "table_row tableData row =
     (let label = trim (toLowerCase (fst row));
          val = JStr (trim (snd row));
          t1 = (if js_includes label ''base'' then tableData(''base'' \<mapsto> val) else tableData);
          t2 = (if js_includes label ''24'' then t1(''new24'' \<mapsto> val) else t1);
          t3 = (if js_includes label ''48'' then t2(''new48'' \<mapsto> val) else t2);
          t4 = (if js_includes label ''season'' then t3(''season'' \<mapsto> val) else t3)
      in if js_includes label ''open'' \<and> js_includes label ''trail''
         then t4(''trailsOpen'' \<mapsto> val) else t4)"

definition jayPeak :: "world \<Rightarrow> error + mountain" where
  \<open>jayPeak w =
     (let url = ''https://jaypeakresort.com/mountain-report'' in
      try_catch
        (and_then (fetchHTML w url) (\<lambda>p.
           let baseText = JStr (text_of p ''[class*="snow-depth"], [class*="base-depth"]'');
               newSnowText = JStr (text_of p ''[class*="new-snow"], [class*="overnight"]'');
               seasonText = JStr (text_of p ''[class*="season-total"]'');
               tableData = foldl table_row Map.empty (report_rows p)
           in Inr (no_fields
             \<lparr>name := JStr ''JAY PEAK'',
              base := parseInches w (js_or baseText (get tableData ''base'')),
              newSnow24 := parseInches w (js_or newSnowText (get tableData ''new24'')),
              newSnow48 := parseInches w (get tableData ''new48''),
              trailsOpen := parseInt2 w (js_or (JStr (text_of p ''[class*="trails-open"]'')) (get tableData ''trailsOpen'')),
              trailsTotal := parseInt2 w (JStr (text_of p ''[class*="trails-total"]'')),
              season := parseInches w (js_or seasonText (get tableData ''season'')),
              surface := js_or (JStr (trim (text_of p ''[class*="surface"]''))) JNull,
              status := JStr ''Open'',
              updatedAt := JStr (now w),
              source := JStr url\<rparr>)))
        (\<lambda>e. Inr (no_fields
             \<lparr>name := JStr ''JAY PEAK'', updatedAt := JStr (now w), source := JStr url\<rparr>)))\<close>

definition burke :: "world \<Rightarrow> error + mountain" where
  \<open>burke w =
     (let url = ''https://skiburke.com/mountain/conditions/'' in
      try_catch
        (and_then (fetchHTML w url) (\<lambda>p.
           Inr (no_fields
             \<lparr>name := JStr ''BURKE MTN'',
              base := parseInches w (JStr (text_of p ''[class*="base"]'')),
              newSnow24 := parseInches w (JStr (text_of p ''[class*="overnight"], [class*="new-snow"]'')),
              trailsOpen := parseInt2 w (JStr (text_of p ''[class*="open"]'')),
              surface := js_or (JStr (trim (text_of p ''[class*="surface"], [class*="condition"]''))) JNull,
              status := JStr ''Open'',
              updatedAt := JStr (now w),
              source := JStr url\<rparr>)))
        (\<lambda>e. Inr (no_fields
             \<lparr>name := JStr ''BURKE MTN'', updatedAt := JStr (now w), source := JStr url\<rparr>)))\<close>

definition boltonValley :: "world \<Rightarrow> error + mountain" where
  \<open>boltonValley w =
     (let url = ''https://www.boltonvalley.com/conditions/'' in
      try_catch
        (and_then (fetchHTML w url) (\<lambda>p.
           Inr (no_fields
             \<lparr>name := JStr ''BOLTON VALLEY'',
              base := parseInches w (JStr (text_of p ''[class*="base"]'')),
              newSnow24 := parseInches w (JStr (text_of p ''[class*="24"], [class*="overnight"]'')),
              trailsOpen := parseInt2 w (JStr (text_of p ''[class*="open"]'')),
              season := parseInches w (JStr (text_of p ''[class*="season"]'')),
              surface := js_or (JStr (trim (text_of p ''[class*="surface"]''))) JNull,
              status := JStr ''Open'',
              updatedAt := JStr (now w),
              source := JStr url\<rparr>)))
        (\<lambda>e. Inr (no_fields
             \<lparr>name := JStr ''BOLTON VALLEY'', updatedAt := JStr (now w), source := JStr url\<rparr>)))\<close>

definition magic :: "world \<Rightarrow> error + mountain" where
  \<open>magic w =
     (let url = ''https://www.magicmtn.com/conditions/'' in
      try_catch
        (and_then (fetchHTML w url) (\<lambda>p.
           Inr (no_fields
             \<lparr>name := JStr ''MAGIC MTN'',
              base := parseInches w (JStr (text_of p ''[class*="base"]'')),
              newSnow24 := parseInches w (JStr (text_of p ''[class*="new"], [class*="overnight"]'')),
              trailsOpen := parseInt2 w (JStr (text_of p ''[class*="open"]'')),
              season := parseInches w (JStr (text_of p ''[class*="season"]'')),
              status := JStr ''Open'',
              updatedAt := JStr (now w),
              source := JStr url\<rparr>)))
        (\<lambda>e. Inr (no_fields
             \<lparr>name := JStr ''MAGIC MTN'', updatedAt := JStr (now w), source := JStr url\<rparr>)))\<close>

definition hunter :: "world \<Rightarrow> error + mountain" where
  \<open>hunter w =
     (let url = ''https://www.huntermtn.com/the-mountain/mountain-report.aspx'' in
      try_catch
        (and_then (fetchHTML w url) (\<lambda>p.
           Inr (no_fields
             \<lparr>name := JStr ''HUNTER MTN'',
              base := parseInches w (JStr (text_of p ''[data-field="base-depth"]'')),
              newSnow24 := parseInches w (JStr (text_of p ''[data-field="overnight-snowfall"]'')),
              trailsOpen := parseInt2 w (JStr (text_of p ''[data-field="open-trails"]'')),
              trailsTotal := parseInt2 w (JStr (text_of p ''[data-field="total-trails"]'')),
              surface := js_or (JStr (trim (text_of p ''[data-field="surface-conditions"]''))) JNull,
              status := JStr ''Open'',
              updatedAt := JStr (now w),
              source := JStr url\<rparr>)))
        (\<lambda>e. Inr (no_fields
             \<lparr>name := JStr ''HUNTER MTN'', updatedAt := JStr (now w), source := JStr url\<rparr>)))\<close>

definition whiteface :: "world \<Rightarrow> error + mountain" where
  \<open>whiteface w =
     (let url = ''https://www.whiteface.com/mountain-report'' in
      try_catch
        (and_then (fetchHTML w url) (\<lambda>p.
           Inr (no_fields
             \<lparr>name := JStr ''WHITEFACE'',
              base := parseInches w (JStr (text_of p ''[class*="base"]'')),
              summit := parseInches w (JStr (text_of p ''[class*="summit"]'')),
              newSnow24 := parseInches w (JStr (text_of p ''[class*="24"], [class*="overnight"]'')),
              trailsOpen := parseInt2 w (JStr (text_of p ''[class*="trails-open"], [class*="open-trails"]'')),
              trailsTotal := parseInt2 w (JStr (text_of p ''[class*="trails-total"]'')),
              liftsOpen := parseInt2 w (JStr (text_of p ''[class*="lifts-open"]'')),
              surface := js_or (JStr (trim (text_of p ''[class*="surface"]''))) JNull,
              status := JStr ''Open'',
              updatedAt := JStr (now w),
              source := JStr url\<rparr>)))
        (\<lambda>e. Inr (no_fields
             \<lparr>name := JStr ''WHITEFACE'', updatedAt := JStr (now w), source := JStr url\<rparr>)))\<close>

definition gore :: "world \<Rightarrow> error + mountain" where
  \<open>gore w =
     (let url = ''https://www.goremountain.com/mountain-report'' in
      try_catch
        (and_then (fetchHTML w url) (\<lambda>p.
           Inr (no_fields
             \<lparr>name := JStr ''GORE MTN'',
              base := parseInches w (JStr (text_of p ''[class*="base"]'')),
              newSnow24 := parseInches w (JStr (text_of p ''[class*="24"], [class*="overnight"]'')),
              trailsOpen := parseInt2 w (JStr (text_of p ''[class*="trails-open"]'')),
              trailsTotal := parseInt2 w (JStr (text_of p ''[class*="trails-total"]'')),
              surface := js_or (JStr (trim (text_of p ''[class*="surface"]''))) JNull,
              status := JStr ''Open'',
              updatedAt := JStr (now w),
              source := JStr url\<rparr>)))
        (\<lambda>e. Inr (no_fields
             \<lparr>name := JStr ''GORE MTN'', updatedAt := JStr (now w), source := JStr url\<rparr>)))\<close>

definition belleayre :: "world \<Rightarrow> error + mountain" where
  \<open>belleayre w =
     (let url = ''https://www.belleayre.com/mountain-report'' in
      try_catch
        (and_then (fetchHTML w url) (\<lambda>p.
           Inr (no_fields
             \<lparr>name := JStr ''BELLEAYRE'',
              base := parseInches w (JStr (text_of p ''[class*="base"]'')),
              newSnow24 := parseInches w (JStr (text_of p ''[class*="24"], [class*="overnight"]'')),
              trailsOpen := parseInt2 w (JStr (text_of p ''[class*="open"]'')),
              surface := js_or (JStr (trim (text_of p ''[class*="surface"]''))) JNull,
              status := JStr ''Open'',
              updatedAt := JStr (now w),
              source := JStr url\<rparr>)))
        (\<lambda>e. Inr (no_fields
             \<lparr>name := JStr ''BELLEAYRE'', updatedAt := JStr (now w), source := JStr url\<rparr>)))\<close>

definition catamount :: "world \<Rightarrow> error + mountain" where
  \<open>catamount w =
     (let url = ''https://www.catamountski.com/mountain-report/'' in
      try_catch
        (and_then (fetchHTML w url) (\<lambda>p.
           Inr (no_fields
             \<lparr>name := JStr ''CATAMOUNT'',
              base := parseInches w (JStr (text_of p ''[class*="base"]'')),
              newSnow24 := parseInches w (JStr (text_of p ''[class*="overnight"], [class*="new"]'')),
              trailsOpen := parseInt2 w (JStr (text_of p ''[class*="open"]'')),
              status := JStr ''Open'',
              updatedAt := JStr (now w),
              source := JStr url\<rparr>)))
        (\<lambda>e. Inr (no_fields
             \<lparr>name := JStr ''CATAMOUNT'', updatedAt := JStr (now w), source := JStr url\<rparr>)))\<close>

definition greekPeak :: "world \<Rightarrow> error + mountain" where
  \<open>greekPeak w =
     (let url = ''https://www.greekpeak.net/mountain-report/'' in
      try_catch
        (and_then (fetchHTML w url) (\<lambda>p.
           Inr (no_fields
             \<lparr>name := JStr ''GREEK PEAK'',
              base := parseInches w (JStr (text_of p ''[class*="base"]'')),
              newSnow24 := parseInches w (JStr (text_of p ''[class*="overnight"], [class*="new"]'')),
              trailsOpen := parseInt2 w (JStr (text_of p ''[class*="open"]'')),
              status := JStr ''Open'',
              updatedAt := JStr (now w),
              source := JStr url\<rparr>)))
        (\<lambda>e. Inr (no_fields
             \<lparr>name := JStr ''GREEK PEAK'', updatedAt := JStr (now w), source := JStr url\<rparr>)))\<close>

definition westMtn :: "world \<Rightarrow> error + mountain" where
  \<open>westMtn w =
     (let url = ''https://www.westmtn.net/conditions/'' in
      try_catch
        (and_then (fetchHTML w url) (\<lambda>p.
           Inr (no_fields
             \<lparr>name := JStr ''WEST MTN'',
              base := parseInches w (JStr (text_of p ''[class*="base"]'')),
              newSnow24 := parseInches w (JStr (text_of p ''[class*="overnight"], [class*="new"]'')),
              trailsOpen := parseInt2 w (JStr (text_of p ''[class*="open"]'')),
              status := JStr ''Open'',
              updatedAt := JStr (now w),
              source := JStr url\<rparr>)))
        (\<lambda>e. Inr (no_fields
             \<lparr>name := JStr ''WEST MTN'', updatedAt := JStr (now w), source := JStr url\<rparr>)))\<close>

definition camelback :: "world \<Rightarrow> error + mountain" where
  \<open>camelback w =
     (let url = ''https://www.camelbackresort.com/ski-snow/conditions/'' in
      try_catch
        (and_then (fetchHTML w url) (\<lambda>p.
           Inr (no_fields
             \<lparr>name := JStr ''CAMELBACK'',
              base := parseInches w (JStr (text_of p ''[class*="base"]'')),
              newSnow24 := parseInches w (JStr (text_of p ''[class*="24"], [class*="overnight"]'')),
              trailsOpen := parseInt2 w (JStr (text_of p ''[class*="trails-open"], [class*="open-trails"]'')),
              trailsTotal := parseInt2 w (JStr (text_of p ''[class*="trails-total"]'')),
              surface := js_or (JStr (trim (text_of p ''[class*="surface"]''))) JNull,
              status := JStr ''Open'',
              updatedAt := JStr (now w),
              source := JStr url\<rparr>)))
        (\<lambda>e. Inr (no_fields
             \<lparr>name := JStr ''CAMELBACK'', updatedAt := JStr (now w), source := JStr url\<rparr>)))\<close>

definition blueMtnPA :: "world \<Rightarrow> error + mountain" where
  \<open>blueMtnPA w =
     (let url = ''https://www.skibluemt.com/mountain/conditions/'' in
      try_catch
        (and_then (fetchHTML w url) (\<lambda>p.
           Inr (no_fields
             \<lparr>name := JStr ''BLUE MTN PA'',
              base := parseInches w (JStr (text_of p ''[class*="base"]'')),
              newSnow24 := parseInches w (JStr (text_of p ''[class*="24"], [class*="overnight"]'')),
              trailsOpen := parseInt2 w (JStr (text_of p ''[class*="open"]'')),
              surface := js_or (JStr (trim (text_of p ''[class*="surface"]''))) JNull,
              status := JStr ''Open'',
              updatedAt := JStr (now w),
              source := JStr url\<rparr>)))
        (\<lambda>e. Inr (no_fields
             \<lparr>name := JStr ''BLUE MTN PA'', updatedAt := JStr (now w), source := JStr url\<rparr>)))\<close>

definition shawnee :: "world \<Rightarrow> error + mountain" where
  \<open>shawnee w =
     (let url = ''https://www.shawneemt.com/mountain/conditions/'' in
      try_catch
        (and_then (fetchHTML w url) (\<lambda>p.
           Inr (no_fields
             \<lparr>name := JStr ''SHAWNEE MTN'',
              base := parseInches w (JStr (text_of p ''[class*="base"]'')),
              newSnow24 := parseInches w (JStr (text_of p ''[class*="overnight"], [class*="24"]'')),
              trailsOpen := parseInt2 w (JStr (text_of p ''[class*="open"]'')),
              status := JStr ''Open'',
              updatedAt := JStr (now w),
              source := JStr url\<rparr>)))
        (\<lambda>e. Inr (no_fields
             \<lparr>name := JStr ''SHAWNEE MTN'', updatedAt := JStr (now w), source := JStr url\<rparr>)))\<close>

definition sundayRiver :: "world \<Rightarrow> error + mountain" where
  \<open>sundayRiver w =
     (let url = ''https://www.sundayriver.com/the-mountain/mountain-report.aspx'' in
      try_catch
        (and_then (fetchHTML w url) (\<lambda>p.
           Inr (no_fields
             \<lparr>name := JStr ''SUNDAY RIVER'',
              base := parseInches w (JStr (text_of p ''[data-field="base-depth"]'')),
              summit := parseInches w (JStr (text_of p ''[data-field="summit-depth"]'')),
              newSnow24 := parseInches w (JStr (text_of p ''[data-field="overnight-snowfall"]'')),
              newSnow48 := parseInches w (JStr (text_of p ''[data-field="48hr-snowfall"]'')),
              trailsOpen := parseInt2 w (JStr (text_of p ''[data-field="open-trails"]'')),
              trailsTotal := parseInt2 w (JStr (text_of p ''[data-field="total-trails"]'')),
              liftsOpen := parseInt2 w (JStr (text_of p ''[data-field="open-lifts"]'')),
              surface := js_or (JStr (trim (text_of p ''[data-field="surface-conditions"]''))) JNull,
              status := JStr ''Open'',
              updatedAt := JStr (now w),
              source := JStr url\<rparr>)))
        (\<lambda>e. Inr (no_fields
             \<lparr>name := JStr ''SUNDAY RIVER'', updatedAt := JStr (now w), source := JStr url\<rparr>)))\<close>

definition sugarloaf :: "world \<Rightarrow> error + mountain" where
  \<open>sugarloaf w =
     (let url = ''https://www.sugarloaf.com/the-mountain/mountain-report.aspx'' in
      try_catch
        (and_then (fetchHTML w url) (\<lambda>p.
           Inr (no_fields
             \<lparr>name := JStr ''SUGARLOAF'',
              base := parseInches w (JStr (text_of p ''[data-field="base-depth"]'')),
              summit := parseInches w (JStr (text_of p ''[data-field="summit-depth"]'')),
              newSnow24 := parseInches w (JStr (text_of p ''[data-field="overnight-snowfall"]'')),
              trailsOpen := parseInt2 w (JStr (text_of p ''[data-field="open-trails"]'')),
              trailsTotal := parseInt2 w (JStr (text_of p ''[data-field="total-trails"]'')),
              surface := js_or (JStr (trim (text_of p ''[data-field="surface-conditions"]''))) JNull,
              season := parseInches w (JStr (text_of p ''[data-field="season-total"]'')),
              status := JStr ''Open'',
              updatedAt := JStr (now w),
              source := JStr url\<rparr>)))
        (\<lambda>e. Inr (no_fields
             \<lparr>name := JStr ''SUGARLOAF'', updatedAt := JStr (now w), source := JStr url\<rparr>)))\<close>

definition saddleback :: "world \<Rightarrow> error + mountain" where
  \<open>saddleback w =
     (let url = ''https://www.saddlebackmaine.com/conditions/'' in
      try_catch
        (and_then (fetchHTML w url) (\<lambda>p.
           Inr (no_fields
             \<lparr>name := JStr ''SADDLEBACK'',
              base := parseInches w (JStr (text_of p ''[class*="base"]'')),
              newSnow24 := parseInches w (JStr (text_of p ''[class*="24"], [class*="overnight"]'')),
              trailsOpen := parseInt2 w (JStr (text_of p ''[class*="open"]'')),
              season := parseInches w (JStr (text_of p ''[class*="season"]'')),
              status := JStr ''Open'',
              updatedAt := JStr (now w),
              source := JStr url\<rparr>)))
        (\<lambda>e. Inr (no_fields
             \<lparr>name := JStr ''SADDLEBACK'', updatedAt := JStr (now w), source := JStr url\<rparr>)))\<close>

definition loon :: "world \<Rightarrow> error + mountain" where
  \<open>loon w =
     (let url = ''https://www.loonmtn.com/the-mountain/mountain-report.aspx'' in
      try_catch
        (and_then (fetchHTML w url) (\<lambda>p.
           Inr (no_fields
             \<lparr>name := JStr ''LOON MTN'',
              base := parseInches w (JStr (text_of p ''[data-field="base-depth"]'')),
              newSnow24 := parseInches w (JStr (text_of p ''[data-field="overnight-snowfall"]'')),
              trailsOpen := parseInt2 w (JStr (text_of p ''[data-field="open-trails"]'')),
              trailsTotal := parseInt2 w (JStr (text_of p ''[data-field="total-trails"]'')),
              surface := js_or (JStr (trim (text_of p ''[data-field="surface-conditions"]''))) JNull,
              status := JStr ''Open'',
              updatedAt := JStr (now w),
              source := JStr url\<rparr>)))
        (\<lambda>e. Inr (no_fields
             \<lparr>name := JStr ''LOON MTN'', updatedAt := JStr (now w), source := JStr url\<rparr>)))\<close>

definition attitash :: "world \<Rightarrow> error + mountain" where
  \<open>attitash w =
     (let url = ''https://www.attitash.com/the-mountain/mountain-report.aspx'' in
      try_catch
        (and_then (fetchHTML w url) (\<lambda>p.
           Inr (no_fields
             \<lparr>name := JStr ''ATTITASH'',
              base := parseInches w (JStr (text_of p ''[data-field="base-depth"]'')),
              newSnow24 := parseInches w (JStr (text_of p ''[data-field="overnight-snowfall"]'')),
              trailsOpen := parseInt2 w (JStr (text_of p ''[data-field="open-trails"]'')),
              surface := js_or (JStr (trim (text_of p ''[data-field="surface-conditions"]''))) JNull,
              status := JStr ''Open'',
              updatedAt := JStr (now w),
              source := JStr url\<rparr>)))
        (\<lambda>e. Inr (no_fields
             \<lparr>name := JStr ''ATTITASH'', updatedAt := JStr (now w), source := JStr url\<rparr>)))\<close>

definition wildcat :: "world \<Rightarrow> error + mountain" where
  \<open>wildcat w =
     (let url = ''https://www.skiwildcat.com/the-mountain/mountain-report.aspx'' in
      try_catch
        (and_then (fetchHTML w url) (\<lambda>p.
           Inr (no_fields
             \<lparr>name := JStr ''WILDCAT'',
              base := parseInches w (JStr (text_of p ''[data-field="base-depth"]'')),
              newSnow24 := parseInches w (JStr (text_of p ''[data-field="overnight-snowfall"]'')),
              trailsOpen := parseInt2 w (JStr (text_of p ''[data-field="open-trails"]'')),
              surface := js_or (JStr (trim (text_of p ''[data-field="surface-conditions"]''))) JNull,
              status := JStr ''Open'',
              updatedAt := JStr (now w),
              source := JStr url\<rparr>)))
        (\<lambda>e. Inr (no_fields
             \<lparr>name := JStr ''WILDCAT'', updatedAt := JStr (now w), source := JStr url\<rparr>)))\<close>

definition cannon :: "world \<Rightarrow> error + mountain" where
  \<open>cannon w =
     (let url = ''https://www.cannonmt.com/mountain-report/'' in
      try_catch
        (and_then (fetchHTML w url) (\<lambda>p.
           Inr (no_fields
             \<lparr>name := JStr ''CANNON MTN'',
              base := parseInches w (JStr (text_of p ''[class*="base"]'')),
              newSnow24 := parseInches w (JStr (text_of p ''[class*="overnight"], [class*="24"]'')),
              trailsOpen := parseInt2 w (JStr (text_of p ''[class*="open"]'')),
              trailsTotal := parseInt2 w (JStr (text_of p ''[class*="total"]'')),
              season := parseInches w (JStr (text_of p ''[class*="season"]'')),
              surface := js_or (JStr (trim (text_of p ''[class*="surface"]''))) JNull,
              status := JStr ''Open'',
              updatedAt := JStr (now w),
              source := JStr url\<rparr>)))
        (\<lambda>e. Inr (no_fields
             \<lparr>name := JStr ''CANNON MTN'', updatedAt := JStr (now w), source := JStr url\<rparr>)))\<close>

definition watervilleValley :: "world \<Rightarrow> error + mountain" where
  \<open>watervilleValley w =
     (let url = ''https://www.waterville.com/mountain-report/'' in
      try_catch
        (and_then (fetchHTML w url) (\<lambda>p.
           Inr (no_fields
             \<lparr>name := JStr ''WATERVILLE VLY'',
              base := parseInches w (JStr (text_of p ''[class*="base"]'')),
              newSnow24 := parseInches w (JStr (text_of p ''[class*="overnight"], [class*="24"]'')),
              trailsOpen := parseInt2 w (JStr (text_of p ''[class*="open"]'')),
              status := JStr ''Open'',
              updatedAt := JStr (now w),
              source := JStr url\<rparr>)))
        (\<lambda>e. Inr (no_fields
             \<lparr>name := JStr ''WATERVILLE VLY'', updatedAt := JStr (now w), source := JStr url\<rparr>)))\<close>

definition tremblant :: "world \<Rightarrow> error + mountain" where
  \<open>tremblant w =
     (let url = ''https://www.tremblant.ca/api/mountain-conditions'';
          fallbackUrl = ''https://www.tremblant.ca/en/ski/conditions'' in
      try_catch
        (and_then (fetchJSON w url) (\<lambda>data.
         and_then (doc_get data ''conditions'') (\<lambda>a.
         and_then (member_view (if target_truthy a then a else doc_itself data)) (\<lambda>d.
           Inr (no_fields
             \<lparr>name := JStr ''MONT-TREMBLANT'',
              base := js_or (cmToIn (d ''baseDepthCm'')) (parseInches w (d ''baseDepth'')),
              summit := cmToIn (d ''summitDepthCm''),
              newSnow24 := js_or (cmToIn (d ''newSnow24hCm'')) (parseInches w (d ''newSnow24h'')),
              trailsOpen := parseInt2 w (js_or (d ''openTrails'') (d ''openRuns'')),
              trailsTotal := parseInt2 w (js_or (d ''totalTrails'') (d ''totalRuns'')),
              liftsOpen := parseInt2 w (d ''openLifts''),
              surface := js_or (js_or (d ''surfaceConditions'') (d ''surface'')) JNull,
              season := js_or (cmToIn (d ''seasonTotalCm'')) (parseInches w (d ''seasonTotal'')),
              status := js_or (d ''status'') (JStr ''Open''),
              updatedAt := JStr (now w),
              source := JStr url\<rparr>)))))
        (\<lambda>e.
           try_catch
             (and_then (fetchHTML w fallbackUrl) (\<lambda>p.
                Inr (no_fields
                  \<lparr>name := JStr ''MONT-TREMBLANT'',
                   base := parseInches w (JStr (text_of p ''[class*="base"], [class*="neige"]'')),
                   newSnow24 := parseInches w (JStr (text_of p ''[class*="24h"], [class*="overnight"]'')),
                   trailsOpen := parseInt2 w (JStr (text_of p ''[class*="open"], [class*="ouvert"]'')),
                   status := JStr ''Open'',
                   updatedAt := JStr (now w),
                   source := JStr fallbackUrl\<rparr>)))
             (\<lambda>e2. Inr (no_fields
                  \<lparr>name := JStr ''MONT-TREMBLANT'', updatedAt := JStr (now w),
                   source := JStr fallbackUrl\<rparr>))))\<close>

definition leMassif :: "world \<Rightarrow> error + mountain" where
  \<open>leMassif w =
     (let url = ''https://www.lemassif.com/en/mountain/conditions/'' in
      try_catch
        (and_then (fetchHTML w url) (\<lambda>p.
           Inr (no_fields
             \<lparr>name := JStr ''LE MASSIF'',
              base := js_or
                        (cmToIn (JNum (num_times
                           (to_number (parseInches w (JStr (text_of p ''[class*="base"], [class*="neige"]''))))
                           c2_54)))
                        (parseInches w (JStr (text_of p ''[class*="base"]''))),
              newSnow24 := parseInches w (JStr (text_of p ''[class*="24"], [class*="chute"]'')),
              trailsOpen := parseInt2 w (JStr (text_of p ''[class*="open"], [class*="ouvert"]'')),
              season := parseInches w (JStr (text_of p ''[class*="season"], [class*="saison"]'')),
              status := JStr ''Open'',
              updatedAt := JStr (now w),
              source := JStr url\<rparr>)))
        (\<lambda>e. Inr (no_fields
             \<lparr>name := JStr ''LE MASSIF'', updatedAt := JStr (now w), source := JStr url\<rparr>)))\<close>

definition montSteAnne :: "world \<Rightarrow> error + mountain" where
  \<open>montSteAnne w =
     (let url = ''https://www.mont-sainte-anne.com/en/ski/conditions/'' in
      try_catch
        (and_then (fetchHTML w url) (\<lambda>p.
           Inr (no_fields
             \<lparr>name := JStr ''MONT-STE-ANNE'',
              base := parseInches w (JStr (text_of p ''[class*="base"], [class*="neige"]'')),
              newSnow24 := parseInches w (JStr (text_of p ''[class*="24"], [class*="overnight"]'')),
              trailsOpen := parseInt2 w (JStr (text_of p ''[class*="open"], [class*="ouvert"]'')),
              status := JStr ''Open'',
              updatedAt := JStr (now w),
              source := JStr url\<rparr>)))
        (\<lambda>e. Inr (no_fields
             \<lparr>name := JStr ''MONT-STE-ANNE'', updatedAt := JStr (now w), source := JStr url\<rparr>)))\<close>

text \<open>The registry, with each function's \<^verbatim>\<open>name\<close>.\<close>

definition ALL_SCRAPERS :: "(string \<times> (world \<Rightarrow> error + mountain)) list" where
  "ALL_SCRAPERS =
    [(''mountainCreek'', mountainCreek),
     (''killington'', killington),
     (''stowe'', stowe),
     (''stratton'', stratton),
     (''sugarbush'', sugarbush),
     (''pico'', pico),
     (''okemo'', okemo),
     (''mountSnow'', mountSnow),
     (''jayPeak'', jayPeak),
     (''burke'', burke),
     (''boltonValley'', boltonValley),
     (''magic'', magic),
     (''hunter'', hunter),
     (''whiteface'', whiteface),
     (''gore'', gore),
     (''belleayre'', belleayre),
     (''catamount'', catamount),
     (''greekPeak'', greekPeak),
     (''westMtn'', westMtn),
     (''camelback'', camelback),
     (''blueMtnPA'', blueMtnPA),
     (''shawnee'', shawnee),
     (''sundayRiver'', sundayRiver),
     (''sugarloaf'', sugarloaf),
     (''saddleback'', saddleback),
     (''loon'', loon),
     (''attitash'', attitash),
     (''wildcat'', wildcat),
     (''cannon'', cannon),
     (''watervilleValley'', watervilleValley),
     (''tremblant'', tremblant),
     (''leMassif'', leMassif),
     (''montSteAnne'', montSteAnne)]"

text \<open>
  \<^verbatim>\<open>runAllScrapers\<close>: the loop over the settled results, on the state
  \<open>(results, count)\<close> (\<open>count\<close> is \<^verbatim>\<open>successCount\<close>); \<open>fnName\<close> is the \<^verbatim>\<open>name\<close> of the function.
\<close>

definition settled_step :: "world \<Rightarrow> mountain list \<times> nat \<Rightarrow> string \<times> mountain settled \<Rightarrow> mountain list \<times> nat" where
  "settled_step w st x =
     (case x of (fnName, result) \<Rightarrow>
      case st of (results, count) \<Rightarrow>
        (case result of
           Fulfilled data \<Rightarrow>
             (results @ [data], if \<not> nullish (base data) then count + 1 else count)
         | Rejected reason \<Rightarrow>
             (results @ [no_fields\<lparr>name := JStr (toUpperCase fnName), updatedAt := JStr (now w)\<rparr>],
              count)))"

definition runAllScrapers_resort :: "world \<Rightarrow> snapshot" where
  "runAllScrapers_resort w =
     (let settled = map (\<lambda>(fnName, fn). (fnName, settle (fn w))) ALL_SCRAPERS;
          (results, count) = foldl (settled_step w) ([], 0) settled
      in \<lparr>mountains = results, scrapedAt = now w,
          successCount = count, totalCount = length ALL_SCRAPERS\<rparr>)"

section \<open>Storage and the trigger\<close>

text \<open>
  \<^verbatim>\<open>storage.js\<close> (in \<^verbatim>\<open>src/lib/scrapers.js\<close>) and the handler of
  \<^verbatim>\<open>/api/scrape\<close> (in \<^verbatim>\<open>src/lib/test-scrapers.js\<close>).
\<close>

definition LOCAL_FILE :: string where
  "LOCAL_FILE = ''/tmp/njskihaus-cache.json''"

definition KV_KEY :: string where
  "KV_KEY = ''conditions_v1''"

text \<open>An environment variable counts as true when it is set and not empty.\<close>

definition env_truthy :: "world \<Rightarrow> string \<Rightarrow> bool" where
  "env_truthy w k = (case env w k of Some v \<Rightarrow> v \<noteq> [] | None \<Rightarrow> False)"

definition kvSet :: "world \<Rightarrow> string \<Rightarrow> stored \<Rightarrow> bool" where
  "kvSet w key val =
     (case kv_set w key val (60 * 60 * 36) of Inr u \<Rightarrow> True | Inl e \<Rightarrow> False)"

definition localSet :: "world \<Rightarrow> stored \<Rightarrow> bool" where
  "localSet w val =
     (case writeFileSync w LOCAL_FILE val of Inr u \<Rightarrow> True | Inl e \<Rightarrow> False)"

definition isProduction :: "world \<Rightarrow> bool" where
  "isProduction w = (env_truthy w ''KV_URL'' \<or> env_truthy w ''KV_REST_API_URL'')"

definition setData :: "world \<Rightarrow> snapshot \<Rightarrow> bool" where
  "setData w val =
     (let payload = \<lparr>mountains = mountains val, scrapedAt = scrapedAt val,
                     successCount = successCount val, totalCount = totalCount val,
                     storedAt = now w\<rparr>
      in if isProduction w then kvSet w KV_KEY payload else localSet w payload)"

text \<open>
  The request, as the handler reads it: the \<^verbatim>\<open>authorization\<close> header and the
  parsed query, whose members are text or, for a repeated parameter, a list of texts.
\<close>

datatype qval = QString string | QArray "string list"

record request =
  authorization :: "string option"
  query :: "(string \<rightharpoonup> qval) option"

record summary =
  sum_name :: jsval
  sum_base :: jsval
  sum_new24 :: jsval
  sum_ok :: bool

record result_body =
  body_ok :: bool
  body_scrapedAt :: string
  body_successCount :: nat
  body_totalCount :: nat
  body_saved :: bool
  body_mountains :: "summary list"

text \<open>The JSON bodies of the three answers: 401 (ok, error, hint), 200, 500 (ok, error).\<close>

datatype body = DeniedBody bool string string | ResultBody result_body | FatalBody bool string

datatype reply = Reply nat body

definition validCron :: "world \<Rightarrow> request \<Rightarrow> bool" where
  "validCron w req =
     (case env w ''CRON_SECRET'' of
        Some cronSecret \<Rightarrow>
          cronSecret \<noteq> [] \<and> authorization req = Some (''Bearer '' @ cronSecret)
      | None \<Rightarrow> False)"

definition validManual :: "world \<Rightarrow> request \<Rightarrow> bool" where
  "validManual w req =
     (case env w ''CRON_SECRET'' of
        Some cronSecret \<Rightarrow>
          cronSecret \<noteq> [] \<and>
          (case query req of
             Some q \<Rightarrow> q ''secret'' = Some (QString cronSecret)
           | None \<Rightarrow> False)
      | None \<Rightarrow> False)"

definition noSecret :: "world \<Rightarrow> bool" where
  "noSecret w = (\<not> env_truthy w ''CRON_SECRET'')"

text \<open>
  The handler, for either pipeline: \<open>run\<close> is \<^verbatim>\<open>runAllScrapers\<close> of the module
  the deployment requires.
\<close>

definition handler :: "(world \<Rightarrow> error + snapshot) \<Rightarrow> world \<Rightarrow> request \<Rightarrow> reply" where
  "handler run w req =
     (if \<not> noSecret w \<and> \<not> validCron w req \<and> \<not> validManual w req
      then Reply 401 (DeniedBody False ''Unauthorized''
             ''Pass ?secret=YOUR_CRON_SECRET or set CRON_SECRET env var to skip auth in dev'')
      else
        (case run w of
           Inr results \<Rightarrow>
             let saved = setData w results in
             Reply 200 (ResultBody
               \<lparr>body_ok = True,
                body_scrapedAt = scrapedAt results,
                body_successCount = successCount results,
                body_totalCount = totalCount results,
                body_saved = saved,
                body_mountains =
                  map (\<lambda>m. \<lparr>sum_name = name m, sum_base = base m, sum_new24 = newSnow24 m,
                             sum_ok = (\<not> nullish (base m))\<rparr>) (mountains results)\<rparr>)
         | Inl err \<Rightarrow> Reply 500 (FatalBody False (message err))))"

section \<open>Example environments\<close>

text \<open>
  Concrete inputs on which the theorems below are run. \<open>example_numstr\<close> formats
  integers (below \<open>2 ^ 53\<close>) as JavaScript does.
\<close>

definition example_numstr :: "jsnum \<Rightarrow> string" where
  "example_numstr n =
     (case n of
        NaN \<Rightarrow> ''NaN''
      | PInf \<Rightarrow> ''Infinity''
      | NInf \<Rightarrow> ''-Infinity''
      | Fin q \<Rightarrow> (if q < 0 then ''-'' else []) @ show_nat (nat \<lfloor>\<bar>q\<bar>\<rfloor>))"

text \<open>
  Vermont's feed lists the same resort under two registered spellings; New York's
  answers 503; every other request fails, and so does every write to storage. No
  secret is configured.
\<close>

definition killington_entry :: jsobj where
  "killington_entry = [''resort_name'' \<mapsto> JStr ''Killington Resort'', ''base_depth'' \<mapsto> JStr ''58'']"

definition killington_entry2 :: jsobj where
  "killington_entry2 = [''resort_name'' \<mapsto> JStr ''Killington'']"

definition vt_feed :: feed where
  "vt_feed = FeedArray [killington_entry, killington_entry2]"

definition vt_world :: world where
  "vt_world =
     \<lparr>now = ''2026-02-23T12:00:00.000Z'',
      numstr = example_numstr,
      env = Map.empty,
      fetch = (\<lambda>url.
        if url = ''https://feeds.snocountry.net/conditions.json?apiKey=SnoCountry.example&states=VT''
        then Inr \<lparr>http_status = 200, text_json = Inr vt_feed,
                  json = Inl (SyntaxError ''Unexpected token''),
                  html = Inl (FetchError ''body used already'')\<rparr>
        else if url = ''https://feeds.snocountry.net/conditions.json?apiKey=SnoCountry.example&states=NY''
        then Inr \<lparr>http_status = 503, text_json = Inl (SyntaxError ''Unexpected token''),
                  json = Inl (SyntaxError ''Unexpected token''),
                  html = Inl (FetchError ''body used already'')\<rparr>
        else Inl (FetchError ''request failed'')),
      kv_set = (\<lambda>k v t. Inl (Error ''kv unavailable'')),
      writeFileSync = (\<lambda>f v. Inl (Error ''EACCES''))\<rparr>"

text \<open>What the SnoCountry pipeline returns there.\<close>

definition killington_record :: mountain where
  "killington_record =
     \<lparr>name = JStr ''Killington Resort'', base = JNum (Fin 58), summit = JNull,
      newSnow24 = JNull, newSnow48 = JNull, newSnow7d = JNull, trailsOpen = JNull,
      trailsTotal = JNull, liftsOpen = JNull, liftsTotal = JNull, surface = JNull,
      season = JNull, status = JStr ''Open'', updatedAt = JStr ''2026-02-23T12:00:00.000Z'',
      source = JStr ''SnoCountry''\<rparr>"

definition killington_record2 :: mountain where
  "killington_record2 =
     \<lparr>name = JStr ''Killington'', base = JNull, summit = JNull,
      newSnow24 = JNull, newSnow48 = JNull, newSnow7d = JNull, trailsOpen = JNull,
      trailsTotal = JNull, liftsOpen = JNull, liftsTotal = JNull, surface = JNull,
      season = JNull, status = JStr ''Open'', updatedAt = JStr ''2026-02-23T12:00:00.000Z'',
      source = JStr ''SnoCountry''\<rparr>"

definition vt_snapshot :: snapshot where
  "vt_snapshot =
     \<lparr>mountains = [killington_record, killington_record2],
      scrapedAt = ''2026-02-23T12:00:00.000Z'', successCount = 1, totalCount = 2\<rparr>"

text \<open>What \<open>mountainCreek\<close> returns there, its request having failed.\<close>

definition creek_degraded :: mountain where
  "creek_degraded =
     no_fields\<lparr>name := JStr ''MOUNTAIN CREEK'', updatedAt := JStr ''2026-02-23T12:00:00.000Z'',
               source := JStr ''https://www.mountaincreek.com/mountain/snow-report''\<rparr>"

text \<open>The same environment with a secret configured.\<close>

definition secret_world :: world where
  "secret_world = vt_world\<lparr>env := [''CRON_SECRET'' \<mapsto> ''s3cret'']\<rparr>"

text \<open>Tremblant's JSON endpoint answers with a depth in centimetres.\<close>

definition tremblant_world :: world where
  "tremblant_world =
     vt_world\<lparr>fetch := (\<lambda>url.
        if url = ''https://www.tremblant.ca/api/mountain-conditions''
        then Inr \<lparr>http_status = 200, text_json = Inl (FetchError ''body used already''),
                  json = Inr (DocObject Map.empty [''baseDepthCm'' \<mapsto> JNum (Fin 142)]),
                  html = Inl (FetchError ''body used already'')\<rparr>
        else Inl (FetchError ''request failed''))\<rparr>"

text \<open>
  Tremblant's JSON endpoint answers with \<^verbatim>\<open>null\<close> and every other request fails;
  what \<open>tremblant\<close> returns there.
\<close>

definition null_world :: world where
  "null_world =
     vt_world\<lparr>fetch := (\<lambda>url.
        if url = ''https://www.tremblant.ca/api/mountain-conditions''
        then Inr \<lparr>http_status = 200, text_json = Inl (FetchError ''body used already''),
                  json = Inr (DocScalar JNull),
                  html = Inl (FetchError ''body used already'')\<rparr>
        else Inl (FetchError ''request failed''))\<rparr>"

definition tremblant_degraded :: mountain where
  "tremblant_degraded =
     no_fields\<lparr>name := JStr ''MONT-TREMBLANT'', updatedAt := JStr ''2026-02-23T12:00:00.000Z'',
               source := JStr ''https://www.tremblant.ca/en/ski/conditions''\<rparr>"

text \<open>The binary64 numbers nearest to 6.35 and to 39.37, as depths in centimetres.\<close>

definition cm_6_35 :: rat where
  "cm_6_35 = 3574732204225331 / 562949953421312"

definition cm_39_37 :: rat where
  "cm_39_37 = 5540834916549263 / 140737488355328"

text \<open>An entry that reports a depth of zero, and the same entry without the depth.\<close>

definition zero_entry :: jsobj where
  "zero_entry = [''resort_name'' \<mapsto> JStr ''Stowe'', ''base_depth'' \<mapsto> JStr ''0'',
                 ''open_lifts'' \<mapsto> JStr ''0'']"

definition bare_entry :: jsobj where
  "bare_entry = [''resort_name'' \<mapsto> JStr ''Stowe'']"

text \<open>What the parser returns for either of them in \<open>vt_world\<close>.\<close>

definition stowe_record :: mountain where
  "stowe_record =
     \<lparr>name = JStr ''Stowe'', base = JNull, summit = JNull,
      newSnow24 = JNull, newSnow48 = JNull, newSnow7d = JNull, trailsOpen = JNull,
      trailsTotal = JNull, liftsOpen = JNull, liftsTotal = JNull, surface = JNull,
      season = JNull, status = JStr ''Open'', updatedAt = JStr ''2026-02-23T12:00:00.000Z'',
      source = JStr ''SnoCountry''\<rparr>"

declare show_nat.simps [simp del]

section \<open>Auxiliary facts\<close>

subsection \<open>Rounding to binary64\<close>

lemma pow2_powi: "pow2 k = 2 powi k"
  by (simp add: pow2_def power_int_def field_simps)

lemma pow2_pos: "0 < pow2 k" by (simp add: pow2_powi)

lemma pow2_add: "pow2 (a + b) = pow2 a * pow2 b"
  by (simp add: pow2_powi power_int_add)


lemma of_int_pow2_le: "(2::int) ^ n \<le> k \<Longrightarrow> (2::rat) ^ n \<le> of_int k"
  by (metis of_int_le_iff of_int_numeral of_int_power)

lemma of_int_less_pow2: "k < (2::int) ^ n \<Longrightarrow> (of_int k :: rat) < 2 ^ n"
  by (metis of_int_less_iff of_int_numeral of_int_power)

lemma ilog2_lower:
  assumes "0 < x"
  shows "pow2 (ilog2 x) \<le> x"
proof (cases "1 \<le> x")
  case True
  then have n: "0 < \<lfloor>x\<rfloor>" by linarith
  then have b: "1 \<le> bitlen \<lfloor>x\<rfloor>" by (simp add: bitlen_alt_def)
  from bitlen_bounds[OF n] have "(2::int) ^ nat (bitlen \<lfloor>x\<rfloor> - 1) \<le> \<lfloor>x\<rfloor>" ..
  then have "(2::rat) ^ nat (bitlen \<lfloor>x\<rfloor> - 1) \<le> of_int \<lfloor>x\<rfloor>" by (rule of_int_pow2_le)
  also have "\<dots> \<le> x" by simp
  finally show ?thesis using True b by (simp add: ilog2_def pow2_def)
next
  case False
  let ?m = "\<lceil>1 / x\<rceil> - 1"
  from assms False have y: "1 < 1 / x" by simp
  then have m: "0 < ?m" by linarith
  then have b: "1 \<le> bitlen ?m" by (simp add: bitlen_alt_def)
  from bitlen_bounds[OF m] have "?m < 2 ^ nat (bitlen ?m)" ..
  then have "(of_int ?m :: rat) < 2 ^ nat (bitlen ?m)" by (rule of_int_less_pow2)
  moreover have "1 / x \<le> of_int ?m + 1" by (simp add: le_of_int_ceiling)
  moreover have "(of_int ?m :: rat) + 1 \<le> 2 ^ nat (bitlen ?m)"
  proof -
    from \<open>?m < 2 ^ nat (bitlen ?m)\<close> have "?m + 1 \<le> 2 ^ nat (bitlen ?m)" by simp
    then have "(of_int (?m + 1) :: rat) \<le> of_int (2 ^ nat (bitlen ?m))" by (simp only: of_int_le_iff)
    then show ?thesis by simp
  qed
  ultimately have "1 / x \<le> 2 ^ nat (bitlen ?m)" by linarith
  with assms have "1 / 2 ^ nat (bitlen ?m) \<le> x" by (simp add: field_simps)
  then show ?thesis using False b by (simp add: ilog2_def pow2_def)
qed

lemma ilog2_upper:
  assumes "0 < x"
  shows "x < pow2 (ilog2 x + 1)"
proof (cases "1 \<le> x")
  case True
  then have n: "0 < \<lfloor>x\<rfloor>" by linarith
  then have b: "1 \<le> bitlen \<lfloor>x\<rfloor>" by (simp add: bitlen_alt_def)
  from bitlen_bounds[OF n] have "\<lfloor>x\<rfloor> < 2 ^ nat (bitlen \<lfloor>x\<rfloor>)" ..
  then have "\<lfloor>x\<rfloor> + 1 \<le> 2 ^ nat (bitlen \<lfloor>x\<rfloor>)" by simp
  then have "(of_int (\<lfloor>x\<rfloor> + 1) :: rat) \<le> of_int (2 ^ nat (bitlen \<lfloor>x\<rfloor>))" by (simp only: of_int_le_iff)
  then have "(of_int \<lfloor>x\<rfloor> :: rat) + 1 \<le> 2 ^ nat (bitlen \<lfloor>x\<rfloor>)" by simp
  moreover have "x < of_int \<lfloor>x\<rfloor> + 1" by linarith
  ultimately have "x < 2 ^ nat (bitlen \<lfloor>x\<rfloor>)" by linarith
  then show ?thesis using True b by (simp add: ilog2_def pow2_def)
next
  case False
  let ?m = "\<lceil>1 / x\<rceil> - 1"
  from assms False have y: "1 < 1 / x" by simp
  then have m: "0 < ?m" by linarith
  then have b: "1 \<le> bitlen ?m" by (simp add: bitlen_alt_def)
  from bitlen_bounds[OF m] have "(2::int) ^ nat (bitlen ?m - 1) \<le> ?m" ..
  then have "(2::rat) ^ nat (bitlen ?m - 1) \<le> of_int ?m" by (rule of_int_pow2_le)
  moreover have "(of_int ?m :: rat) < 1 / x" by linarith
  ultimately have "(2::rat) ^ nat (bitlen ?m - 1) < 1 / x" by linarith
  with assms have "x < 1 / 2 ^ nat (bitlen ?m - 1)" by (simp add: field_simps)
  moreover have "- bitlen ?m + 1 \<le> 0" using b by simp
  ultimately show ?thesis using False b
    by (cases "bitlen ?m = 1") (simp_all add: ilog2_def pow2_def)
qed

lemma round_even_near: "\<bar>of_int (round_even y) - y\<bar> \<le> (1 / 2 :: rat)"
proof -
  have "of_int \<lfloor>y\<rfloor> \<le> y" "y < of_int \<lfloor>y\<rfloor> + 1" by linarith+
  then show ?thesis by (auto simp: round_even_def Let_def)
qed

text \<open>
  The rounding error is at most half a unit in the last place: a relative error of
  \<open>2 ^ - 53\<close>, or \<open>2 ^ - 1075\<close> among the subnormal numbers.
\<close>

lemma round_grid:
  "\<bar>of_int (round_even (x / pow2 e)) * pow2 e - x\<bar> \<le> pow2 e / 2"
proof -
  have p: "0 < pow2 e" by (rule pow2_pos)
  have "\<bar>of_int (round_even (x / pow2 e)) - x / pow2 e\<bar> \<le> 1 / 2" by (rule round_even_near)
  then have "\<bar>of_int (round_even (x / pow2 e)) - x / pow2 e\<bar> * pow2 e \<le> 1 / 2 * pow2 e"
    using p by (intro mult_right_mono) simp_all
  moreover have "\<bar>of_int (round_even (x / pow2 e)) - x / pow2 e\<bar> * pow2 e
      = \<bar>of_int (round_even (x / pow2 e)) * pow2 e - x\<bar>"
  proof -
    have "\<bar>of_int (round_even (x / pow2 e)) - x / pow2 e\<bar> * pow2 e
        = \<bar>(of_int (round_even (x / pow2 e)) - x / pow2 e) * pow2 e\<bar>"
      using p by (simp add: abs_mult)
    also have "(of_int (round_even (x / pow2 e)) - x / pow2 e) * pow2 e
        = of_int (round_even (x / pow2 e)) * pow2 e - x"
      using p by (simp add: field_simps)
    finally show ?thesis .
  qed
  ultimately show ?thesis by simp
qed

lemma ulp_bound:
  assumes "x \<noteq> 0"
  shows "pow2 (max (ilog2 \<bar>x\<bar> - 52) (- 1074)) / 2 \<le> \<bar>x\<bar> / 2 ^ 53 + 1 / 2 ^ 1075"
proof (cases "- 1074 \<le> ilog2 \<bar>x\<bar> - 52")
  case True
  then have "max (ilog2 \<bar>x\<bar> - 52) (- 1074) = ilog2 \<bar>x\<bar> + (- 52)" by simp
  then have "pow2 (max (ilog2 \<bar>x\<bar> - 52) (- 1074)) = pow2 (ilog2 \<bar>x\<bar>) * pow2 (- 52)"
    by (simp only: pow2_add)
  also have "\<dots> \<le> \<bar>x\<bar> * pow2 (- 52)"
    using assms by (intro mult_right_mono ilog2_lower) (simp_all add: pow2_def)
  finally have "pow2 (max (ilog2 \<bar>x\<bar> - 52) (- 1074)) / 2 \<le> \<bar>x\<bar> / 2 ^ 53" by (simp add: pow2_def)
  then show ?thesis by (simp add: add_increasing2)
next
  case False
  then have "max (ilog2 \<bar>x\<bar> - 52) (- 1074) = - 1074" by simp
  then have "pow2 (max (ilog2 \<bar>x\<bar> - 52) (- 1074)) / 2 = 1 / 2 ^ 1075" by (simp add: pow2_def)
  then show ?thesis by simp
qed

lemma fl_error:
  assumes "fl x = Fin y"
  shows "\<bar>y - x\<bar> \<le> \<bar>x\<bar> / 2 ^ 53 + 1 / 2 ^ 1075"
proof (cases "x = 0")
  case True
  with assms show ?thesis by (simp add: fl_def)
next
  case False
  have "y = of_int (round_even (x / pow2 (max (ilog2 \<bar>x\<bar> - 52) (- 1074))))
            * pow2 (max (ilog2 \<bar>x\<bar> - 52) (- 1074))"
    using assms False unfolding fl_def Let_def by (auto split: if_splits)
  then have "\<bar>y - x\<bar> \<le> pow2 (max (ilog2 \<bar>x\<bar> - 52) (- 1074)) / 2"
    by (simp only: round_grid)
  with ulp_bound[OF False] show ?thesis by linarith
qed

lemma fl_finite:
  assumes "\<bar>x\<bar> \<le> 2 ^ 1023"
  shows "\<exists>y. fl x = Fin y"
proof (cases "x = 0")
  case True
  then show ?thesis by (simp add: fl_def)
next
  case False
  define y where "y = of_int (round_even (x / pow2 (max (ilog2 \<bar>x\<bar> - 52) (- 1074))))
            * pow2 (max (ilog2 \<bar>x\<bar> - 52) (- 1074))"
  have "\<bar>y - x\<bar> \<le> pow2 (max (ilog2 \<bar>x\<bar> - 52) (- 1074)) / 2"
    unfolding y_def by (rule round_grid)
  with ulp_bound[OF False] have e: "\<bar>y - x\<bar> \<le> \<bar>x\<bar> / 2 ^ 53 + 1 / 2 ^ 1075" by linarith
  have "\<bar>x\<bar> / 2 ^ 53 \<le> (2 ^ 1023 :: rat) / 2 ^ 53" using assms by (simp add: divide_right_mono)
  moreover have "(2 ^ 1023 :: rat) / 2 ^ 53 + 1 / 2 ^ 1075 + 2 ^ 1023 < 2 ^ 1024" by simp
  ultimately have "\<bar>y\<bar> < 2 ^ 1024" using e assms by linarith
  then show ?thesis using False unfolding fl_def Let_def y_def[symmetric] by simp
qed

text \<open>A binary64 number is a value that rounding leaves as it is.\<close>

lemma binary64_bound:
  assumes "fl c = Fin c"
  shows "\<bar>c\<bar> < 2 ^ 1024"
proof (cases "c = 0")
  case True
  then show ?thesis by simp
next
  case False
  with assms show ?thesis
    unfolding fl_def Let_def by (auto split: if_splits)
qed

lemma num_over_binary64: "fl c = Fin c \<Longrightarrow> num_over (Fin c) k = fl (c / k)"
  by (simp add: num_over_def to_binary64_def)

lemma fl_0: "fl 0 = Fin 0"
  by (simp add: fl_def)

lemma fl_58: "fl 58 = Fin 58"
  by code_simp

text \<open>The literal \<^verbatim>\<open>2.54\<close>.\<close>

lemma c2_54_literal: "fl (254 / 100) = Fin c2_54"
  unfolding c2_54_def by code_simp

subsection \<open>Outcomes of \<^verbatim>\<open>try\<close>/\<^verbatim>\<open>catch\<close>\<close>

lemma and_then_Inr: "and_then x f = Inr y \<longleftrightarrow> (\<exists>a. x = Inr a \<and> f a = Inr y)"
  by (cases x) (simp_all add: and_then_def)

lemma fetchHTML_offline:
  "\<forall>v. isl (fetchHTML w v) \<and> isl (fetchJSON w v) \<Longrightarrow> fetchHTML w url = Inr p \<Longrightarrow> False"
proof -
  assume off: "\<forall>v. isl (fetchHTML w v) \<and> isl (fetchJSON w v)" and ok: "fetchHTML w url = Inr p"
  from off have "isl (fetchHTML w url)" by blast
  with ok show False by simp
qed

lemma fetchJSON_offline:
  "\<forall>v. isl (fetchHTML w v) \<and> isl (fetchJSON w v) \<Longrightarrow> fetchJSON w url = Inr d \<Longrightarrow> False"
proof -
  assume off: "\<forall>v. isl (fetchHTML w v) \<and> isl (fetchJSON w v)" and ok: "fetchJSON w url = Inr d"
  from off have "isl (fetchJSON w url)" by blast
  with ok show False by simp
qed

lemma fetch_fails:
  assumes "\<forall>v. isl (fetch w v)"
  shows "\<forall>v. isl (fetchHTML w v) \<and> isl (fetchJSON w v)"
proof
  fix v
  from assms have "isl (fetch w v)" by blast
  then obtain e where "fetch w v = Inl e" by (cases "fetch w v") auto
  then show "isl (fetchHTML w v) \<and> isl (fetchJSON w v)"
    by (simp add: fetchHTML_def fetchJSON_def fetchPage_def try_catch_def and_then_def)
qed

text \<open>The shape of an adapter with one source: a page is read or the catch branch answers.\<close>

lemma html_adapter:
  assumes F: "\<And>p. name (F p) = JStr c \<and> updatedAt (F p) = JStr (now w) \<and> source (F p) = JStr url"
    and url: "url \<noteq> []"
    and c: "c \<in> snd ` set NAME_MAP"
  shows "\<exists>m k u. try_catch (and_then (fetchHTML w url) (\<lambda>p. Inr (F p)))
            (\<lambda>e. Inr (no_fields\<lparr>name := JStr c, updatedAt := JStr (now w), source := JStr url\<rparr>)) = Inr m
          \<and> name m = JStr k \<and> k \<in> snd ` set NAME_MAP
          \<and> updatedAt m = JStr (now w) \<and> source m = JStr u \<and> u \<noteq> []
          \<and> ((\<forall>v. isl (fetchHTML w v) \<and> isl (fetchJSON w v)) \<longrightarrow>
               m = no_fields\<lparr>name := JStr k, updatedAt := JStr (now w), source := JStr u\<rparr>)"
proof (cases "fetchHTML w url")
  case (Inl e)
  then have "try_catch (and_then (fetchHTML w url) (\<lambda>p. Inr (F p)))
            (\<lambda>e. Inr (no_fields\<lparr>name := JStr c, updatedAt := JStr (now w), source := JStr url\<rparr>))
        = Inr (no_fields\<lparr>name := JStr c, updatedAt := JStr (now w), source := JStr url\<rparr>)"
    by (simp add: try_catch_def and_then_def)
  moreover have "name (no_fields\<lparr>name := JStr c, updatedAt := JStr (now w), source := JStr url\<rparr>) = JStr c"
    "updatedAt (no_fields\<lparr>name := JStr c, updatedAt := JStr (now w), source := JStr url\<rparr>) = JStr (now w)"
    "source (no_fields\<lparr>name := JStr c, updatedAt := JStr (now w), source := JStr url\<rparr>) = JStr url"
    by simp_all
  ultimately show ?thesis using url c by blast
next
  case (Inr p)
  then have on: "\<not> (\<forall>v. isl (fetchHTML w v) \<and> isl (fetchJSON w v))" using fetchHTML_offline by blast
  have "try_catch (and_then (fetchHTML w url) (\<lambda>p. Inr (F p)))
            (\<lambda>e. Inr (no_fields\<lparr>name := JStr c, updatedAt := JStr (now w), source := JStr url\<rparr>))
        = Inr (F p)"
    using Inr by (simp add: try_catch_def and_then_def)
  with F[of p] url on c show ?thesis by blast
qed

text \<open>The shape of an adapter with a JSON source and a fallback page.\<close>

lemma json_adapter:
  assumes B: "\<And>m. B = Inr m \<Longrightarrow> name m = JStr c \<and> updatedAt m = JStr (now w) \<and> source m = JStr url"
    and off: "\<And>m. \<forall>v. isl (fetchHTML w v) \<and> isl (fetchJSON w v) \<Longrightarrow> B = Inr m \<Longrightarrow> False"
    and F: "\<And>p. name (F p) = JStr c \<and> updatedAt (F p) = JStr (now w) \<and> source (F p) = JStr fb"
    and url: "url \<noteq> []" "fb \<noteq> []"
    and c: "c \<in> snd ` set NAME_MAP"
  shows "\<exists>m k u. try_catch B (\<lambda>e. try_catch (and_then (fetchHTML w fb) (\<lambda>p. Inr (F p)))
            (\<lambda>e2. Inr (no_fields\<lparr>name := JStr c, updatedAt := JStr (now w), source := JStr fb\<rparr>))) = Inr m
          \<and> name m = JStr k \<and> k \<in> snd ` set NAME_MAP
          \<and> updatedAt m = JStr (now w) \<and> source m = JStr u \<and> u \<noteq> []
          \<and> ((\<forall>v. isl (fetchHTML w v) \<and> isl (fetchJSON w v)) \<longrightarrow>
               m = no_fields\<lparr>name := JStr k, updatedAt := JStr (now w), source := JStr u\<rparr>)"
proof (cases B)
  case (Inr m)
  then have on: "\<not> (\<forall>v. isl (fetchHTML w v) \<and> isl (fetchJSON w v))" using off by blast
  have "try_catch B (\<lambda>e. try_catch (and_then (fetchHTML w fb) (\<lambda>p. Inr (F p)))
            (\<lambda>e2. Inr (no_fields\<lparr>name := JStr c, updatedAt := JStr (now w), source := JStr fb\<rparr>)))
        = Inr m"
    using Inr by (simp add: try_catch_def)
  with B[OF Inr] url on c show ?thesis by blast
next
  case (Inl e)
  then have "try_catch B (\<lambda>e. try_catch (and_then (fetchHTML w fb) (\<lambda>p. Inr (F p)))
            (\<lambda>e2. Inr (no_fields\<lparr>name := JStr c, updatedAt := JStr (now w), source := JStr fb\<rparr>)))
        = try_catch (and_then (fetchHTML w fb) (\<lambda>p. Inr (F p)))
            (\<lambda>e2. Inr (no_fields\<lparr>name := JStr c, updatedAt := JStr (now w), source := JStr fb\<rparr>))"
    by (simp add: try_catch_def)
  then show ?thesis using html_adapter[of F c w fb, OF F url(2) c] by simp
qed

subsection \<open>Every adapter returns a record\<close>

lemma mountainCreek_returns:
  "\<exists>m k u. mountainCreek w = Inr m \<and> name m = JStr k \<and> k \<in> snd ` set NAME_MAP
      \<and> updatedAt m = JStr (now w) \<and> source m = JStr u \<and> u \<noteq> []
      \<and> ((\<forall>v. isl (fetchHTML w v) \<and> isl (fetchJSON w v)) \<longrightarrow>
           m = no_fields\<lparr>name := JStr k, updatedAt := JStr (now w), source := JStr u\<rparr>)"
  unfolding mountainCreek_def Let_def
  by (rule html_adapter) (simp_all add: NAME_MAP_def)

lemma killington_returns:
  "\<exists>m k u. killington w = Inr m \<and> name m = JStr k \<and> k \<in> snd ` set NAME_MAP
      \<and> updatedAt m = JStr (now w) \<and> source m = JStr u \<and> u \<noteq> []
      \<and> ((\<forall>v. isl (fetchHTML w v) \<and> isl (fetchJSON w v)) \<longrightarrow>
           m = no_fields\<lparr>name := JStr k, updatedAt := JStr (now w), source := JStr u\<rparr>)"
  unfolding killington_def Let_def
  by (rule json_adapter) (auto simp: and_then_Inr NAME_MAP_def dest: fetchJSON_offline)

lemma stowe_returns:
  "\<exists>m k u. stowe w = Inr m \<and> name m = JStr k \<and> k \<in> snd ` set NAME_MAP
      \<and> updatedAt m = JStr (now w) \<and> source m = JStr u \<and> u \<noteq> []
      \<and> ((\<forall>v. isl (fetchHTML w v) \<and> isl (fetchJSON w v)) \<longrightarrow>
           m = no_fields\<lparr>name := JStr k, updatedAt := JStr (now w), source := JStr u\<rparr>)"
  unfolding stowe_def Let_def
  by (rule html_adapter) (simp_all add: NAME_MAP_def)

lemma stratton_returns:
  "\<exists>m k u. stratton w = Inr m \<and> name m = JStr k \<and> k \<in> snd ` set NAME_MAP
      \<and> updatedAt m = JStr (now w) \<and> source m = JStr u \<and> u \<noteq> []
      \<and> ((\<forall>v. isl (fetchHTML w v) \<and> isl (fetchJSON w v)) \<longrightarrow>
           m = no_fields\<lparr>name := JStr k, updatedAt := JStr (now w), source := JStr u\<rparr>)"
  unfolding stratton_def Let_def
  by (rule html_adapter) (simp_all add: NAME_MAP_def)

lemma sugarbush_returns:
  "\<exists>m k u. sugarbush w = Inr m \<and> name m = JStr k \<and> k \<in> snd ` set NAME_MAP
      \<and> updatedAt m = JStr (now w) \<and> source m = JStr u \<and> u \<noteq> []
      \<and> ((\<forall>v. isl (fetchHTML w v) \<and> isl (fetchJSON w v)) \<longrightarrow>
           m = no_fields\<lparr>name := JStr k, updatedAt := JStr (now w), source := JStr u\<rparr>)"
  unfolding sugarbush_def Let_def
  by (rule html_adapter) (simp_all add: NAME_MAP_def)

lemma pico_returns:
  "\<exists>m k u. pico w = Inr m \<and> name m = JStr k \<and> k \<in> snd ` set NAME_MAP
      \<and> updatedAt m = JStr (now w) \<and> source m = JStr u \<and> u \<noteq> []
      \<and> ((\<forall>v. isl (fetchHTML w v) \<and> isl (fetchJSON w v)) \<longrightarrow>
           m = no_fields\<lparr>name := JStr k, updatedAt := JStr (now w), source := JStr u\<rparr>)"
  unfolding pico_def Let_def
  by (rule html_adapter) (simp_all add: NAME_MAP_def)

lemma okemo_returns:
  "\<exists>m k u. okemo w = Inr m \<and> name m = JStr k \<and> k \<in> snd ` set NAME_MAP
      \<and> updatedAt m = JStr (now w) \<and> source m = JStr u \<and> u \<noteq> []
      \<and> ((\<forall>v. isl (fetchHTML w v) \<and> isl (fetchJSON w v)) \<longrightarrow>
           m = no_fields\<lparr>name := JStr k, updatedAt := JStr (now w), source := JStr u\<rparr>)"
  unfolding okemo_def Let_def
  by (rule html_adapter) (simp_all add: NAME_MAP_def)

lemma mountSnow_returns:
  "\<exists>m k u. mountSnow w = Inr m \<and> name m = JStr k \<and> k \<in> snd ` set NAME_MAP
      \<and> updatedAt m = JStr (now w) \<and> source m = JStr u \<and> u \<noteq> []
      \<and> ((\<forall>v. isl (fetchHTML w v) \<and> isl (fetchJSON w v)) \<longrightarrow>
           m = no_fields\<lparr>name := JStr k, updatedAt := JStr (now w), source := JStr u\<rparr>)"
  unfolding mountSnow_def Let_def
  by (rule html_adapter) (simp_all add: NAME_MAP_def)

lemma jayPeak_returns:
  "\<exists>m k u. jayPeak w = Inr m \<and> name m = JStr k \<and> k \<in> snd ` set NAME_MAP
      \<and> updatedAt m = JStr (now w) \<and> source m = JStr u \<and> u \<noteq> []
      \<and> ((\<forall>v. isl (fetchHTML w v) \<and> isl (fetchJSON w v)) \<longrightarrow>
           m = no_fields\<lparr>name := JStr k, updatedAt := JStr (now w), source := JStr u\<rparr>)"
  unfolding jayPeak_def Let_def
  by (rule html_adapter) (simp_all add: NAME_MAP_def)

lemma burke_returns:
  "\<exists>m k u. burke w = Inr m \<and> name m = JStr k \<and> k \<in> snd ` set NAME_MAP
      \<and> updatedAt m = JStr (now w) \<and> source m = JStr u \<and> u \<noteq> []
      \<and> ((\<forall>v. isl (fetchHTML w v) \<and> isl (fetchJSON w v)) \<longrightarrow>
           m = no_fields\<lparr>name := JStr k, updatedAt := JStr (now w), source := JStr u\<rparr>)"
  unfolding burke_def Let_def
  by (rule html_adapter) (simp_all add: NAME_MAP_def)

lemma boltonValley_returns:
  "\<exists>m k u. boltonValley w = Inr m \<and> name m = JStr k \<and> k \<in> snd ` set NAME_MAP
      \<and> updatedAt m = JStr (now w) \<and> source m = JStr u \<and> u \<noteq> []
      \<and> ((\<forall>v. isl (fetchHTML w v) \<and> isl (fetchJSON w v)) \<longrightarrow>
           m = no_fields\<lparr>name := JStr k, updatedAt := JStr (now w), source := JStr u\<rparr>)"
  unfolding boltonValley_def Let_def
  by (rule html_adapter) (simp_all add: NAME_MAP_def)

lemma magic_returns:
  "\<exists>m k u. magic w = Inr m \<and> name m = JStr k \<and> k \<in> snd ` set NAME_MAP
      \<and> updatedAt m = JStr (now w) \<and> source m = JStr u \<and> u \<noteq> []
      \<and> ((\<forall>v. isl (fetchHTML w v) \<and> isl (fetchJSON w v)) \<longrightarrow>
           m = no_fields\<lparr>name := JStr k, updatedAt := JStr (now w), source := JStr u\<rparr>)"
  unfolding magic_def Let_def
  by (rule html_adapter) (simp_all add: NAME_MAP_def)

lemma hunter_returns:
  "\<exists>m k u. hunter w = Inr m \<and> name m = JStr k \<and> k \<in> snd ` set NAME_MAP
      \<and> updatedAt m = JStr (now w) \<and> source m = JStr u \<and> u \<noteq> []
      \<and> ((\<forall>v. isl (fetchHTML w v) \<and> isl (fetchJSON w v)) \<longrightarrow>
           m = no_fields\<lparr>name := JStr k, updatedAt := JStr (now w), source := JStr u\<rparr>)"
  unfolding hunter_def Let_def
  by (rule html_adapter) (simp_all add: NAME_MAP_def)

lemma whiteface_returns:
  "\<exists>m k u. whiteface w = Inr m \<and> name m = JStr k \<and> k \<in> snd ` set NAME_MAP
      \<and> updatedAt m = JStr (now w) \<and> source m = JStr u \<and> u \<noteq> []
      \<and> ((\<forall>v. isl (fetchHTML w v) \<and> isl (fetchJSON w v)) \<longrightarrow>
           m = no_fields\<lparr>name := JStr k, updatedAt := JStr (now w), source := JStr u\<rparr>)"
  unfolding whiteface_def Let_def
  by (rule html_adapter) (simp_all add: NAME_MAP_def)

lemma gore_returns:
  "\<exists>m k u. gore w = Inr m \<and> name m = JStr k \<and> k \<in> snd ` set NAME_MAP
      \<and> updatedAt m = JStr (now w) \<and> source m = JStr u \<and> u \<noteq> []
      \<and> ((\<forall>v. isl (fetchHTML w v) \<and> isl (fetchJSON w v)) \<longrightarrow>
           m = no_fields\<lparr>name := JStr k, updatedAt := JStr (now w), source := JStr u\<rparr>)"
  unfolding gore_def Let_def
  by (rule html_adapter) (simp_all add: NAME_MAP_def)

lemma belleayre_returns:
  "\<exists>m k u. belleayre w = Inr m \<and> name m = JStr k \<and> k \<in> snd ` set NAME_MAP
      \<and> updatedAt m = JStr (now w) \<and> source m = JStr u \<and> u \<noteq> []
      \<and> ((\<forall>v. isl (fetchHTML w v) \<and> isl (fetchJSON w v)) \<longrightarrow>
           m = no_fields\<lparr>name := JStr k, updatedAt := JStr (now w), source := JStr u\<rparr>)"
  unfolding belleayre_def Let_def
  by (rule html_adapter) (simp_all add: NAME_MAP_def)

lemma catamount_returns:
  "\<exists>m k u. catamount w = Inr m \<and> name m = JStr k \<and> k \<in> snd ` set NAME_MAP
      \<and> updatedAt m = JStr (now w) \<and> source m = JStr u \<and> u \<noteq> []
      \<and> ((\<forall>v. isl (fetchHTML w v) \<and> isl (fetchJSON w v)) \<longrightarrow>
           m = no_fields\<lparr>name := JStr k, updatedAt := JStr (now w), source := JStr u\<rparr>)"
  unfolding catamount_def Let_def
  by (rule html_adapter) (simp_all add: NAME_MAP_def)

lemma greekPeak_returns:
  "\<exists>m k u. greekPeak w = Inr m \<and> name m = JStr k \<and> k \<in> snd ` set NAME_MAP
      \<and> updatedAt m = JStr (now w) \<and> source m = JStr u \<and> u \<noteq> []
      \<and> ((\<forall>v. isl (fetchHTML w v) \<and> isl (fetchJSON w v)) \<longrightarrow>
           m = no_fields\<lparr>name := JStr k, updatedAt := JStr (now w), source := JStr u\<rparr>)"
  unfolding greekPeak_def Let_def
  by (rule html_adapter) (simp_all add: NAME_MAP_def)

lemma westMtn_returns:
  "\<exists>m k u. westMtn w = Inr m \<and> name m = JStr k \<and> k \<in> snd ` set NAME_MAP
      \<and> updatedAt m = JStr (now w) \<and> source m = JStr u \<and> u \<noteq> []
      \<and> ((\<forall>v. isl (fetchHTML w v) \<and> isl (fetchJSON w v)) \<longrightarrow>
           m = no_fields\<lparr>name := JStr k, updatedAt := JStr (now w), source := JStr u\<rparr>)"
  unfolding westMtn_def Let_def
  by (rule html_adapter) (simp_all add: NAME_MAP_def)

lemma camelback_returns:
  "\<exists>m k u. camelback w = Inr m \<and> name m = JStr k \<and> k \<in> snd ` set NAME_MAP
      \<and> updatedAt m = JStr (now w) \<and> source m = JStr u \<and> u \<noteq> []
      \<and> ((\<forall>v. isl (fetchHTML w v) \<and> isl (fetchJSON w v)) \<longrightarrow>
           m = no_fields\<lparr>name := JStr k, updatedAt := JStr (now w), source := JStr u\<rparr>)"
  unfolding camelback_def Let_def
  by (rule html_adapter) (simp_all add: NAME_MAP_def)

lemma blueMtnPA_returns:
  "\<exists>m k u. blueMtnPA w = Inr m \<and> name m = JStr k \<and> k \<in> snd ` set NAME_MAP
      \<and> updatedAt m = JStr (now w) \<and> source m = JStr u \<and> u \<noteq> []
      \<and> ((\<forall>v. isl (fetchHTML w v) \<and> isl (fetchJSON w v)) \<longrightarrow>
           m = no_fields\<lparr>name := JStr k, updatedAt := JStr (now w), source := JStr u\<rparr>)"
  unfolding blueMtnPA_def Let_def
  by (rule html_adapter) (simp_all add: NAME_MAP_def)

lemma shawnee_returns:
  "\<exists>m k u. shawnee w = Inr m \<and> name m = JStr k \<and> k \<in> snd ` set NAME_MAP
      \<and> updatedAt m = JStr (now w) \<and> source m = JStr u \<and> u \<noteq> []
      \<and> ((\<forall>v. isl (fetchHTML w v) \<and> isl (fetchJSON w v)) \<longrightarrow>
           m = no_fields\<lparr>name := JStr k, updatedAt := JStr (now w), source := JStr u\<rparr>)"
  unfolding shawnee_def Let_def
  by (rule html_adapter) (simp_all add: NAME_MAP_def)

lemma sundayRiver_returns:
  "\<exists>m k u. sundayRiver w = Inr m \<and> name m = JStr k \<and> k \<in> snd ` set NAME_MAP
      \<and> updatedAt m = JStr (now w) \<and> source m = JStr u \<and> u \<noteq> []
      \<and> ((\<forall>v. isl (fetchHTML w v) \<and> isl (fetchJSON w v)) \<longrightarrow>
           m = no_fields\<lparr>name := JStr k, updatedAt := JStr (now w), source := JStr u\<rparr>)"
  unfolding sundayRiver_def Let_def
  by (rule html_adapter) (simp_all add: NAME_MAP_def)

lemma sugarloaf_returns:
  "\<exists>m k u. sugarloaf w = Inr m \<and> name m = JStr k \<and> k \<in> snd ` set NAME_MAP
      \<and> updatedAt m = JStr (now w) \<and> source m = JStr u \<and> u \<noteq> []
      \<and> ((\<forall>v. isl (fetchHTML w v) \<and> isl (fetchJSON w v)) \<longrightarrow>
           m = no_fields\<lparr>name := JStr k, updatedAt := JStr (now w), source := JStr u\<rparr>)"
  unfolding sugarloaf_def Let_def
  by (rule html_adapter) (simp_all add: NAME_MAP_def)

lemma saddleback_returns:
  "\<exists>m k u. saddleback w = Inr m \<and> name m = JStr k \<and> k \<in> snd ` set NAME_MAP
      \<and> updatedAt m = JStr (now w) \<and> source m = JStr u \<and> u \<noteq> []
      \<and> ((\<forall>v. isl (fetchHTML w v) \<and> isl (fetchJSON w v)) \<longrightarrow>
           m = no_fields\<lparr>name := JStr k, updatedAt := JStr (now w), source := JStr u\<rparr>)"
  unfolding saddleback_def Let_def
  by (rule html_adapter) (simp_all add: NAME_MAP_def)

lemma loon_returns:
  "\<exists>m k u. loon w = Inr m \<and> name m = JStr k \<and> k \<in> snd ` set NAME_MAP
      \<and> updatedAt m = JStr (now w) \<and> source m = JStr u \<and> u \<noteq> []
      \<and> ((\<forall>v. isl (fetchHTML w v) \<and> isl (fetchJSON w v)) \<longrightarrow>
           m = no_fields\<lparr>name := JStr k, updatedAt := JStr (now w), source := JStr u\<rparr>)"
  unfolding loon_def Let_def
  by (rule html_adapter) (simp_all add: NAME_MAP_def)

lemma attitash_returns:
  "\<exists>m k u. attitash w = Inr m \<and> name m = JStr k \<and> k \<in> snd ` set NAME_MAP
      \<and> updatedAt m = JStr (now w) \<and> source m = JStr u \<and> u \<noteq> []
      \<and> ((\<forall>v. isl (fetchHTML w v) \<and> isl (fetchJSON w v)) \<longrightarrow>
           m = no_fields\<lparr>name := JStr k, updatedAt := JStr (now w), source := JStr u\<rparr>)"
  unfolding attitash_def Let_def
  by (rule html_adapter) (simp_all add: NAME_MAP_def)

lemma wildcat_returns:
  "\<exists>m k u. wildcat w = Inr m \<and> name m = JStr k \<and> k \<in> snd ` set NAME_MAP
      \<and> updatedAt m = JStr (now w) \<and> source m = JStr u \<and> u \<noteq> []
      \<and> ((\<forall>v. isl (fetchHTML w v) \<and> isl (fetchJSON w v)) \<longrightarrow>
           m = no_fields\<lparr>name := JStr k, updatedAt := JStr (now w), source := JStr u\<rparr>)"
  unfolding wildcat_def Let_def
  by (rule html_adapter) (simp_all add: NAME_MAP_def)

lemma cannon_returns:
  "\<exists>m k u. cannon w = Inr m \<and> name m = JStr k \<and> k \<in> snd ` set NAME_MAP
      \<and> updatedAt m = JStr (now w) \<and> source m = JStr u \<and> u \<noteq> []
      \<and> ((\<forall>v. isl (fetchHTML w v) \<and> isl (fetchJSON w v)) \<longrightarrow>
           m = no_fields\<lparr>name := JStr k, updatedAt := JStr (now w), source := JStr u\<rparr>)"
  unfolding cannon_def Let_def
  by (rule html_adapter) (simp_all add: NAME_MAP_def)

lemma watervilleValley_returns:
  "\<exists>m k u. watervilleValley w = Inr m \<and> name m = JStr k \<and> k \<in> snd ` set NAME_MAP
      \<and> updatedAt m = JStr (now w) \<and> source m = JStr u \<and> u \<noteq> []
      \<and> ((\<forall>v. isl (fetchHTML w v) \<and> isl (fetchJSON w v)) \<longrightarrow>
           m = no_fields\<lparr>name := JStr k, updatedAt := JStr (now w), source := JStr u\<rparr>)"
  unfolding watervilleValley_def Let_def
  by (rule html_adapter) (simp_all add: NAME_MAP_def)

lemma tremblant_returns:
  "\<exists>m k u. tremblant w = Inr m \<and> name m = JStr k \<and> k \<in> snd ` set NAME_MAP
      \<and> updatedAt m = JStr (now w) \<and> source m = JStr u \<and> u \<noteq> []
      \<and> ((\<forall>v. isl (fetchHTML w v) \<and> isl (fetchJSON w v)) \<longrightarrow>
           m = no_fields\<lparr>name := JStr k, updatedAt := JStr (now w), source := JStr u\<rparr>)"
  unfolding tremblant_def Let_def
  by (rule json_adapter) (auto simp: and_then_Inr NAME_MAP_def dest: fetchJSON_offline)

lemma leMassif_returns:
  "\<exists>m k u. leMassif w = Inr m \<and> name m = JStr k \<and> k \<in> snd ` set NAME_MAP
      \<and> updatedAt m = JStr (now w) \<and> source m = JStr u \<and> u \<noteq> []
      \<and> ((\<forall>v. isl (fetchHTML w v) \<and> isl (fetchJSON w v)) \<longrightarrow>
           m = no_fields\<lparr>name := JStr k, updatedAt := JStr (now w), source := JStr u\<rparr>)"
  unfolding leMassif_def Let_def
  by (rule html_adapter) (simp_all add: NAME_MAP_def)

lemma montSteAnne_returns:
  "\<exists>m k u. montSteAnne w = Inr m \<and> name m = JStr k \<and> k \<in> snd ` set NAME_MAP
      \<and> updatedAt m = JStr (now w) \<and> source m = JStr u \<and> u \<noteq> []
      \<and> ((\<forall>v. isl (fetchHTML w v) \<and> isl (fetchJSON w v)) \<longrightarrow>
           m = no_fields\<lparr>name := JStr k, updatedAt := JStr (now w), source := JStr u\<rparr>)"
  unfolding montSteAnne_def Let_def
  by (rule html_adapter) (simp_all add: NAME_MAP_def)

lemmas adapters_return =
  mountainCreek_returns
  killington_returns
  stowe_returns
  stratton_returns
  sugarbush_returns
  pico_returns
  okemo_returns
  mountSnow_returns
  jayPeak_returns
  burke_returns
  boltonValley_returns
  magic_returns
  hunter_returns
  whiteface_returns
  gore_returns
  belleayre_returns
  catamount_returns
  greekPeak_returns
  westMtn_returns
  camelback_returns
  blueMtnPA_returns
  shawnee_returns
  sundayRiver_returns
  sugarloaf_returns
  saddleback_returns
  loon_returns
  attitash_returns
  wildcat_returns
  cannon_returns
  watervilleValley_returns
  tremblant_returns
  leMassif_returns
  montSteAnne_returns


lemma ALL_SCRAPERS_return:
  "\<forall>x \<in> set ALL_SCRAPERS. \<exists>m k u. snd x w = Inr m \<and> name m = JStr k \<and> k \<in> snd ` set NAME_MAP
      \<and> updatedAt m = JStr (now w) \<and> source m = JStr u \<and> u \<noteq> []
      \<and> ((\<forall>v. isl (fetchHTML w v) \<and> isl (fetchJSON w v)) \<longrightarrow>
           m = no_fields\<lparr>name := JStr k, updatedAt := JStr (now w), source := JStr u\<rparr>)"
  unfolding ALL_SCRAPERS_def by (simp only: list.set ball_simps snd_conv adapters_return simp_thms)

subsection \<open>What each adapter returns, source by source\<close>

lemma truthy_js_or: "truthy (js_or a b) = (truthy a \<or> truthy b)"
  by (simp add: js_or_def)

lemma isl_and_then: "isl (and_then x f) \<longleftrightarrow> isl x \<or> (\<exists>a. x = Inr a \<and> isl (f a))"
  by (cases x) (simp_all add: and_then_def)

lemma member_view_truthy: "target_truthy t \<Longrightarrow> \<not> isl (member_view t)"
  by (cases t) (auto elim: nullish.elims)

lemma doc_get_fails: "isl (doc_get d k) \<longleftrightarrow> (\<exists>v. nullish v \<and> d = DocScalar v)"
  by (cases d) (auto simp: doc_get_def)

lemma member_view_doc_itself:
  "\<not> isl (doc_get d k) \<Longrightarrow> \<not> isl (member_view (doc_itself d))"
  by (cases d) (auto simp: doc_get_def split: if_splits)

text \<open>The shape of an adapter with one source.\<close>

lemma html_exact:
  assumes F: "\<And>w p. name (F w p) = JStr c \<and> status (F w p) = JStr ''Open''
                \<and> updatedAt (F w p) = JStr (now w) \<and> source (F w p) = JStr url"
    and c: "c \<noteq> []" and url: "url \<noteq> []"
  shows "\<exists>k j u. k \<noteq> [] \<and> u \<noteq> [] \<and> j \<noteq> Some [] \<and>
          (\<forall>w. \<exists>m. try_catch (and_then (fetchHTML w url) (\<lambda>p. Inr (F w p)))
                    (\<lambda>e. Inr (no_fields\<lparr>name := JStr c, updatedAt := JStr (now w), source := JStr url\<rparr>)) = Inr m
              \<and> name m = JStr k \<and> updatedAt m = JStr (now w)
              \<and> (case j of
                    None \<Rightarrow>
                      if isl (fetchHTML w u)
                      then m = no_fields\<lparr>name := JStr k, updatedAt := JStr (now w), source := JStr u\<rparr>
                         \<and> status m = JUndefined
                      else status m = JStr ''Open'' \<and> source m = JStr u
                  | Some ju \<Rightarrow>
                      if isl (fetchJSON w ju) \<or> (\<exists>v. nullish v \<and> fetchJSON w ju = Inr (DocScalar v))
                      then if isl (fetchHTML w u)
                           then m = no_fields\<lparr>name := JStr k, updatedAt := JStr (now w), source := JStr u\<rparr>
                              \<and> status m = JUndefined
                           else status m = JStr ''Open'' \<and> source m = JStr u
                      else truthy (status m) \<and> source m = JStr ju))"
proof -
  have main: "\<forall>w. \<exists>m. try_catch (and_then (fetchHTML w url) (\<lambda>p. Inr (F w p)))
                    (\<lambda>e. Inr (no_fields\<lparr>name := JStr c, updatedAt := JStr (now w), source := JStr url\<rparr>)) = Inr m
              \<and> name m = JStr c \<and> updatedAt m = JStr (now w)
              \<and> (if isl (fetchHTML w url)
                  then m = no_fields\<lparr>name := JStr c, updatedAt := JStr (now w), source := JStr url\<rparr>
                     \<and> status m = JUndefined
                  else status m = JStr ''Open'' \<and> source m = JStr url)"
  proof
    fix w
    show "\<exists>m. try_catch (and_then (fetchHTML w url) (\<lambda>p. Inr (F w p)))
                    (\<lambda>e. Inr (no_fields\<lparr>name := JStr c, updatedAt := JStr (now w), source := JStr url\<rparr>)) = Inr m
              \<and> name m = JStr c \<and> updatedAt m = JStr (now w)
              \<and> (if isl (fetchHTML w url)
                  then m = no_fields\<lparr>name := JStr c, updatedAt := JStr (now w), source := JStr url\<rparr>
                     \<and> status m = JUndefined
                  else status m = JStr ''Open'' \<and> source m = JStr url)"
    proof (cases "fetchHTML w url")
      case (Inl e)
      then show ?thesis by (simp add: try_catch_def and_then_def no_fields_def)
    next
      case (Inr p)
      then show ?thesis using F[of w p] by (simp add: try_catch_def and_then_def)
    qed
  qed
  from main c url show ?thesis
    by (intro exI[of _ c] exI[of _ None] exI[of _ url]) simp
qed

text \<open>The shape of an adapter with a JSON source and a fallback page.\<close>

lemma json_exact:
  assumes B: "\<And>w m. B w = Inr m \<Longrightarrow>
                name m = JStr c \<and> truthy (status m) \<and> updatedAt m = JStr (now w) \<and> source m = JStr ju"
    and Bf: "\<And>w. isl (B w) \<longleftrightarrow>
                isl (fetchJSON w ju) \<or> (\<exists>v. nullish v \<and> fetchJSON w ju = Inr (DocScalar v))"
    and F: "\<And>w p. name (F w p) = JStr c \<and> status (F w p) = JStr ''Open''
                \<and> updatedAt (F w p) = JStr (now w) \<and> source (F w p) = JStr fb"
    and c: "c \<noteq> []" and fb: "fb \<noteq> []" and ju: "ju \<noteq> []"
  shows "\<exists>k j u. k \<noteq> [] \<and> u \<noteq> [] \<and> j \<noteq> Some [] \<and>
          (\<forall>w. \<exists>m. try_catch (B w) (\<lambda>e. try_catch (and_then (fetchHTML w fb) (\<lambda>p. Inr (F w p)))
                    (\<lambda>e2. Inr (no_fields\<lparr>name := JStr c, updatedAt := JStr (now w), source := JStr fb\<rparr>))) = Inr m
              \<and> name m = JStr k \<and> updatedAt m = JStr (now w)
              \<and> (case j of
                    None \<Rightarrow>
                      if isl (fetchHTML w u)
                      then m = no_fields\<lparr>name := JStr k, updatedAt := JStr (now w), source := JStr u\<rparr>
                         \<and> status m = JUndefined
                      else status m = JStr ''Open'' \<and> source m = JStr u
                  | Some ju \<Rightarrow>
                      if isl (fetchJSON w ju) \<or> (\<exists>v. nullish v \<and> fetchJSON w ju = Inr (DocScalar v))
                      then if isl (fetchHTML w u)
                           then m = no_fields\<lparr>name := JStr k, updatedAt := JStr (now w), source := JStr u\<rparr>
                              \<and> status m = JUndefined
                           else status m = JStr ''Open'' \<and> source m = JStr u
                      else truthy (status m) \<and> source m = JStr ju))"
proof -
  have main: "\<forall>w. \<exists>m. try_catch (B w) (\<lambda>e. try_catch (and_then (fetchHTML w fb) (\<lambda>p. Inr (F w p)))
                    (\<lambda>e2. Inr (no_fields\<lparr>name := JStr c, updatedAt := JStr (now w), source := JStr fb\<rparr>))) = Inr m
              \<and> name m = JStr c \<and> updatedAt m = JStr (now w)
              \<and> (if isl (fetchJSON w ju) \<or> (\<exists>v. nullish v \<and> fetchJSON w ju = Inr (DocScalar v))
                  then if isl (fetchHTML w fb)
                       then m = no_fields\<lparr>name := JStr c, updatedAt := JStr (now w), source := JStr fb\<rparr>
                          \<and> status m = JUndefined
                       else status m = JStr ''Open'' \<and> source m = JStr fb
                  else truthy (status m) \<and> source m = JStr ju)"
  proof
    fix w
    show "\<exists>m. try_catch (B w) (\<lambda>e. try_catch (and_then (fetchHTML w fb) (\<lambda>p. Inr (F w p)))
                    (\<lambda>e2. Inr (no_fields\<lparr>name := JStr c, updatedAt := JStr (now w), source := JStr fb\<rparr>))) = Inr m
              \<and> name m = JStr c \<and> updatedAt m = JStr (now w)
              \<and> (if isl (fetchJSON w ju) \<or> (\<exists>v. nullish v \<and> fetchJSON w ju = Inr (DocScalar v))
                  then if isl (fetchHTML w fb)
                       then m = no_fields\<lparr>name := JStr c, updatedAt := JStr (now w), source := JStr fb\<rparr>
                          \<and> status m = JUndefined
                       else status m = JStr ''Open'' \<and> source m = JStr fb
                  else truthy (status m) \<and> source m = JStr ju)"
    proof (cases "B w")
      case (Inr m)
      with Bf[of w] have cond: "(isl (fetchJSON w ju) \<or> (\<exists>v. nullish v \<and> fetchJSON w ju = Inr (DocScalar v))) = False"
        by simp
      show ?thesis unfolding cond using Inr B[OF Inr] by (simp add: try_catch_def)
    next
      case (Inl e)
      with Bf[of w] have j: "isl (fetchJSON w ju) \<or> (\<exists>v. nullish v \<and> fetchJSON w ju = Inr (DocScalar v))"
        by simp
      show ?thesis
      proof (cases "fetchHTML w fb")
        case (Inl e2)
        with \<open>B w = Inl e\<close> j show ?thesis by (simp add: try_catch_def and_then_def no_fields_def)
      next
        case (Inr p)
        with \<open>B w = Inl e\<close> j show ?thesis using F[of w p] by (simp add: try_catch_def and_then_def)
      qed
    qed
  qed
  from main c fb ju show ?thesis
    by (intro exI[of _ c] exI[of _ "Some ju"] exI[of _ fb]) simp
qed

text \<open>When the JSON part of such an adapter throws.\<close>

lemma json_body2_fails:
  "isl (and_then (fetchJSON w u) (\<lambda>data.
        and_then (doc_get data k1) (\<lambda>a.
        and_then (if target_truthy a then Inr a else doc_get data k2) (\<lambda>b.
        and_then (member_view (if target_truthy b then b else doc_itself data)) (\<lambda>sr.
          Inr (G sr))))))
   \<longleftrightarrow> isl (fetchJSON w u) \<or> (\<exists>v. nullish v \<and> fetchJSON w u = Inr (DocScalar v))"
proof (cases "fetchJSON w u")
  case (Inl e)
  then show ?thesis by (simp add: and_then_def)
next
  case (Inr data)
  show ?thesis
  proof (cases "isl (doc_get data k1)")
    case True
    with Inr show ?thesis by (auto simp: isl_and_then doc_get_fails)
  next
    case False
    then have nf: "\<not> isl (doc_get data k2)" "\<not> (\<exists>v. nullish v \<and> data = DocScalar v)"
      by (simp_all add: doc_get_fails)
    from False obtain a where a: "doc_get data k1 = Inr a" by (cases "doc_get data k1") auto
    from nf obtain b2 where b2: "doc_get data k2 = Inr b2" by (cases "doc_get data k2") auto
    have "\<not> isl (member_view (if target_truthy a then a else if target_truthy b2 then b2 else doc_itself data))"
      using member_view_truthy[of a] member_view_truthy[of b2] member_view_doc_itself[OF False]
      by simp
    then obtain f where
      f: "member_view (if target_truthy a then a else if target_truthy b2 then b2 else doc_itself data) = Inr f"
      by (cases "member_view (if target_truthy a then a else if target_truthy b2 then b2 else doc_itself data)") auto
    have "and_then (doc_get data k1) (\<lambda>a.
        and_then (if target_truthy a then Inr a else doc_get data k2) (\<lambda>b.
        and_then (member_view (if target_truthy b then b else doc_itself data)) (\<lambda>sr.
          Inr (G sr)))) = Inr (G f)"
      using a b2 f by (cases "target_truthy a"; cases "target_truthy b2") (simp_all add: and_then_def)
    then show ?thesis using Inr nf by (simp add: and_then_def)
  qed
qed

lemma json_body1_fails:
  "isl (and_then (fetchJSON w u) (\<lambda>data.
        and_then (doc_get data k1) (\<lambda>a.
        and_then (member_view (if target_truthy a then a else doc_itself data)) (\<lambda>d.
          Inr (G d)))))
   \<longleftrightarrow> isl (fetchJSON w u) \<or> (\<exists>v. nullish v \<and> fetchJSON w u = Inr (DocScalar v))"
proof (cases "fetchJSON w u")
  case (Inl e)
  then show ?thesis by (simp add: and_then_def)
next
  case (Inr data)
  show ?thesis
  proof (cases "isl (doc_get data k1)")
    case True
    with Inr show ?thesis by (auto simp: isl_and_then doc_get_fails)
  next
    case False
    then have nf: "\<not> (\<exists>v. nullish v \<and> data = DocScalar v)"
      by (simp_all add: doc_get_fails)
    from False obtain a where a: "doc_get data k1 = Inr a" by (cases "doc_get data k1") auto
    have "\<not> isl (member_view (if target_truthy a then a else doc_itself data))"
      using member_view_truthy[of a] member_view_doc_itself[OF False]
      by simp
    then obtain f where f: "member_view (if target_truthy a then a else doc_itself data) = Inr f"
      by (cases "member_view (if target_truthy a then a else doc_itself data)") auto
    have "and_then (doc_get data k1) (\<lambda>a.
        and_then (member_view (if target_truthy a then a else doc_itself data)) (\<lambda>d.
          Inr (G d))) = Inr (G f)"
      using a f by (simp add: and_then_def)
    then show ?thesis using Inr nf by (simp add: and_then_def)
  qed
qed

lemma mountainCreek_exact:
  "\<exists>k j u. k \<noteq> [] \<and> u \<noteq> [] \<and> j \<noteq> Some [] \<and>
     (\<forall>w. \<exists>m. mountainCreek w = Inr m \<and> name m = JStr k \<and> updatedAt m = JStr (now w)
        \<and> (case j of
              None \<Rightarrow>
                if isl (fetchHTML w u)
                then m = no_fields\<lparr>name := JStr k, updatedAt := JStr (now w), source := JStr u\<rparr>
                   \<and> status m = JUndefined
                else status m = JStr ''Open'' \<and> source m = JStr u
            | Some ju \<Rightarrow>
                if isl (fetchJSON w ju) \<or> (\<exists>v. nullish v \<and> fetchJSON w ju = Inr (DocScalar v))
                then if isl (fetchHTML w u)
                     then m = no_fields\<lparr>name := JStr k, updatedAt := JStr (now w), source := JStr u\<rparr>
                        \<and> status m = JUndefined
                     else status m = JStr ''Open'' \<and> source m = JStr u
                else truthy (status m) \<and> source m = JStr ju))"
  unfolding mountainCreek_def Let_def
  by (rule html_exact) simp_all

lemma killington_exact:
  "\<exists>k j u. k \<noteq> [] \<and> u \<noteq> [] \<and> j \<noteq> Some [] \<and>
     (\<forall>w. \<exists>m. killington w = Inr m \<and> name m = JStr k \<and> updatedAt m = JStr (now w)
        \<and> (case j of
              None \<Rightarrow>
                if isl (fetchHTML w u)
                then m = no_fields\<lparr>name := JStr k, updatedAt := JStr (now w), source := JStr u\<rparr>
                   \<and> status m = JUndefined
                else status m = JStr ''Open'' \<and> source m = JStr u
            | Some ju \<Rightarrow>
                if isl (fetchJSON w ju) \<or> (\<exists>v. nullish v \<and> fetchJSON w ju = Inr (DocScalar v))
                then if isl (fetchHTML w u)
                     then m = no_fields\<lparr>name := JStr k, updatedAt := JStr (now w), source := JStr u\<rparr>
                        \<and> status m = JUndefined
                     else status m = JStr ''Open'' \<and> source m = JStr u
                else truthy (status m) \<and> source m = JStr ju))"
  unfolding killington_def Let_def
  by (rule json_exact[where ju = "''https://www.killington.com/api/resort-stats''"])
     (auto simp: and_then_Inr truthy_js_or json_body2_fails)

lemma stowe_exact:
  "\<exists>k j u. k \<noteq> [] \<and> u \<noteq> [] \<and> j \<noteq> Some [] \<and>
     (\<forall>w. \<exists>m. stowe w = Inr m \<and> name m = JStr k \<and> updatedAt m = JStr (now w)
        \<and> (case j of
              None \<Rightarrow>
                if isl (fetchHTML w u)
                then m = no_fields\<lparr>name := JStr k, updatedAt := JStr (now w), source := JStr u\<rparr>
                   \<and> status m = JUndefined
                else status m = JStr ''Open'' \<and> source m = JStr u
            | Some ju \<Rightarrow>
                if isl (fetchJSON w ju) \<or> (\<exists>v. nullish v \<and> fetchJSON w ju = Inr (DocScalar v))
                then if isl (fetchHTML w u)
                     then m = no_fields\<lparr>name := JStr k, updatedAt := JStr (now w), source := JStr u\<rparr>
                        \<and> status m = JUndefined
                     else status m = JStr ''Open'' \<and> source m = JStr u
                else truthy (status m) \<and> source m = JStr ju))"
  unfolding stowe_def Let_def
  by (rule html_exact) simp_all

lemma stratton_exact:
  "\<exists>k j u. k \<noteq> [] \<and> u \<noteq> [] \<and> j \<noteq> Some [] \<and>
     (\<forall>w. \<exists>m. stratton w = Inr m \<and> name m = JStr k \<and> updatedAt m = JStr (now w)
        \<and> (case j of
              None \<Rightarrow>
                if isl (fetchHTML w u)
                then m = no_fields\<lparr>name := JStr k, updatedAt := JStr (now w), source := JStr u\<rparr>
                   \<and> status m = JUndefined
                else status m = JStr ''Open'' \<and> source m = JStr u
            | Some ju \<Rightarrow>
                if isl (fetchJSON w ju) \<or> (\<exists>v. nullish v \<and> fetchJSON w ju = Inr (DocScalar v))
                then if isl (fetchHTML w u)
                     then m = no_fields\<lparr>name := JStr k, updatedAt := JStr (now w), source := JStr u\<rparr>
                        \<and> status m = JUndefined
                     else status m = JStr ''Open'' \<and> source m = JStr u
                else truthy (status m) \<and> source m = JStr ju))"
  unfolding stratton_def Let_def
  by (rule html_exact) simp_all

lemma sugarbush_exact:
  "\<exists>k j u. k \<noteq> [] \<and> u \<noteq> [] \<and> j \<noteq> Some [] \<and>
     (\<forall>w. \<exists>m. sugarbush w = Inr m \<and> name m = JStr k \<and> updatedAt m = JStr (now w)
        \<and> (case j of
              None \<Rightarrow>
                if isl (fetchHTML w u)
                then m = no_fields\<lparr>name := JStr k, updatedAt := JStr (now w), source := JStr u\<rparr>
                   \<and> status m = JUndefined
                else status m = JStr ''Open'' \<and> source m = JStr u
            | Some ju \<Rightarrow>
                if isl (fetchJSON w ju) \<or> (\<exists>v. nullish v \<and> fetchJSON w ju = Inr (DocScalar v))
                then if isl (fetchHTML w u)
                     then m = no_fields\<lparr>name := JStr k, updatedAt := JStr (now w), source := JStr u\<rparr>
                        \<and> status m = JUndefined
                     else status m = JStr ''Open'' \<and> source m = JStr u
                else truthy (status m) \<and> source m = JStr ju))"
  unfolding sugarbush_def Let_def
  by (rule html_exact) simp_all

lemma pico_exact:
  "\<exists>k j u. k \<noteq> [] \<and> u \<noteq> [] \<and> j \<noteq> Some [] \<and>
     (\<forall>w. \<exists>m. pico w = Inr m \<and> name m = JStr k \<and> updatedAt m = JStr (now w)
        \<and> (case j of
              None \<Rightarrow>
                if isl (fetchHTML w u)
                then m = no_fields\<lparr>name := JStr k, updatedAt := JStr (now w), source := JStr u\<rparr>
                   \<and> status m = JUndefined
                else status m = JStr ''Open'' \<and> source m = JStr u
            | Some ju \<Rightarrow>
                if isl (fetchJSON w ju) \<or> (\<exists>v. nullish v \<and> fetchJSON w ju = Inr (DocScalar v))
                then if isl (fetchHTML w u)
                     then m = no_fields\<lparr>name := JStr k, updatedAt := JStr (now w), source := JStr u\<rparr>
                        \<and> status m = JUndefined
                     else status m = JStr ''Open'' \<and> source m = JStr u
                else truthy (status m) \<and> source m = JStr ju))"
  unfolding pico_def Let_def
  by (rule html_exact) simp_all

lemma okemo_exact:
  "\<exists>k j u. k \<noteq> [] \<and> u \<noteq> [] \<and> j \<noteq> Some [] \<and>
     (\<forall>w. \<exists>m. okemo w = Inr m \<and> name m = JStr k \<and> updatedAt m = JStr (now w)
        \<and> (case j of
              None \<Rightarrow>
                if isl (fetchHTML w u)
                then m = no_fields\<lparr>name := JStr k, updatedAt := JStr (now w), source := JStr u\<rparr>
                   \<and> status m = JUndefined
                else status m = JStr ''Open'' \<and> source m = JStr u
            | Some ju \<Rightarrow>
                if isl (fetchJSON w ju) \<or> (\<exists>v. nullish v \<and> fetchJSON w ju = Inr (DocScalar v))
                then if isl (fetchHTML w u)
                     then m = no_fields\<lparr>name := JStr k, updatedAt := JStr (now w), source := JStr u\<rparr>
                        \<and> status m = JUndefined
                     else status m = JStr ''Open'' \<and> source m = JStr u
                else truthy (status m) \<and> source m = JStr ju))"
  unfolding okemo_def Let_def
  by (rule html_exact) simp_all

lemma mountSnow_exact:
  "\<exists>k j u. k \<noteq> [] \<and> u \<noteq> [] \<and> j \<noteq> Some [] \<and>
     (\<forall>w. \<exists>m. mountSnow w = Inr m \<and> name m = JStr k \<and> updatedAt m = JStr (now w)
        \<and> (case j of
              None \<Rightarrow>
                if isl (fetchHTML w u)
                then m = no_fields\<lparr>name := JStr k, updatedAt := JStr (now w), source := JStr u\<rparr>
                   \<and> status m = JUndefined
                else status m = JStr ''Open'' \<and> source m = JStr u
            | Some ju \<Rightarrow>
                if isl (fetchJSON w ju) \<or> (\<exists>v. nullish v \<and> fetchJSON w ju = Inr (DocScalar v))
                then if isl (fetchHTML w u)
                     then m = no_fields\<lparr>name := JStr k, updatedAt := JStr (now w), source := JStr u\<rparr>
                        \<and> status m = JUndefined
                     else status m = JStr ''Open'' \<and> source m = JStr u
                else truthy (status m) \<and> source m = JStr ju))"
  unfolding mountSnow_def Let_def
  by (rule html_exact) simp_all

lemma jayPeak_exact:
  "\<exists>k j u. k \<noteq> [] \<and> u \<noteq> [] \<and> j \<noteq> Some [] \<and>
     (\<forall>w. \<exists>m. jayPeak w = Inr m \<and> name m = JStr k \<and> updatedAt m = JStr (now w)
        \<and> (case j of
              None \<Rightarrow>
                if isl (fetchHTML w u)
                then m = no_fields\<lparr>name := JStr k, updatedAt := JStr (now w), source := JStr u\<rparr>
                   \<and> status m = JUndefined
                else status m = JStr ''Open'' \<and> source m = JStr u
            | Some ju \<Rightarrow>
                if isl (fetchJSON w ju) \<or> (\<exists>v. nullish v \<and> fetchJSON w ju = Inr (DocScalar v))
                then if isl (fetchHTML w u)
                     then m = no_fields\<lparr>name := JStr k, updatedAt := JStr (now w), source := JStr u\<rparr>
                        \<and> status m = JUndefined
                     else status m = JStr ''Open'' \<and> source m = JStr u
                else truthy (status m) \<and> source m = JStr ju))"
  unfolding jayPeak_def Let_def
  by (rule html_exact) simp_all

lemma burke_exact:
  "\<exists>k j u. k \<noteq> [] \<and> u \<noteq> [] \<and> j \<noteq> Some [] \<and>
     (\<forall>w. \<exists>m. burke w = Inr m \<and> name m = JStr k \<and> updatedAt m = JStr (now w)
        \<and> (case j of
              None \<Rightarrow>
                if isl (fetchHTML w u)
                then m = no_fields\<lparr>name := JStr k, updatedAt := JStr (now w), source := JStr u\<rparr>
                   \<and> status m = JUndefined
                else status m = JStr ''Open'' \<and> source m = JStr u
            | Some ju \<Rightarrow>
                if isl (fetchJSON w ju) \<or> (\<exists>v. nullish v \<and> fetchJSON w ju = Inr (DocScalar v))
                then if isl (fetchHTML w u)
                     then m = no_fields\<lparr>name := JStr k, updatedAt := JStr (now w), source := JStr u\<rparr>
                        \<and> status m = JUndefined
                     else status m = JStr ''Open'' \<and> source m = JStr u
                else truthy (status m) \<and> source m = JStr ju))"
  unfolding burke_def Let_def
  by (rule html_exact) simp_all

lemma boltonValley_exact:
  "\<exists>k j u. k \<noteq> [] \<and> u \<noteq> [] \<and> j \<noteq> Some [] \<and>
     (\<forall>w. \<exists>m. boltonValley w = Inr m \<and> name m = JStr k \<and> updatedAt m = JStr (now w)
        \<and> (case j of
              None \<Rightarrow>
                if isl (fetchHTML w u)
                then m = no_fields\<lparr>name := JStr k, updatedAt := JStr (now w), source := JStr u\<rparr>
                   \<and> status m = JUndefined
                else status m = JStr ''Open'' \<and> source m = JStr u
            | Some ju \<Rightarrow>
                if isl (fetchJSON w ju) \<or> (\<exists>v. nullish v \<and> fetchJSON w ju = Inr (DocScalar v))
                then if isl (fetchHTML w u)
                     then m = no_fields\<lparr>name := JStr k, updatedAt := JStr (now w), source := JStr u\<rparr>
                        \<and> status m = JUndefined
                     else status m = JStr ''Open'' \<and> source m = JStr u
                else truthy (status m) \<and> source m = JStr ju))"
  unfolding boltonValley_def Let_def
  by (rule html_exact) simp_all

lemma magic_exact:
  "\<exists>k j u. k \<noteq> [] \<and> u \<noteq> [] \<and> j \<noteq> Some [] \<and>
     (\<forall>w. \<exists>m. magic w = Inr m \<and> name m = JStr k \<and> updatedAt m = JStr (now w)
        \<and> (case j of
              None \<Rightarrow>
                if isl (fetchHTML w u)
                then m = no_fields\<lparr>name := JStr k, updatedAt := JStr (now w), source := JStr u\<rparr>
                   \<and> status m = JUndefined
                else status m = JStr ''Open'' \<and> source m = JStr u
            | Some ju \<Rightarrow>
                if isl (fetchJSON w ju) \<or> (\<exists>v. nullish v \<and> fetchJSON w ju = Inr (DocScalar v))
                then if isl (fetchHTML w u)
                     then m = no_fields\<lparr>name := JStr k, updatedAt := JStr (now w), source := JStr u\<rparr>
                        \<and> status m = JUndefined
                     else status m = JStr ''Open'' \<and> source m = JStr u
                else truthy (status m) \<and> source m = JStr ju))"
  unfolding magic_def Let_def
  by (rule html_exact) simp_all

lemma hunter_exact:
  "\<exists>k j u. k \<noteq> [] \<and> u \<noteq> [] \<and> j \<noteq> Some [] \<and>
     (\<forall>w. \<exists>m. hunter w = Inr m \<and> name m = JStr k \<and> updatedAt m = JStr (now w)
        \<and> (case j of
              None \<Rightarrow>
                if isl (fetchHTML w u)
                then m = no_fields\<lparr>name := JStr k, updatedAt := JStr (now w), source := JStr u\<rparr>
                   \<and> status m = JUndefined
                else status m = JStr ''Open'' \<and> source m = JStr u
            | Some ju \<Rightarrow>
                if isl (fetchJSON w ju) \<or> (\<exists>v. nullish v \<and> fetchJSON w ju = Inr (DocScalar v))
                then if isl (fetchHTML w u)
                     then m = no_fields\<lparr>name := JStr k, updatedAt := JStr (now w), source := JStr u\<rparr>
                        \<and> status m = JUndefined
                     else status m = JStr ''Open'' \<and> source m = JStr u
                else truthy (status m) \<and> source m = JStr ju))"
  unfolding hunter_def Let_def
  by (rule html_exact) simp_all

lemma whiteface_exact:
  "\<exists>k j u. k \<noteq> [] \<and> u \<noteq> [] \<and> j \<noteq> Some [] \<and>
     (\<forall>w. \<exists>m. whiteface w = Inr m \<and> name m = JStr k \<and> updatedAt m = JStr (now w)
        \<and> (case j of
              None \<Rightarrow>
                if isl (fetchHTML w u)
                then m = no_fields\<lparr>name := JStr k, updatedAt := JStr (now w), source := JStr u\<rparr>
                   \<and> status m = JUndefined
                else status m = JStr ''Open'' \<and> source m = JStr u
            | Some ju \<Rightarrow>
                if isl (fetchJSON w ju) \<or> (\<exists>v. nullish v \<and> fetchJSON w ju = Inr (DocScalar v))
                then if isl (fetchHTML w u)
                     then m = no_fields\<lparr>name := JStr k, updatedAt := JStr (now w), source := JStr u\<rparr>
                        \<and> status m = JUndefined
                     else status m = JStr ''Open'' \<and> source m = JStr u
                else truthy (status m) \<and> source m = JStr ju))"
  unfolding whiteface_def Let_def
  by (rule html_exact) simp_all

lemma gore_exact:
  "\<exists>k j u. k \<noteq> [] \<and> u \<noteq> [] \<and> j \<noteq> Some [] \<and>
     (\<forall>w. \<exists>m. gore w = Inr m \<and> name m = JStr k \<and> updatedAt m = JStr (now w)
        \<and> (case j of
              None \<Rightarrow>
                if isl (fetchHTML w u)
                then m = no_fields\<lparr>name := JStr k, updatedAt := JStr (now w), source := JStr u\<rparr>
                   \<and> status m = JUndefined
                else status m = JStr ''Open'' \<and> source m = JStr u
            | Some ju \<Rightarrow>
                if isl (fetchJSON w ju) \<or> (\<exists>v. nullish v \<and> fetchJSON w ju = Inr (DocScalar v))
                then if isl (fetchHTML w u)
                     then m = no_fields\<lparr>name := JStr k, updatedAt := JStr (now w), source := JStr u\<rparr>
                        \<and> status m = JUndefined
                     else status m = JStr ''Open'' \<and> source m = JStr u
                else truthy (status m) \<and> source m = JStr ju))"
  unfolding gore_def Let_def
  by (rule html_exact) simp_all

lemma belleayre_exact:
  "\<exists>k j u. k \<noteq> [] \<and> u \<noteq> [] \<and> j \<noteq> Some [] \<and>
     (\<forall>w. \<exists>m. belleayre w = Inr m \<and> name m = JStr k \<and> updatedAt m = JStr (now w)
        \<and> (case j of
              None \<Rightarrow>
                if isl (fetchHTML w u)
                then m = no_fields\<lparr>name := JStr k, updatedAt := JStr (now w), source := JStr u\<rparr>
                   \<and> status m = JUndefined
                else status m = JStr ''Open'' \<and> source m = JStr u
            | Some ju \<Rightarrow>
                if isl (fetchJSON w ju) \<or> (\<exists>v. nullish v \<and> fetchJSON w ju = Inr (DocScalar v))
                then if isl (fetchHTML w u)
                     then m = no_fields\<lparr>name := JStr k, updatedAt := JStr (now w), source := JStr u\<rparr>
                        \<and> status m = JUndefined
                     else status m = JStr ''Open'' \<and> source m = JStr u
                else truthy (status m) \<and> source m = JStr ju))"
  unfolding belleayre_def Let_def
  by (rule html_exact) simp_all

lemma catamount_exact:
  "\<exists>k j u. k \<noteq> [] \<and> u \<noteq> [] \<and> j \<noteq> Some [] \<and>
     (\<forall>w. \<exists>m. catamount w = Inr m \<and> name m = JStr k \<and> updatedAt m = JStr (now w)
        \<and> (case j of
              None \<Rightarrow>
                if isl (fetchHTML w u)
                then m = no_fields\<lparr>name := JStr k, updatedAt := JStr (now w), source := JStr u\<rparr>
                   \<and> status m = JUndefined
                else status m = JStr ''Open'' \<and> source m = JStr u
            | Some ju \<Rightarrow>
                if isl (fetchJSON w ju) \<or> (\<exists>v. nullish v \<and> fetchJSON w ju = Inr (DocScalar v))
                then if isl (fetchHTML w u)
                     then m = no_fields\<lparr>name := JStr k, updatedAt := JStr (now w), source := JStr u\<rparr>
                        \<and> status m = JUndefined
                     else status m = JStr ''Open'' \<and> source m = JStr u
                else truthy (status m) \<and> source m = JStr ju))"
  unfolding catamount_def Let_def
  by (rule html_exact) simp_all

lemma greekPeak_exact:
  "\<exists>k j u. k \<noteq> [] \<and> u \<noteq> [] \<and> j \<noteq> Some [] \<and>
     (\<forall>w. \<exists>m. greekPeak w = Inr m \<and> name m = JStr k \<and> updatedAt m = JStr (now w)
        \<and> (case j of
              None \<Rightarrow>
                if isl (fetchHTML w u)
                then m = no_fields\<lparr>name := JStr k, updatedAt := JStr (now w), source := JStr u\<rparr>
                   \<and> status m = JUndefined
                else status m = JStr ''Open'' \<and> source m = JStr u
            | Some ju \<Rightarrow>
                if isl (fetchJSON w ju) \<or> (\<exists>v. nullish v \<and> fetchJSON w ju = Inr (DocScalar v))
                then if isl (fetchHTML w u)
                     then m = no_fields\<lparr>name := JStr k, updatedAt := JStr (now w), source := JStr u\<rparr>
                        \<and> status m = JUndefined
                     else status m = JStr ''Open'' \<and> source m = JStr u
                else truthy (status m) \<and> source m = JStr ju))"
  unfolding greekPeak_def Let_def
  by (rule html_exact) simp_all

lemma westMtn_exact:
  "\<exists>k j u. k \<noteq> [] \<and> u \<noteq> [] \<and> j \<noteq> Some [] \<and>
     (\<forall>w. \<exists>m. westMtn w = Inr m \<and> name m = JStr k \<and> updatedAt m = JStr (now w)
        \<and> (case j of
              None \<Rightarrow>
                if isl (fetchHTML w u)
                then m = no_fields\<lparr>name := JStr k, updatedAt := JStr (now w), source := JStr u\<rparr>
                   \<and> status m = JUndefined
                else status m = JStr ''Open'' \<and> source m = JStr u
            | Some ju \<Rightarrow>
                if isl (fetchJSON w ju) \<or> (\<exists>v. nullish v \<and> fetchJSON w ju = Inr (DocScalar v))
                then if isl (fetchHTML w u)
                     then m = no_fields\<lparr>name := JStr k, updatedAt := JStr (now w), source := JStr u\<rparr>
                        \<and> status m = JUndefined
                     else status m = JStr ''Open'' \<and> source m = JStr u
                else truthy (status m) \<and> source m = JStr ju))"
  unfolding westMtn_def Let_def
  by (rule html_exact) simp_all

lemma camelback_exact:
  "\<exists>k j u. k \<noteq> [] \<and> u \<noteq> [] \<and> j \<noteq> Some [] \<and>
     (\<forall>w. \<exists>m. camelback w = Inr m \<and> name m = JStr k \<and> updatedAt m = JStr (now w)
        \<and> (case j of
              None \<Rightarrow>
                if isl (fetchHTML w u)
                then m = no_fields\<lparr>name := JStr k, updatedAt := JStr (now w), source := JStr u\<rparr>
                   \<and> status m = JUndefined
                else status m = JStr ''Open'' \<and> source m = JStr u
            | Some ju \<Rightarrow>
                if isl (fetchJSON w ju) \<or> (\<exists>v. nullish v \<and> fetchJSON w ju = Inr (DocScalar v))
                then if isl (fetchHTML w u)
                     then m = no_fields\<lparr>name := JStr k, updatedAt := JStr (now w), source := JStr u\<rparr>
                        \<and> status m = JUndefined
                     else status m = JStr ''Open'' \<and> source m = JStr u
                else truthy (status m) \<and> source m = JStr ju))"
  unfolding camelback_def Let_def
  by (rule html_exact) simp_all

lemma blueMtnPA_exact:
  "\<exists>k j u. k \<noteq> [] \<and> u \<noteq> [] \<and> j \<noteq> Some [] \<and>
     (\<forall>w. \<exists>m. blueMtnPA w = Inr m \<and> name m = JStr k \<and> updatedAt m = JStr (now w)
        \<and> (case j of
              None \<Rightarrow>
                if isl (fetchHTML w u)
                then m = no_fields\<lparr>name := JStr k, updatedAt := JStr (now w), source := JStr u\<rparr>
                   \<and> status m = JUndefined
                else status m = JStr ''Open'' \<and> source m = JStr u
            | Some ju \<Rightarrow>
                if isl (fetchJSON w ju) \<or> (\<exists>v. nullish v \<and> fetchJSON w ju = Inr (DocScalar v))
                then if isl (fetchHTML w u)
                     then m = no_fields\<lparr>name := JStr k, updatedAt := JStr (now w), source := JStr u\<rparr>
                        \<and> status m = JUndefined
                     else status m = JStr ''Open'' \<and> source m = JStr u
                else truthy (status m) \<and> source m = JStr ju))"
  unfolding blueMtnPA_def Let_def
  by (rule html_exact) simp_all

lemma shawnee_exact:
  "\<exists>k j u. k \<noteq> [] \<and> u \<noteq> [] \<and> j \<noteq> Some [] \<and>
     (\<forall>w. \<exists>m. shawnee w = Inr m \<and> name m = JStr k \<and> updatedAt m = JStr (now w)
        \<and> (case j of
              None \<Rightarrow>
                if isl (fetchHTML w u)
                then m = no_fields\<lparr>name := JStr k, updatedAt := JStr (now w), source := JStr u\<rparr>
                   \<and> status m = JUndefined
                else status m = JStr ''Open'' \<and> source m = JStr u
            | Some ju \<Rightarrow>
                if isl (fetchJSON w ju) \<or> (\<exists>v. nullish v \<and> fetchJSON w ju = Inr (DocScalar v))
                then if isl (fetchHTML w u)
                     then m = no_fields\<lparr>name := JStr k, updatedAt := JStr (now w), source := JStr u\<rparr>
                        \<and> status m = JUndefined
                     else status m = JStr ''Open'' \<and> source m = JStr u
                else truthy (status m) \<and> source m = JStr ju))"
  unfolding shawnee_def Let_def
  by (rule html_exact) simp_all

lemma sundayRiver_exact:
  "\<exists>k j u. k \<noteq> [] \<and> u \<noteq> [] \<and> j \<noteq> Some [] \<and>
     (\<forall>w. \<exists>m. sundayRiver w = Inr m \<and> name m = JStr k \<and> updatedAt m = JStr (now w)
        \<and> (case j of
              None \<Rightarrow>
                if isl (fetchHTML w u)
                then m = no_fields\<lparr>name := JStr k, updatedAt := JStr (now w), source := JStr u\<rparr>
                   \<and> status m = JUndefined
                else status m = JStr ''Open'' \<and> source m = JStr u
            | Some ju \<Rightarrow>
                if isl (fetchJSON w ju) \<or> (\<exists>v. nullish v \<and> fetchJSON w ju = Inr (DocScalar v))
                then if isl (fetchHTML w u)
                     then m = no_fields\<lparr>name := JStr k, updatedAt := JStr (now w), source := JStr u\<rparr>
                        \<and> status m = JUndefined
                     else status m = JStr ''Open'' \<and> source m = JStr u
                else truthy (status m) \<and> source m = JStr ju))"
  unfolding sundayRiver_def Let_def
  by (rule html_exact) simp_all

lemma sugarloaf_exact:
  "\<exists>k j u. k \<noteq> [] \<and> u \<noteq> [] \<and> j \<noteq> Some [] \<and>
     (\<forall>w. \<exists>m. sugarloaf w = Inr m \<and> name m = JStr k \<and> updatedAt m = JStr (now w)
        \<and> (case j of
              None \<Rightarrow>
                if isl (fetchHTML w u)
                then m = no_fields\<lparr>name := JStr k, updatedAt := JStr (now w), source := JStr u\<rparr>
                   \<and> status m = JUndefined
                else status m = JStr ''Open'' \<and> source m = JStr u
            | Some ju \<Rightarrow>
                if isl (fetchJSON w ju) \<or> (\<exists>v. nullish v \<and> fetchJSON w ju = Inr (DocScalar v))
                then if isl (fetchHTML w u)
                     then m = no_fields\<lparr>name := JStr k, updatedAt := JStr (now w), source := JStr u\<rparr>
                        \<and> status m = JUndefined
                     else status m = JStr ''Open'' \<and> source m = JStr u
                else truthy (status m) \<and> source m = JStr ju))"
  unfolding sugarloaf_def Let_def
  by (rule html_exact) simp_all

lemma saddleback_exact:
  "\<exists>k j u. k \<noteq> [] \<and> u \<noteq> [] \<and> j \<noteq> Some [] \<and>
     (\<forall>w. \<exists>m. saddleback w = Inr m \<and> name m = JStr k \<and> updatedAt m = JStr (now w)
        \<and> (case j of
              None \<Rightarrow>
                if isl (fetchHTML w u)
                then m = no_fields\<lparr>name := JStr k, updatedAt := JStr (now w), source := JStr u\<rparr>
                   \<and> status m = JUndefined
                else status m = JStr ''Open'' \<and> source m = JStr u
            | Some ju \<Rightarrow>
                if isl (fetchJSON w ju) \<or> (\<exists>v. nullish v \<and> fetchJSON w ju = Inr (DocScalar v))
                then if isl (fetchHTML w u)
                     then m = no_fields\<lparr>name := JStr k, updatedAt := JStr (now w), source := JStr u\<rparr>
                        \<and> status m = JUndefined
                     else status m = JStr ''Open'' \<and> source m = JStr u
                else truthy (status m) \<and> source m = JStr ju))"
  unfolding saddleback_def Let_def
  by (rule html_exact) simp_all

lemma loon_exact:
  "\<exists>k j u. k \<noteq> [] \<and> u \<noteq> [] \<and> j \<noteq> Some [] \<and>
     (\<forall>w. \<exists>m. loon w = Inr m \<and> name m = JStr k \<and> updatedAt m = JStr (now w)
        \<and> (case j of
              None \<Rightarrow>
                if isl (fetchHTML w u)
                then m = no_fields\<lparr>name := JStr k, updatedAt := JStr (now w), source := JStr u\<rparr>
                   \<and> status m = JUndefined
                else status m = JStr ''Open'' \<and> source m = JStr u
            | Some ju \<Rightarrow>
                if isl (fetchJSON w ju) \<or> (\<exists>v. nullish v \<and> fetchJSON w ju = Inr (DocScalar v))
                then if isl (fetchHTML w u)
                     then m = no_fields\<lparr>name := JStr k, updatedAt := JStr (now w), source := JStr u\<rparr>
                        \<and> status m = JUndefined
                     else status m = JStr ''Open'' \<and> source m = JStr u
                else truthy (status m) \<and> source m = JStr ju))"
  unfolding loon_def Let_def
  by (rule html_exact) simp_all

lemma attitash_exact:
  "\<exists>k j u. k \<noteq> [] \<and> u \<noteq> [] \<and> j \<noteq> Some [] \<and>
     (\<forall>w. \<exists>m. attitash w = Inr m \<and> name m = JStr k \<and> updatedAt m = JStr (now w)
        \<and> (case j of
              None \<Rightarrow>
                if isl (fetchHTML w u)
                then m = no_fields\<lparr>name := JStr k, updatedAt := JStr (now w), source := JStr u\<rparr>
                   \<and> status m = JUndefined
                else status m = JStr ''Open'' \<and> source m = JStr u
            | Some ju \<Rightarrow>
                if isl (fetchJSON w ju) \<or> (\<exists>v. nullish v \<and> fetchJSON w ju = Inr (DocScalar v))
                then if isl (fetchHTML w u)
                     then m = no_fields\<lparr>name := JStr k, updatedAt := JStr (now w), source := JStr u\<rparr>
                        \<and> status m = JUndefined
                     else status m = JStr ''Open'' \<and> source m = JStr u
                else truthy (status m) \<and> source m = JStr ju))"
  unfolding attitash_def Let_def
  by (rule html_exact) simp_all

lemma wildcat_exact:
  "\<exists>k j u. k \<noteq> [] \<and> u \<noteq> [] \<and> j \<noteq> Some [] \<and>
     (\<forall>w. \<exists>m. wildcat w = Inr m \<and> name m = JStr k \<and> updatedAt m = JStr (now w)
        \<and> (case j of
              None \<Rightarrow>
                if isl (fetchHTML w u)
                then m = no_fields\<lparr>name := JStr k, updatedAt := JStr (now w), source := JStr u\<rparr>
                   \<and> status m = JUndefined
                else status m = JStr ''Open'' \<and> source m = JStr u
            | Some ju \<Rightarrow>
                if isl (fetchJSON w ju) \<or> (\<exists>v. nullish v \<and> fetchJSON w ju = Inr (DocScalar v))
                then if isl (fetchHTML w u)
                     then m = no_fields\<lparr>name := JStr k, updatedAt := JStr (now w), source := JStr u\<rparr>
                        \<and> status m = JUndefined
                     else status m = JStr ''Open'' \<and> source m = JStr u
                else truthy (status m) \<and> source m = JStr ju))"
  unfolding wildcat_def Let_def
  by (rule html_exact) simp_all

lemma cannon_exact:
  "\<exists>k j u. k \<noteq> [] \<and> u \<noteq> [] \<and> j \<noteq> Some [] \<and>
     (\<forall>w. \<exists>m. cannon w = Inr m \<and> name m = JStr k \<and> updatedAt m = JStr (now w)
        \<and> (case j of
              None \<Rightarrow>
                if isl (fetchHTML w u)
                then m = no_fields\<lparr>name := JStr k, updatedAt := JStr (now w), source := JStr u\<rparr>
                   \<and> status m = JUndefined
                else status m = JStr ''Open'' \<and> source m = JStr u
            | Some ju \<Rightarrow>
                if isl (fetchJSON w ju) \<or> (\<exists>v. nullish v \<and> fetchJSON w ju = Inr (DocScalar v))
                then if isl (fetchHTML w u)
                     then m = no_fields\<lparr>name := JStr k, updatedAt := JStr (now w), source := JStr u\<rparr>
                        \<and> status m = JUndefined
                     else status m = JStr ''Open'' \<and> source m = JStr u
                else truthy (status m) \<and> source m = JStr ju))"
  unfolding cannon_def Let_def
  by (rule html_exact) simp_all

lemma watervilleValley_exact:
  "\<exists>k j u. k \<noteq> [] \<and> u \<noteq> [] \<and> j \<noteq> Some [] \<and>
     (\<forall>w. \<exists>m. watervilleValley w = Inr m \<and> name m = JStr k \<and> updatedAt m = JStr (now w)
        \<and> (case j of
              None \<Rightarrow>
                if isl (fetchHTML w u)
                then m = no_fields\<lparr>name := JStr k, updatedAt := JStr (now w), source := JStr u\<rparr>
                   \<and> status m = JUndefined
                else status m = JStr ''Open'' \<and> source m = JStr u
            | Some ju \<Rightarrow>
                if isl (fetchJSON w ju) \<or> (\<exists>v. nullish v \<and> fetchJSON w ju = Inr (DocScalar v))
                then if isl (fetchHTML w u)
                     then m = no_fields\<lparr>name := JStr k, updatedAt := JStr (now w), source := JStr u\<rparr>
                        \<and> status m = JUndefined
                     else status m = JStr ''Open'' \<and> source m = JStr u
                else truthy (status m) \<and> source m = JStr ju))"
  unfolding watervilleValley_def Let_def
  by (rule html_exact) simp_all

lemma tremblant_exact:
  "\<exists>k j u. k \<noteq> [] \<and> u \<noteq> [] \<and> j \<noteq> Some [] \<and>
     (\<forall>w. \<exists>m. tremblant w = Inr m \<and> name m = JStr k \<and> updatedAt m = JStr (now w)
        \<and> (case j of
              None \<Rightarrow>
                if isl (fetchHTML w u)
                then m = no_fields\<lparr>name := JStr k, updatedAt := JStr (now w), source := JStr u\<rparr>
                   \<and> status m = JUndefined
                else status m = JStr ''Open'' \<and> source m = JStr u
            | Some ju \<Rightarrow>
                if isl (fetchJSON w ju) \<or> (\<exists>v. nullish v \<and> fetchJSON w ju = Inr (DocScalar v))
                then if isl (fetchHTML w u)
                     then m = no_fields\<lparr>name := JStr k, updatedAt := JStr (now w), source := JStr u\<rparr>
                        \<and> status m = JUndefined
                     else status m = JStr ''Open'' \<and> source m = JStr u
                else truthy (status m) \<and> source m = JStr ju))"
  unfolding tremblant_def Let_def
  by (rule json_exact[where ju = "''https://www.tremblant.ca/api/mountain-conditions''"])
     (auto simp: and_then_Inr truthy_js_or json_body1_fails)

lemma leMassif_exact:
  "\<exists>k j u. k \<noteq> [] \<and> u \<noteq> [] \<and> j \<noteq> Some [] \<and>
     (\<forall>w. \<exists>m. leMassif w = Inr m \<and> name m = JStr k \<and> updatedAt m = JStr (now w)
        \<and> (case j of
              None \<Rightarrow>
                if isl (fetchHTML w u)
                then m = no_fields\<lparr>name := JStr k, updatedAt := JStr (now w), source := JStr u\<rparr>
                   \<and> status m = JUndefined
                else status m = JStr ''Open'' \<and> source m = JStr u
            | Some ju \<Rightarrow>
                if isl (fetchJSON w ju) \<or> (\<exists>v. nullish v \<and> fetchJSON w ju = Inr (DocScalar v))
                then if isl (fetchHTML w u)
                     then m = no_fields\<lparr>name := JStr k, updatedAt := JStr (now w), source := JStr u\<rparr>
                        \<and> status m = JUndefined
                     else status m = JStr ''Open'' \<and> source m = JStr u
                else truthy (status m) \<and> source m = JStr ju))"
  unfolding leMassif_def Let_def
  by (rule html_exact) simp_all

lemma montSteAnne_exact:
  "\<exists>k j u. k \<noteq> [] \<and> u \<noteq> [] \<and> j \<noteq> Some [] \<and>
     (\<forall>w. \<exists>m. montSteAnne w = Inr m \<and> name m = JStr k \<and> updatedAt m = JStr (now w)
        \<and> (case j of
              None \<Rightarrow>
                if isl (fetchHTML w u)
                then m = no_fields\<lparr>name := JStr k, updatedAt := JStr (now w), source := JStr u\<rparr>
                   \<and> status m = JUndefined
                else status m = JStr ''Open'' \<and> source m = JStr u
            | Some ju \<Rightarrow>
                if isl (fetchJSON w ju) \<or> (\<exists>v. nullish v \<and> fetchJSON w ju = Inr (DocScalar v))
                then if isl (fetchHTML w u)
                     then m = no_fields\<lparr>name := JStr k, updatedAt := JStr (now w), source := JStr u\<rparr>
                        \<and> status m = JUndefined
                     else status m = JStr ''Open'' \<and> source m = JStr u
                else truthy (status m) \<and> source m = JStr ju))"
  unfolding montSteAnne_def Let_def
  by (rule html_exact) simp_all

lemmas adapters_exact =
  mountainCreek_exact killington_exact stowe_exact stratton_exact sugarbush_exact
  pico_exact okemo_exact mountSnow_exact jayPeak_exact burke_exact
  boltonValley_exact magic_exact hunter_exact whiteface_exact gore_exact
  belleayre_exact catamount_exact greekPeak_exact westMtn_exact camelback_exact
  blueMtnPA_exact shawnee_exact sundayRiver_exact sugarloaf_exact saddleback_exact
  loon_exact attitash_exact wildcat_exact cannon_exact watervilleValley_exact
  tremblant_exact leMassif_exact montSteAnne_exact

lemma ALL_SCRAPERS_exact:
  "\<forall>x \<in> set ALL_SCRAPERS. \<exists>k j u. k \<noteq> [] \<and> u \<noteq> [] \<and> j \<noteq> Some [] \<and>
     (\<forall>w. \<exists>m. snd x w = Inr m \<and> name m = JStr k \<and> updatedAt m = JStr (now w)
        \<and> (case j of
              None \<Rightarrow>
                if isl (fetchHTML w u)
                then m = no_fields\<lparr>name := JStr k, updatedAt := JStr (now w), source := JStr u\<rparr>
                   \<and> status m = JUndefined
                else status m = JStr ''Open'' \<and> source m = JStr u
            | Some ju \<Rightarrow>
                if isl (fetchJSON w ju) \<or> (\<exists>v. nullish v \<and> fetchJSON w ju = Inr (DocScalar v))
                then if isl (fetchHTML w u)
                     then m = no_fields\<lparr>name := JStr k, updatedAt := JStr (now w), source := JStr u\<rparr>
                        \<and> status m = JUndefined
                     else status m = JStr ''Open'' \<and> source m = JStr u
                else truthy (status m) \<and> source m = JStr ju))"
  unfolding ALL_SCRAPERS_def by (simp only: list.set ball_simps snd_conv adapters_exact simp_thms)

subsection \<open>The loop of the per-resort pipeline\<close>

lemma settled_step_count:
  assumes "snd st = length (filter (\<lambda>m. \<not> nullish (base m)) (fst st))"
  shows "snd (settled_step w st x) = length (filter (\<lambda>m. \<not> nullish (base m)) (fst (settled_step w st x)))
       \<and> length (fst (settled_step w st x)) = length (fst st) + 1"
proof -
  obtain fnName result where x: "x = (fnName, result)" by (cases x)
  obtain rs c where st: "st = (rs, c)" by (cases st)
  show ?thesis
  proof (cases result)
    case (Fulfilled data)
    with assms x st show ?thesis by (cases "nullish (base data)") (simp_all add: settled_step_def)
  next
    case (Rejected reason)
    have "nullish (base (no_fields\<lparr>name := JStr (toUpperCase fnName), updatedAt := JStr (now w)\<rparr>))"
      by (simp add: no_fields_def)
    with Rejected assms x st show ?thesis by (simp add: settled_step_def)
  qed
qed

lemma foldl_settled_count:
  assumes "snd st = length (filter (\<lambda>m. \<not> nullish (base m)) (fst st))"
  shows "snd (foldl (settled_step w) st xs)
           = length (filter (\<lambda>m. \<not> nullish (base m)) (fst (foldl (settled_step w) st xs)))
       \<and> length (fst (foldl (settled_step w) st xs)) = length (fst st) + length xs"
  using assms
proof (induction xs arbitrary: st)
  case Nil
  then show ?case by simp
next
  case (Cons x xs)
  from settled_step_count[OF Cons.prems, of w x]
  have step: "snd (settled_step w st x)
        = length (filter (\<lambda>m. \<not> nullish (base m)) (fst (settled_step w st x)))"
    and len: "length (fst (settled_step w st x)) = length (fst st) + 1" by simp_all
  from Cons.IH[OF step] len show ?case by simp
qed

lemma foldl_settled_fulfilled:
  "map snd xs = map Fulfilled ms \<Longrightarrow> fst (foldl (settled_step w) (rs, c) xs) = rs @ ms"
proof (induction xs arbitrary: rs c ms)
  case Nil
  then show ?case by simp
next
  case (Cons x xs)
  then obtain m ms' where ms: "ms = m # ms'" and x: "snd x = Fulfilled m"
    and rest: "map snd xs = map Fulfilled ms'"
    by (cases ms) auto
  obtain fnName where "x = (fnName, Fulfilled m)" using x by (cases x) auto
  then show ?case
    using Cons.IH[OF rest, of "rs @ [m]" "if \<not> nullish (base m) then c + 1 else c"] ms
    by (simp add: settled_step_def)
qed

lemma all_fulfilled:
  "\<forall>x \<in> set L. \<exists>m. snd x w = Inr m \<Longrightarrow> \<exists>ms. map (\<lambda>x. settle (snd x w)) L = map Fulfilled ms"
proof (induction L)
  case Nil
  then show ?case by simp
next
  case (Cons a L)
  then obtain ms where ms: "map (\<lambda>x. settle (snd x w)) L = map Fulfilled ms" by auto
  from Cons.prems obtain m where "snd a w = Inr m" by auto
  then have "map (\<lambda>x. settle (snd x w)) (a # L) = map Fulfilled (m # ms)"
    using ms by (simp add: settle_def)
  then show ?case by blast
qed

lemma settled_list:
  "map snd (map (\<lambda>(fnName, fn). (fnName, settle (fn w))) L) = map (\<lambda>x. settle (snd x w)) L"
  by (induction L) auto

lemma resort_mountains:
  "mountains (runAllScrapers_resort w) =
     fst (foldl (settled_step w) ([], 0) (map (\<lambda>(fnName, fn). (fnName, settle (fn w))) ALL_SCRAPERS))"
  by (simp add: runAllScrapers_resort_def Let_def split_def)

lemma resort_successCount:
  "successCount (runAllScrapers_resort w) =
     snd (foldl (settled_step w) ([], 0) (map (\<lambda>(fnName, fn). (fnName, settle (fn w))) ALL_SCRAPERS))"
  by (simp add: runAllScrapers_resort_def Let_def split_def)

lemma resort_totalCount: "totalCount (runAllScrapers_resort w) = length ALL_SCRAPERS"
  by (simp add: runAllScrapers_resort_def Let_def split_def)

lemma resort_counts:
  "successCount (runAllScrapers_resort w) =
     length (filter (\<lambda>m. \<not> nullish (base m)) (mountains (runAllScrapers_resort w)))
   \<and> length (mountains (runAllScrapers_resort w)) = length ALL_SCRAPERS"
proof -
  have "snd (([], 0) :: mountain list \<times> nat)
          = length (filter (\<lambda>m. \<not> nullish (base m)) (fst (([], 0) :: mountain list \<times> nat)))"
    by simp
  from foldl_settled_count[OF this, of w "map (\<lambda>(fnName, fn). (fnName, settle (fn w))) ALL_SCRAPERS"]
  show ?thesis by (simp add: resort_mountains resort_successCount)
qed

lemma resort_all_fulfilled:
  "map Fulfilled (mountains (runAllScrapers_resort w)) = map (\<lambda>x. settle (snd x w)) ALL_SCRAPERS"
proof -
  have "\<forall>x \<in> set ALL_SCRAPERS. \<exists>m. snd x w = Inr m"
    using ALL_SCRAPERS_return[of w] by blast
  from all_fulfilled[OF this]
  obtain ms where ms: "map (\<lambda>x. settle (snd x w)) ALL_SCRAPERS = map Fulfilled ms" ..
  have "map snd (map (\<lambda>(fnName, fn). (fnName, settle (fn w))) ALL_SCRAPERS) = map Fulfilled ms"
    unfolding settled_list by (rule ms)
  from foldl_settled_fulfilled[OF this, of w "[]" 0]
  have "mountains (runAllScrapers_resort w) = ms" by (simp add: resort_mountains)
  with ms show ?thesis by simp
qed

text \<open>In the per-resort pipeline every record is named by a canonical identifier.\<close>

lemma resort_names_canonical:
  assumes "m \<in> set (mountains (runAllScrapers_resort w))"
  shows "\<exists>k. name m = JStr k \<and> k \<in> snd ` set NAME_MAP"
proof -
  from assms have "Fulfilled m \<in> set (map Fulfilled (mountains (runAllScrapers_resort w)))"
    by simp
  then have "Fulfilled m \<in> set (map (\<lambda>x. settle (snd x w)) ALL_SCRAPERS)"
    by (simp only: resort_all_fulfilled)
  then obtain x where x: "x \<in> set ALL_SCRAPERS" "settle (snd x w) = Fulfilled m"
    by auto
  from ALL_SCRAPERS_return[of w] x(1) obtain m' k where
    m': "snd x w = Inr m'" "name m' = JStr k" "k \<in> snd ` set NAME_MAP"
    by blast
  with x(2) have "m' = m" by (simp add: settle_def)
  with m' show ?thesis by blast
qed

subsection \<open>The SnoCountry pipeline\<close>

lemma sno_snapshot:
  assumes "runAllScrapers_sno w = Inr s"
  shows "\<exists>allResorts matched matchedNames.
           match_all w allResorts ([], {}) = Inr (matched, matchedNames)
         \<and> s = \<lparr>mountains = matched, scrapedAt = now w,
                 successCount = length (filter (\<lambda>m. \<not> nullish (base m)) matched),
                 totalCount = length matched\<rparr>"
  using assms
  by (auto simp: runAllScrapers_sno_def Let_def and_then_Inr split: prod.splits)

lemmas parse_defs = parseFloat_str_def str_decimal_def is_ws_def is_digit_def is_radix_digit_def
  radix_digit_def radix_value_def starts_with_def exponent_part_def pow10_def parseInt_str_def
  js_parseFloat_def js_parseInt_def num_or_null_def js_or_def fl_0 fl_58

lemma parse_killington_entry: "parseRecord vt_world killington_entry = Inr (Some killington_record)"
  by (simp add: parseRecord_def resolve_def NAME_MAP_get_def NAME_MAP_def get_def and_then_def
      vt_world_def killington_entry_def killington_record_def parse_defs Let_def)

lemma parse_killington_entry2: "parseRecord vt_world killington_entry2 = Inr (Some killington_record2)"
  by (simp add: parseRecord_def resolve_def NAME_MAP_get_def NAME_MAP_def get_def and_then_def
      vt_world_def killington_entry2_def killington_record2_def parse_defs Let_def)

lemma fetch_vt:
  "map (\<lambda>s. settle (fetchState vt_world s)) states =
     [Fulfilled (MArray []), Fulfilled (MArray [killington_entry, killington_entry2]),
      Fulfilled (MArray []), Fulfilled (MArray []), Fulfilled (MArray []),
      Fulfilled (MArray []), Fulfilled (MArray [])]"
  by (simp add: states_def fetchState_def settle_def try_catch_def and_then_def SNOCOUNTRY_URL_def
      SNOCOUNTRY_KEY_def vt_world_def vt_feed_def res_ok_def Let_def)

lemma run_vt: "runAllScrapers_sno vt_world = Inr vt_snapshot"
proof -
  have names: "name killington_record2 \<noteq> name killington_record"
    by (simp add: killington_record_def killington_record2_def)
  have base: "\<not> nullish (base killington_record)" "nullish (base killington_record2)"
    by (simp_all add: killington_record_def killington_record2_def)
  have "now vt_world = ''2026-02-23T12:00:00.000Z''" by (simp add: vt_world_def)
  then show ?thesis
    unfolding runAllScrapers_sno_def Let_def fetch_vt
    using names base
    by (simp add: and_then_def parse_killington_entry parse_killington_entry2 vt_snapshot_def)
qed

section \<open>Properties of the specification\<close>

text \<open>
  C1. For every completed run of either pipeline, \<open>successCount\<close> is the number of
  records of \<open>mountains\<close> whose \<open>base\<close> is present (neither \<^verbatim>\<open>null\<close> nor
  \<^verbatim>\<open>undefined\<close>), and \<open>successCount \<le> totalCount\<close>. The SnoCountry run completes
  when it returns a snapshot; the per-resort run always does.
\<close>

theorem C1_success_count:
  "(\<forall>s. runAllScrapers_sno w = Inr s \<longrightarrow>
        successCount s = length (filter (\<lambda>m. \<not> nullish (base m)) (mountains s))
      \<and> successCount s \<le> totalCount s)
   \<and> successCount (runAllScrapers_resort w)
       = length (filter (\<lambda>m. \<not> nullish (base m)) (mountains (runAllScrapers_resort w)))
   \<and> successCount (runAllScrapers_resort w) \<le> totalCount (runAllScrapers_resort w)"
proof (intro conjI allI impI)
  fix s
  assume "runAllScrapers_sno w = Inr s"
  from sno_snapshot[OF this] obtain matched where
    s: "s = \<lparr>mountains = matched, scrapedAt = now w,
             successCount = length (filter (\<lambda>m. \<not> nullish (base m)) matched),
             totalCount = length matched\<rparr>"
    by blast
  show "successCount s = length (filter (\<lambda>m. \<not> nullish (base m)) (mountains s))"
    by (simp add: s)
  show "successCount s \<le> totalCount s"
    by (simp add: s)
next
  show "successCount (runAllScrapers_resort w)
       = length (filter (\<lambda>m. \<not> nullish (base m)) (mountains (runAllScrapers_resort w)))"
    using resort_counts[of w] by simp
next
  have "length (filter (\<lambda>m. \<not> nullish (base m)) (mountains (runAllScrapers_resort w)))
          \<le> length (mountains (runAllScrapers_resort w))"
    by (rule length_filter_le)
  then show "successCount (runAllScrapers_resort w) \<le> totalCount (runAllScrapers_resort w)"
    using resort_counts[of w] by (simp add: resort_totalCount)
qed

theorem C1_success_count_witness:
  "runAllScrapers_sno vt_world = Inr vt_snapshot
   \<and> successCount vt_snapshot = length (filter (\<lambda>m. \<not> nullish (base m)) (mountains vt_snapshot))
   \<and> successCount vt_snapshot \<le> totalCount vt_snapshot
   \<and> successCount vt_snapshot = 1 \<and> totalCount vt_snapshot = 2"
proof -
  have "successCount vt_snapshot = 1" "totalCount vt_snapshot = 2"
    by (simp_all add: vt_snapshot_def)
  with C1_success_count[of vt_world] run_vt show ?thesis by simp
qed

text \<open>
  C2. In the SnoCountry parser the record of an accepted entry carries the name the
  provider sent, not the canonical identifier the lookup found: the entry named
  \<open>Killington Resort\<close> resolves to \<open>KILLINGTON\<close> and is returned under
  \<open>Killington Resort\<close>, which is no canonical identifier.
\<close>

theorem C2_parser_keeps_raw_name:
  "parseRecord vt_world killington_entry = Inr (Some killington_record)
   \<and> name killington_record = JStr ''Killington Resort''
   \<and> resolve (numstr vt_world) (JStr ''Killington Resort'') = Inr (Canon ''KILLINGTON'')
   \<and> ''Killington Resort'' \<notin> snd ` set NAME_MAP"
proof (intro conjI)
  show "parseRecord vt_world killington_entry = Inr (Some killington_record)"
    by (rule parse_killington_entry)
  show "name killington_record = JStr ''Killington Resort''"
    by (simp add: killington_record_def)
  show "resolve (numstr vt_world) (JStr ''Killington Resort'') = Inr (Canon ''KILLINGTON'')"
    by (simp add: resolve_def NAME_MAP_get_def NAME_MAP_def)
  show "''Killington Resort'' \<notin> snd ` set NAME_MAP"
    by (simp add: NAME_MAP_def)
qed

text \<open>
  C3. Two entries of one run that resolve to the same canonical name are both kept
  when their raw names differ: the run on Vermont's feed returns a record for
  \<open>Killington Resort\<close> and one for \<open>Killington\<close>, both of which resolve to
  \<open>KILLINGTON\<close>.
\<close>

theorem C3_duplicates_kept:
  "runAllScrapers_sno vt_world = Inr vt_snapshot
   \<and> map name (mountains vt_snapshot) = [JStr ''Killington Resort'', JStr ''Killington'']
   \<and> resolve example_numstr (JStr ''Killington Resort'') = Inr (Canon ''KILLINGTON'')
   \<and> resolve example_numstr (JStr ''Killington'') = Inr (Canon ''KILLINGTON'')"
proof (intro conjI)
  show "runAllScrapers_sno vt_world = Inr vt_snapshot"
    by (rule run_vt)
  show "map name (mountains vt_snapshot) = [JStr ''Killington Resort'', JStr ''Killington'']"
    by (simp add: vt_snapshot_def killington_record_def killington_record2_def)
  show "resolve example_numstr (JStr ''Killington Resort'') = Inr (Canon ''KILLINGTON'')"
    by (simp add: resolve_def NAME_MAP_get_def NAME_MAP_def)
  show "resolve example_numstr (JStr ''Killington'') = Inr (Canon ''KILLINGTON'')"
    by (simp add: resolve_def NAME_MAP_get_def NAME_MAP_def)
qed

subsection \<open>Failure inside an adapter\<close>

text \<open>
  C4 (as amended). No adapter raises. Each of the 33 registered adapters has a
  canonical name \<open>k\<close>, a page \<open>u\<close> and, for two of them, a JSON source \<open>ju\<close> that
  is tried first; whatever the environment \<open>e\<close>, it returns a record \<open>m\<close> with
  \<open>name\<close> \<open>k\<close> and \<open>updatedAt\<close> the time of the run. The JSON source fails when its request
  fails, answers with another status than success, cannot be parsed, or holds
  \<^verbatim>\<open>null\<close>, on which the extraction throws. When it succeeds, \<open>status\<close> is
  populated and \<open>source\<close> is \<open>ju\<close>. Otherwise the page is read: when that succeeds,
  \<open>status\<close> is \<open>Open\<close> and \<open>source\<close> is \<open>u\<close>; when it fails, the record is the one
  of the catch branch, which holds \<open>name\<close>, \<open>updatedAt\<close> and \<open>source\<close> and nothing
  else, so \<open>status\<close> is absent, not defaulted. \<open>fetchState\<close> never raises either:
  it returns the empty list when its request fails, answers with another status than
  success, cannot be parsed, or holds \<^verbatim>\<open>null\<close>.
\<close>

theorem C4_adapters_never_raise:
  "(\<forall>x \<in> set ALL_SCRAPERS. \<exists>k j u. k \<noteq> [] \<and> u \<noteq> [] \<and> j \<noteq> Some [] \<and>
     (\<forall>e. \<exists>m. snd x e = Inr m \<and> name m = JStr k \<and> updatedAt m = JStr (now e)
        \<and> (case j of
              None \<Rightarrow>
                if isl (fetchHTML e u)
                then m = no_fields\<lparr>name := JStr k, updatedAt := JStr (now e), source := JStr u\<rparr>
                   \<and> status m = JUndefined
                else status m = JStr ''Open'' \<and> source m = JStr u
            | Some ju \<Rightarrow>
                if isl (fetchJSON e ju) \<or> (\<exists>v. nullish v \<and> fetchJSON e ju = Inr (DocScalar v))
                then if isl (fetchHTML e u)
                     then m = no_fields\<lparr>name := JStr k, updatedAt := JStr (now e), source := JStr u\<rparr>
                        \<and> status m = JUndefined
                     else status m = JStr ''Open'' \<and> source m = JStr u
                else truthy (status m) \<and> source m = JStr ju)))
   \<and> (\<exists>v. fetchState w st = Inr v)
   \<and> (isl (fetch w (SNOCOUNTRY_URL @ ''?apiKey='' @ SNOCOUNTRY_KEY w @ ''&states='' @ st)) \<longrightarrow>
        fetchState w st = Inr (MArray []))
   \<and> (\<forall>res. fetch w (SNOCOUNTRY_URL @ ''?apiKey='' @ SNOCOUNTRY_KEY w @ ''&states='' @ st) = Inr res
           \<and> (\<not> res_ok res \<or> isl (text_json res)
                \<or> (\<exists>v. nullish v \<and> text_json res = Inr (FeedScalar v))) \<longrightarrow>
        fetchState w st = Inr (MArray []))"
proof (intro conjI)
  show "(\<forall>x \<in> set ALL_SCRAPERS. \<exists>k j u. k \<noteq> [] \<and> u \<noteq> [] \<and> j \<noteq> Some [] \<and>
       (\<forall>e. \<exists>m. snd x e = Inr m \<and> name m = JStr k \<and> updatedAt m = JStr (now e)
          \<and> (case j of
                None \<Rightarrow>
                  if isl (fetchHTML e u)
                  then m = no_fields\<lparr>name := JStr k, updatedAt := JStr (now e), source := JStr u\<rparr>
                     \<and> status m = JUndefined
                  else status m = JStr ''Open'' \<and> source m = JStr u
              | Some ju \<Rightarrow>
                  if isl (fetchJSON e ju) \<or> (\<exists>v. nullish v \<and> fetchJSON e ju = Inr (DocScalar v))
                  then if isl (fetchHTML e u)
                       then m = no_fields\<lparr>name := JStr k, updatedAt := JStr (now e), source := JStr u\<rparr>
                          \<and> status m = JUndefined
                       else status m = JStr ''Open'' \<and> source m = JStr u
                  else truthy (status m) \<and> source m = JStr ju)))"
    by (rule ALL_SCRAPERS_exact)
next
  show "\<exists>v. fetchState w st = Inr v"
    unfolding fetchState_def Let_def try_catch_def by (simp split: sum.split)
next
  show "isl (fetch w (SNOCOUNTRY_URL @ ''?apiKey='' @ SNOCOUNTRY_KEY w @ ''&states='' @ st)) \<longrightarrow>
        fetchState w st = Inr (MArray [])"
  proof
    assume "isl (fetch w (SNOCOUNTRY_URL @ ''?apiKey='' @ SNOCOUNTRY_KEY w @ ''&states='' @ st))"
    then obtain e where
      "fetch w (SNOCOUNTRY_URL @ ''?apiKey='' @ SNOCOUNTRY_KEY w @ ''&states='' @ st) = Inl e"
      by (cases "fetch w (SNOCOUNTRY_URL @ ''?apiKey='' @ SNOCOUNTRY_KEY w @ ''&states='' @ st)") auto
    then show "fetchState w st = Inr (MArray [])"
      by (simp add: fetchState_def Let_def try_catch_def and_then_def)
  qed
next
  show "\<forall>res. fetch w (SNOCOUNTRY_URL @ ''?apiKey='' @ SNOCOUNTRY_KEY w @ ''&states='' @ st) = Inr res
           \<and> (\<not> res_ok res \<or> isl (text_json res)
                \<or> (\<exists>v. nullish v \<and> text_json res = Inr (FeedScalar v))) \<longrightarrow>
        fetchState w st = Inr (MArray [])"
  proof (intro allI impI)
    fix res
    assume h: "fetch w (SNOCOUNTRY_URL @ ''?apiKey='' @ SNOCOUNTRY_KEY w @ ''&states='' @ st) = Inr res
           \<and> (\<not> res_ok res \<or> isl (text_json res)
                \<or> (\<exists>v. nullish v \<and> text_json res = Inr (FeedScalar v)))"
    show "fetchState w st = Inr (MArray [])"
    proof (cases "res_ok res")
      case False
      with h show ?thesis
        by (simp add: fetchState_def Let_def try_catch_def and_then_def)
    next
      case True
      show ?thesis
      proof (cases "text_json res")
        case (Inl e)
        with h True show ?thesis
          by (simp add: fetchState_def Let_def try_catch_def and_then_def)
      next
        case (Inr data)
        with h True obtain v where "nullish v" "data = FeedScalar v"
          by auto
        with h True Inr show ?thesis
          by (simp add: fetchState_def Let_def try_catch_def and_then_def feed_get_def)
      qed
    qed
  qed
qed

text \<open>
  In \<open>vt_world\<close> the request for New Jersey's feed fails and New York's answers 503;
  in \<open>null_world\<close> Tremblant's JSON source holds \<^verbatim>\<open>null\<close> and its page cannot be
  read, while in \<open>tremblant_world\<close> only Tremblant's JSON source answers.
\<close>

lemma tremblant_null: "tremblant null_world = Inr tremblant_degraded"
  by (simp add: tremblant_def fetchJSON_def fetchHTML_def fetchPage_def try_catch_def and_then_def
      Let_def doc_get_def null_world_def vt_world_def res_ok_def tremblant_degraded_def)

lemma creek_partial: "mountainCreek tremblant_world = Inr creek_degraded"
  by (simp add: mountainCreek_def fetchHTML_def fetchPage_def try_catch_def and_then_def Let_def
      creek_degraded_def tremblant_world_def vt_world_def)

theorem C4_adapters_never_raise_witness:
  "(''tremblant'', tremblant) \<in> set ALL_SCRAPERS
   \<and> (\<exists>m k. tremblant null_world = Inr m \<and> name m = JStr k \<and> k \<noteq> []
          \<and> updatedAt m = JStr (now null_world))
   \<and> tremblant null_world = Inr tremblant_degraded
   \<and> status tremblant_degraded = JUndefined
   \<and> mountainCreek tremblant_world = Inr creek_degraded
   \<and> fetchState vt_world ''NJ'' = Inr (MArray [])
   \<and> fetchState vt_world ''NY'' = Inr (MArray [])"
proof -
  have mem: "(''tremblant'', tremblant) \<in> set ALL_SCRAPERS"
    by (simp add: ALL_SCRAPERS_def)
  have nj: "isl (fetch vt_world (SNOCOUNTRY_URL @ ''?apiKey='' @ SNOCOUNTRY_KEY vt_world @ ''&states='' @ ''NJ''))"
    by (simp add: vt_world_def SNOCOUNTRY_URL_def SNOCOUNTRY_KEY_def)
  have ny: "fetch vt_world (SNOCOUNTRY_URL @ ''?apiKey='' @ SNOCOUNTRY_KEY vt_world @ ''&states='' @ ''NY'')
      = Inr \<lparr>http_status = 503, text_json = Inl (SyntaxError ''Unexpected token''),
              json = Inl (SyntaxError ''Unexpected token''),
              html = Inl (FetchError ''body used already'')\<rparr>"
    by (simp add: vt_world_def SNOCOUNTRY_URL_def SNOCOUNTRY_KEY_def)
  have bad: "\<not> res_ok \<lparr>http_status = 503, text_json = Inl (SyntaxError ''Unexpected token''),
              json = Inl (SyntaxError ''Unexpected token''),
              html = Inl (FetchError ''body used already'')\<rparr>"
    by (simp add: res_ok_def)
  note inst = C4_adapters_never_raise[of vt_world "''NJ''"]
  from inst mem obtain k j u where k: "k \<noteq> []"
    and all: "\<forall>e. \<exists>m. snd (''tremblant'', tremblant) e = Inr m \<and> name m = JStr k
                \<and> updatedAt m = JStr (now e)
        \<and> (case j of
              None \<Rightarrow>
                if isl (fetchHTML e u)
                then m = no_fields\<lparr>name := JStr k, updatedAt := JStr (now e), source := JStr u\<rparr>
                   \<and> status m = JUndefined
                else status m = JStr ''Open'' \<and> source m = JStr u
            | Some ju \<Rightarrow>
                if isl (fetchJSON e ju) \<or> (\<exists>v. nullish v \<and> fetchJSON e ju = Inr (DocScalar v))
                then if isl (fetchHTML e u)
                     then m = no_fields\<lparr>name := JStr k, updatedAt := JStr (now e), source := JStr u\<rparr>
                        \<and> status m = JUndefined
                     else status m = JStr ''Open'' \<and> source m = JStr u
                else truthy (status m) \<and> source m = JStr ju)"
    by blast
  from all obtain m where "tremblant null_world = Inr m" "name m = JStr k"
    "updatedAt m = JStr (now null_world)"
    by fastforce
  with k have 1: "\<exists>m k. tremblant null_world = Inr m \<and> name m = JStr k \<and> k \<noteq> []
          \<and> updatedAt m = JStr (now null_world)"
    by blast
  from inst nj have 2: "fetchState vt_world ''NJ'' = Inr (MArray [])"
    by blast
  from C4_adapters_never_raise[of vt_world "''NY''"] ny bad
  have 3: "fetchState vt_world ''NY'' = Inr (MArray [])"
    by blast
  have 4: "status tremblant_degraded = JUndefined"
    by (simp add: tremblant_degraded_def no_fields_def)
  from mem 1 2 3 4 tremblant_null creek_partial show ?thesis by simp
qed

text \<open>
  C4 as stated fails: \<open>mountainCreek\<close>, its request having failed, returns a record
  whose \<open>status\<close> is absent rather than \<open>Open\<close>; and \<open>fetchState\<close>, its request having
  failed, returns the empty list, not a record.
\<close>

theorem C4_degraded_status_absent:
  "mountainCreek vt_world = Inr creek_degraded
   \<and> status creek_degraded = JUndefined
   \<and> status creek_degraded \<noteq> JStr ''Open''
   \<and> fetchState vt_world ''NJ'' = Inr (MArray [])"
proof -
  have "fetch vt_world ''https://www.mountaincreek.com/mountain/snow-report'' = Inl (FetchError ''request failed'')"
    by (simp add: vt_world_def)
  then have "mountainCreek vt_world = Inr creek_degraded"
    by (simp add: mountainCreek_def fetchHTML_def fetchPage_def try_catch_def and_then_def Let_def
        creek_degraded_def vt_world_def)
  moreover have "status creek_degraded = JUndefined"
    by (simp add: creek_degraded_def no_fields_def)
  moreover have "fetchState vt_world ''NJ'' = Inr (MArray [])"
    by (simp add: fetchState_def Let_def try_catch_def and_then_def vt_world_def
        SNOCOUNTRY_URL_def SNOCOUNTRY_KEY_def)
  ultimately show ?thesis by simp
qed

subsection \<open>Name resolution\<close>

lemma keys_clean:
  "list_all (\<lambda>k. k \<noteq> [] \<and> \<not> is_ws (hd k) \<and> \<not> is_ws (last k)) (map fst NAME_MAP @ object_prototype_keys)"
  by (simp add: NAME_MAP_def object_prototype_keys_def is_ws_def)

lemma found_is_key:
  assumes "NAME_MAP_get x \<noteq> Missing"
  shows "x \<in> set (map fst NAME_MAP @ object_prototype_keys)"
proof (cases "map_of NAME_MAP x")
  case None
  with assms show ?thesis by (simp add: NAME_MAP_get_def split: if_splits)
next
  case (Some c)
  then have "(x, c) \<in> set NAME_MAP" by (rule map_of_SomeD)
  then have "x \<in> fst ` set NAME_MAP" by force
  then show ?thesis by simp
qed

lemma found_is_clean:
  assumes "NAME_MAP_get x \<noteq> Missing"
  shows "x \<noteq> [] \<and> \<not> is_ws (hd x) \<and> \<not> is_ws (last x)"
  using found_is_key[OF assms] keys_clean by (simp only: list_all_iff) blast

lemma dropWhile_clean: "xs \<noteq> [] \<Longrightarrow> \<not> P (hd xs) \<Longrightarrow> dropWhile P xs = xs"
  by (cases xs) simp_all

lemma trim_padded:
  assumes a: "list_all is_ws a" and b: "list_all is_ws b"
    and k: "k \<noteq> []" "\<not> is_ws (hd k)" "\<not> is_ws (last k)"
  shows "trim (a @ k @ b) = k"
proof -
  from a have "dropWhile is_ws (a @ k @ b) = dropWhile is_ws (k @ b)"
    by (intro dropWhile_append2) (simp add: list_all_iff)
  also from k have "\<dots> = k @ b"
    by (intro dropWhile_clean) simp_all
  finally have 1: "dropWhile is_ws (a @ k @ b) = k @ b" .
  from b have "dropWhile is_ws (rev b @ rev k) = dropWhile is_ws (rev k)"
    by (intro dropWhile_append2) (simp add: list_all_iff)
  also from k have "\<dots> = rev k"
    by (intro dropWhile_clean) (simp_all add: hd_rev)
  finally have "dropWhile is_ws (rev (k @ b)) = rev k" by simp
  with 1 show ?thesis by (simp add: trim_def)
qed

lemma resolve_text:
  "resolve ns (JStr s) = Inr (case NAME_MAP_get s of Missing \<Rightarrow> NAME_MAP_get (trim s) | found \<Rightarrow> found)"
  by (simp add: resolve_def and_then_def split: looked_up.split)

lemma resolve_padded:
  assumes key: "k \<in> set (map fst NAME_MAP)" and a: "list_all is_ws a" and b: "list_all is_ws b"
  shows "resolve ns (JStr (a @ k @ b)) = Inr (NAME_MAP_get k) \<and> (\<exists>c. NAME_MAP_get k = Canon c)"
proof -
  from key have "map_of NAME_MAP k \<noteq> None"
    by (simp add: map_of_eq_None_iff)
  then obtain c where c: "NAME_MAP_get k = Canon c"
    by (auto simp: NAME_MAP_get_def)
  then have clean: "k \<noteq> []" "\<not> is_ws (hd k)" "\<not> is_ws (last k)"
    using found_is_clean[of k] by simp_all
  have "resolve ns (JStr (a @ k @ b)) = Inr (NAME_MAP_get k)"
  proof (cases "NAME_MAP_get (a @ k @ b) = Missing")
    case True
    then show ?thesis
      by (simp add: resolve_text trim_padded[OF a b clean])
  next
    case False
    from found_is_clean[OF False]
    have x: "\<not> is_ws (hd (a @ k @ b))" "\<not> is_ws (last (a @ k @ b))" by simp_all
    have "a = []"
    proof (rule ccontr)
      assume "a \<noteq> []"
      then have "hd (a @ k @ b) = hd a" "hd a \<in> set a" by simp_all
      with a x(1) show False by (simp add: list_all_iff)
    qed
    moreover have "b = []"
    proof (rule ccontr)
      assume "b \<noteq> []"
      then have "last (a @ k @ b) = last b" "last b \<in> set b" by simp_all
      with b x(2) show False by (simp add: list_all_iff)
    qed
    ultimately show ?thesis using c by (simp add: resolve_text)
  qed
  with c show ?thesis by blast
qed

lemma parseRecord_Some:
  assumes "parseRecord w r = Inr (Some p)"
  shows "name p = js_or (get r ''resort_name'') (get r ''resortName'')
       \<and> (\<exists>v. resolve (numstr w) (name p) = Inr v \<and> v \<noteq> Missing)"
proof -
  let ?nm = "js_or (get r ''resort_name'') (get r ''resortName'')"
  from assms obtain ourName where r: "resolve (numstr w) ?nm = Inr ourName"
    and rest: "ourName \<noteq> Missing" "name p = ?nm"
    unfolding parseRecord_def Let_def and_then_Inr
    by (auto split: if_splits)
  then show ?thesis by simp
qed

lemma match_all_resolved:
  assumes "match_all w rs (matched, seen) = Inr (matched', seen')"
    and "\<forall>m \<in> set matched. \<exists>v. resolve (numstr w) (name m) = Inr v \<and> v \<noteq> Missing"
  shows "\<forall>m \<in> set matched'. \<exists>v. resolve (numstr w) (name m) = Inr v \<and> v \<noteq> Missing"
  using assms
proof (induction rs arbitrary: matched seen)
  case Nil
  then show ?case by simp
next
  case (Cons r rs)
  from Cons.prems(1) obtain parsed where p: "parseRecord w r = Inr parsed"
    and rest: "(case parsed of
         None \<Rightarrow> match_all w rs (matched, seen)
       | Some p \<Rightarrow>
           if name p \<notin> seen
           then match_all w rs (matched @ [p], insert (name p) seen)
           else match_all w rs (matched, seen)) = Inr (matched', seen')"
    by (auto simp: and_then_Inr)
  show ?case
  proof (cases parsed)
    case None
    with rest Cons.IH[of matched seen] Cons.prems(2) show ?thesis by simp
  next
    case (Some q)
    with p have "parseRecord w r = Inr (Some q)" by simp
    then have q: "\<exists>v. resolve (numstr w) (name q) = Inr v \<and> v \<noteq> Missing"
      by (blast dest: parseRecord_Some)
    show ?thesis
    proof (cases "name q \<in> seen")
      case True
      with Some rest Cons.IH[of matched seen] Cons.prems(2) show ?thesis by simp
    next
      case False
      with Some rest have "match_all w rs (matched @ [q], insert (name q) seen) = Inr (matched', seen')"
        by simp
      moreover from q Cons.prems(2)
      have "\<forall>m \<in> set (matched @ [q]). \<exists>v. resolve (numstr w) (name m) = Inr v \<and> v \<noteq> Missing"
        by auto
      ultimately show ?thesis by (rule Cons.IH)
    qed
  qed
qed

text \<open>
  C5 (as amended). The resolver looks the name up as it is and then trimmed. The
  lookup is exact: a name resolves only when it, or its trimmed form, is spelled as a
  key of \<open>NAME_MAP\<close> (or as a member every object inherits), so resolution is
  case-sensitive and ignores white space at the two ends only: a registered spelling
  padded with white space resolves as the spelling itself does. An entry whose name
  resolves under neither lookup is excluded, so every record of a snapshot has a name
  that resolves. The name \<open>''  Killington Resort  ''\<close> resolves to \<open>KILLINGTON\<close>.
\<close>

theorem C5_name_resolution:
  "resolve ns (JStr s) = Inr (case NAME_MAP_get s of Missing \<Rightarrow> NAME_MAP_get (trim s) | found \<Rightarrow> found)
   \<and> (\<forall>v. resolve ns (JStr s) = Inr v \<and> v \<noteq> Missing \<longrightarrow>
         s \<in> set (map fst NAME_MAP @ object_prototype_keys)
       \<or> trim s \<in> set (map fst NAME_MAP @ object_prototype_keys))
   \<and> (\<forall>k \<in> set (map fst NAME_MAP). \<forall>a b. list_all is_ws a \<and> list_all is_ws b \<longrightarrow>
         resolve ns (JStr (a @ k @ b)) = Inr (NAME_MAP_get k) \<and> (\<exists>c. NAME_MAP_get k = Canon c))
   \<and> (resolve (numstr w) (js_or (get r ''resort_name'') (get r ''resortName'')) = Inr Missing \<longrightarrow>
         parseRecord w r = Inr None)
   \<and> (\<forall>snap. runAllScrapers_sno w = Inr snap \<longrightarrow>
         (\<forall>m \<in> set (mountains snap). \<exists>v. resolve (numstr w) (name m) = Inr v \<and> v \<noteq> Missing))
   \<and> resolve ns (JStr ''  Killington Resort  '') = Inr (Canon ''KILLINGTON'')"
proof (intro conjI ballI allI impI)
  show "resolve ns (JStr s) = Inr (case NAME_MAP_get s of Missing \<Rightarrow> NAME_MAP_get (trim s) | found \<Rightarrow> found)"
    by (rule resolve_text)
next
  fix v
  assume "resolve ns (JStr s) = Inr v \<and> v \<noteq> Missing"
  then have "NAME_MAP_get s \<noteq> Missing \<or> NAME_MAP_get (trim s) \<noteq> Missing"
    by (cases "NAME_MAP_get s") (auto simp: resolve_text)
  then show "s \<in> set (map fst NAME_MAP @ object_prototype_keys)
       \<or> trim s \<in> set (map fst NAME_MAP @ object_prototype_keys)"
    using found_is_key by blast
next
  fix k a b
  assume "k \<in> set (map fst NAME_MAP)" "list_all is_ws a \<and> list_all is_ws b"
  then have "resolve ns (JStr (a @ k @ b)) = Inr (NAME_MAP_get k) \<and> (\<exists>c. NAME_MAP_get k = Canon c)"
    using resolve_padded[of k a b ns] by simp
  then show "resolve ns (JStr (a @ k @ b)) = Inr (NAME_MAP_get k)" "\<exists>c. NAME_MAP_get k = Canon c"
    by simp_all
next
  assume "resolve (numstr w) (js_or (get r ''resort_name'') (get r ''resortName'')) = Inr Missing"
  then show "parseRecord w r = Inr None"
    by (simp add: parseRecord_def Let_def and_then_def)
next
  fix snap m
  assume "runAllScrapers_sno w = Inr snap" and m: "m \<in> set (mountains snap)"
  from sno_snapshot[OF this(1)] obtain allResorts matched seen where
    ma: "match_all w allResorts ([], {}) = Inr (matched, seen)" and "mountains snap = matched"
    by auto
  with match_all_resolved[OF ma] m
  show "\<exists>v. resolve (numstr w) (name m) = Inr v \<and> v \<noteq> Missing" by simp
next
  show "resolve ns (JStr ''  Killington Resort  '') = Inr (Canon ''KILLINGTON'')"
    by (simp add: resolve_def NAME_MAP_get_def NAME_MAP_def object_prototype_keys_def and_then_def
        trim_def is_ws_def)
qed

theorem C5_name_resolution_witness:
  "list_all is_ws ''  '' \<and> list_all is_ws '' ''
   \<and> resolve example_numstr (JStr (''  '' @ ''Stowe'' @ '' '')) = Inr (Canon ''STOWE'')
   \<and> trim ''  Stowe '' \<in> set (map fst NAME_MAP @ object_prototype_keys)
   \<and> resolve (numstr vt_world) (js_or (get [''resort_name'' \<mapsto> JStr ''Nowhere''] ''resort_name'')
                                       (get [''resort_name'' \<mapsto> JStr ''Nowhere''] ''resortName''))
       = Inr Missing
   \<and> parseRecord vt_world [''resort_name'' \<mapsto> JStr ''Nowhere''] = Inr None
   \<and> (\<exists>v. resolve (numstr vt_world) (name killington_record2) = Inr v \<and> v \<noteq> Missing)"
proof -
  have ws: "list_all is_ws ''  ''" "list_all is_ws '' ''"
    by (simp_all add: is_ws_def)
  have key: "''Stowe'' \<in> set (map fst NAME_MAP)" and stowe: "NAME_MAP_get ''Stowe'' = Canon ''STOWE''"
    by (simp_all add: NAME_MAP_def NAME_MAP_get_def)
  have nowhere: "resolve (numstr vt_world)
      (js_or (get [''resort_name'' \<mapsto> JStr ''Nowhere''] ''resort_name'')
             (get [''resort_name'' \<mapsto> JStr ''Nowhere''] ''resortName'')) = Inr Missing"
    by (simp add: resolve_def NAME_MAP_get_def NAME_MAP_def object_prototype_keys_def and_then_def
        trim_def is_ws_def get_def js_or_def)
  have mem: "killington_record2 \<in> set (mountains vt_snapshot)"
    by (simp add: vt_snapshot_def)
  have raw: "''  Stowe '' \<notin> set (map fst NAME_MAP @ object_prototype_keys)"
    by (simp add: NAME_MAP_def object_prototype_keys_def)
  note inst = C5_name_resolution[of example_numstr "''  Stowe ''" vt_world
      "[''resort_name'' \<mapsto> JStr ''Nowhere'']"]
  from inst key ws stowe
  have 1: "resolve example_numstr (JStr (''  '' @ ''Stowe'' @ '' '')) = Inr (Canon ''STOWE'')"
    by metis
  then have "resolve example_numstr (JStr ''  Stowe '') = Inr (Canon ''STOWE'') \<and> Canon ''STOWE'' \<noteq> Missing"
    by simp
  with inst raw have 4: "trim ''  Stowe '' \<in> set (map fst NAME_MAP @ object_prototype_keys)"
    by blast
  from inst nowhere
  have 2: "parseRecord vt_world [''resort_name'' \<mapsto> JStr ''Nowhere''] = Inr None"
    by blast
  from inst run_vt mem
  have 3: "\<exists>v. resolve (numstr vt_world) (name killington_record2) = Inr v \<and> v \<noteq> Missing"
    by blast
  from ws 1 4 nowhere 2 3 show ?thesis by blast
qed

text \<open>
  C5 as stated fails: resolution is case-sensitive. \<open>Killington\<close> is registered;
  the same name in lower case resolves to nothing, and its entry is dropped.
\<close>

theorem C5_case_sensitive:
  "resolve example_numstr (JStr ''Killington'') = Inr (Canon ''KILLINGTON'')
   \<and> resolve example_numstr (JStr ''killington'') = Inr Missing
   \<and> parseRecord vt_world [''resort_name'' \<mapsto> JStr ''killington''] = Inr None"
  by (simp add: parseRecord_def resolve_def NAME_MAP_get_def NAME_MAP_def object_prototype_keys_def
      and_then_def trim_def is_ws_def get_def js_or_def Let_def)

subsection \<open>The trigger\<close>

lemma handler_denied:
  "\<not> noSecret w \<and> \<not> validCron w req \<and> \<not> validManual w req \<Longrightarrow>
     handler run w req = Reply 401 (DeniedBody False ''Unauthorized''
       ''Pass ?secret=YOUR_CRON_SECRET or set CRON_SECRET env var to skip auth in dev'')"
  by (simp add: handler_def)

lemma handler_allowed:
  "noSecret w \<or> validCron w req \<or> validManual w req \<Longrightarrow>
     handler run w req =
       (case run w of
          Inr results \<Rightarrow>
            Reply 200 (ResultBody
              \<lparr>body_ok = True,
               body_scrapedAt = scrapedAt results,
               body_successCount = successCount results,
               body_totalCount = totalCount results,
               body_saved = setData w results,
               body_mountains =
                 map (\<lambda>m. \<lparr>sum_name = name m, sum_base = base m, sum_new24 = newSnow24 m,
                            sum_ok = (\<not> nullish (base m))\<rparr>) (mountains results)\<rparr>)
        | Inl err \<Rightarrow> Reply 500 (FatalBody False (message err)))"
  by (auto simp: handler_def Let_def split: sum.split)

text \<open>
  C6. When the run has returned a snapshot and the write of \<open>setData\<close> fails (it
  returns false), the handler answers 200 with \<open>ok: true\<close> and \<open>saved: false\<close>, and
  the \<open>successCount\<close> and \<open>totalCount\<close> of its answer are those of the run. (The
  write is attempted only for a request that passed the secret check.)
\<close>

theorem C6_storage_failure_reported:
  assumes "noSecret w \<or> validCron w req \<or> validManual w req"
    and "run w = Inr results"
    and "\<not> setData w results"
  shows "\<exists>ms. handler run w req =
           Reply 200 (ResultBody
             \<lparr>body_ok = True, body_scrapedAt = scrapedAt results,
              body_successCount = successCount results, body_totalCount = totalCount results,
              body_saved = False, body_mountains = ms\<rparr>)"
  using assms by (simp add: handler_allowed)

lemma vt_world_no_secret: "noSecret vt_world"
  by (simp add: noSecret_def env_truthy_def vt_world_def)

lemma vt_world_write_fails: "\<not> setData vt_world results"
  by (simp add: setData_def isProduction_def env_truthy_def localSet_def vt_world_def Let_def)

theorem C6_storage_failure_reported_witness:
  "\<not> setData vt_world vt_snapshot
   \<and> (\<exists>ms. handler runAllScrapers_sno vt_world \<lparr>authorization = None, query = None\<rparr> =
           Reply 200 (ResultBody
             \<lparr>body_ok = True, body_scrapedAt = ''2026-02-23T12:00:00.000Z'',
              body_successCount = 1, body_totalCount = 2,
              body_saved = False, body_mountains = ms\<rparr>))"
proof -
  have auth: "noSecret vt_world \<or> validCron vt_world \<lparr>authorization = None, query = None\<rparr>
                \<or> validManual vt_world \<lparr>authorization = None, query = None\<rparr>"
    using vt_world_no_secret by simp
  have "\<not> setData vt_world vt_snapshot" by (rule vt_world_write_fails)
  from C6_storage_failure_reported[of vt_world "\<lparr>authorization = None, query = None\<rparr>"
      runAllScrapers_sno vt_snapshot, OF auth run_vt this] this
  show ?thesis by (simp add: vt_snapshot_def)
qed

text \<open>
  C7. The handler answers 401 exactly when a secret is configured (\<open>CRON_SECRET\<close> set
  and not empty), the \<open>authorization\<close> header is not \<open>Bearer\<close> followed by the secret
  and the \<open>secret\<close> query parameter is not the secret. With no secret configured every
  request proceeds to the run: the answer is 200 when the run returns and 500 when it
  throws.
\<close>

theorem C7_unauthorized_iff:
  "((\<exists>b. handler run w req = Reply 401 b) \<longleftrightarrow>
      (\<exists>secret. env w ''CRON_SECRET'' = Some secret \<and> secret \<noteq> []
         \<and> authorization req \<noteq> Some (''Bearer '' @ secret)
         \<and> (case query req of Some q \<Rightarrow> q ''secret'' \<noteq> Some (QString secret) | None \<Rightarrow> True)))
   \<and> (env w ''CRON_SECRET'' = None \<or> env w ''CRON_SECRET'' = Some [] \<longrightarrow>
         (\<forall>b. handler run w req \<noteq> Reply 401 b)
       \<and> (\<forall>results. run w = Inr results \<longrightarrow> (\<exists>b. handler run w req = Reply 200 (ResultBody b)))
       \<and> (\<forall>err. run w = Inl err \<longrightarrow> handler run w req = Reply 500 (FatalBody False (message err))))"
proof -
  have denied: "(\<not> noSecret w \<and> \<not> validCron w req \<and> \<not> validManual w req) \<longleftrightarrow>
      (\<exists>secret. env w ''CRON_SECRET'' = Some secret \<and> secret \<noteq> []
         \<and> authorization req \<noteq> Some (''Bearer '' @ secret)
         \<and> (case query req of Some q \<Rightarrow> q ''secret'' \<noteq> Some (QString secret) | None \<Rightarrow> True))"
    by (cases "env w ''CRON_SECRET''"; cases "query req")
       (auto simp: noSecret_def validCron_def validManual_def env_truthy_def)
  have reply: "(\<exists>b. handler run w req = Reply 401 b) \<longleftrightarrow>
      (\<not> noSecret w \<and> \<not> validCron w req \<and> \<not> validManual w req)"
  proof (cases "\<not> noSecret w \<and> \<not> validCron w req \<and> \<not> validManual w req")
    case True
    then show ?thesis using handler_denied[of w req run] by simp
  next
    case False
    then have "noSecret w \<or> validCron w req \<or> validManual w req" by blast
    from handler_allowed[OF this, of run] False show ?thesis
      by (cases "run w") simp_all
  qed
  have dev: "env w ''CRON_SECRET'' = None \<or> env w ''CRON_SECRET'' = Some [] \<Longrightarrow> noSecret w"
    by (auto simp: noSecret_def env_truthy_def)
  have proceed: "noSecret w \<Longrightarrow>
         (\<forall>results. run w = Inr results \<longrightarrow> (\<exists>b. handler run w req = Reply 200 (ResultBody b)))
       \<and> (\<forall>err. run w = Inl err \<longrightarrow> handler run w req = Reply 500 (FatalBody False (message err)))"
    by (simp add: handler_allowed)
  from denied reply dev proceed show ?thesis by auto
qed

theorem C7_unauthorized_iff_witness:
  "handler runAllScrapers_sno secret_world \<lparr>authorization = Some ''Bearer wrong'', query = None\<rparr>
     = Reply 401 (DeniedBody False ''Unauthorized''
         ''Pass ?secret=YOUR_CRON_SECRET or set CRON_SECRET env var to skip auth in dev'')
   \<and> (\<forall>b. handler runAllScrapers_sno secret_world
             \<lparr>authorization = Some ''Bearer s3cret'', query = None\<rparr> \<noteq> Reply 401 b)
   \<and> (\<forall>b. handler runAllScrapers_sno secret_world
             \<lparr>authorization = None, query = Some [''secret'' \<mapsto> QString ''s3cret'']\<rparr> \<noteq> Reply 401 b)
   \<and> (\<forall>b. handler runAllScrapers_sno vt_world \<lparr>authorization = None, query = None\<rparr> \<noteq> Reply 401 b)
   \<and> (\<exists>b. handler runAllScrapers_sno vt_world \<lparr>authorization = None, query = None\<rparr>
             = Reply 200 (ResultBody b))"
proof -
  have env: "env secret_world ''CRON_SECRET'' = Some ''s3cret''" "env vt_world ''CRON_SECRET'' = None"
    by (simp_all add: secret_world_def vt_world_def)
  have 1: "\<exists>b. handler runAllScrapers_sno secret_world \<lparr>authorization = Some ''Bearer wrong'', query = None\<rparr>
     = Reply 401 b"
    using C7_unauthorized_iff[of runAllScrapers_sno secret_world
        "\<lparr>authorization = Some ''Bearer wrong'', query = None\<rparr>"] env
    by simp
  then have a: "handler runAllScrapers_sno secret_world \<lparr>authorization = Some ''Bearer wrong'', query = None\<rparr>
     = Reply 401 (DeniedBody False ''Unauthorized''
         ''Pass ?secret=YOUR_CRON_SECRET or set CRON_SECRET env var to skip auth in dev'')"
    by (auto simp: handler_def Let_def split: if_splits sum.splits)
  have b: "\<forall>b. handler runAllScrapers_sno secret_world
             \<lparr>authorization = Some ''Bearer s3cret'', query = None\<rparr> \<noteq> Reply 401 b"
    using C7_unauthorized_iff[of runAllScrapers_sno secret_world
        "\<lparr>authorization = Some ''Bearer s3cret'', query = None\<rparr>"] env
    by simp
  have c: "\<forall>b. handler runAllScrapers_sno secret_world
             \<lparr>authorization = None, query = Some [''secret'' \<mapsto> QString ''s3cret'']\<rparr> \<noteq> Reply 401 b"
    using C7_unauthorized_iff[of runAllScrapers_sno secret_world
        "\<lparr>authorization = None, query = Some [''secret'' \<mapsto> QString ''s3cret'']\<rparr>"] env
    by simp
  note dev = C7_unauthorized_iff[of runAllScrapers_sno vt_world "\<lparr>authorization = None, query = None\<rparr>"]
  have d: "\<forall>b. handler runAllScrapers_sno vt_world \<lparr>authorization = None, query = None\<rparr> \<noteq> Reply 401 b"
    using dev env by simp
  have e: "\<exists>b. handler runAllScrapers_sno vt_world \<lparr>authorization = None, query = None\<rparr>
             = Reply 200 (ResultBody b)"
    using dev env run_vt by blast
  from a b c d e show ?thesis by blast
qed

subsection \<open>Numbers\<close>

lemma round_nearest: "\<bar>of_int \<lfloor>x + 1 / 2\<rfloor> - x\<bar> \<le> (1 / 2 :: rat)"
proof -
  have "of_int \<lfloor>x + 1 / 2\<rfloor> \<le> x + 1 / 2" by (rule of_int_floor_le)
  moreover have "x + 1 / 2 < of_int \<lfloor>x + 1 / 2\<rfloor> + 1" by linarith
  ultimately show ?thesis by linarith
qed

lemma quotient_error:
  assumes "\<bar>c\<bar> < 2 ^ 1024"
  shows "\<exists>q. fl (c / c2_54) = Fin q \<and> \<bar>q - c / (254 / 100)\<bar> \<le> \<bar>c\<bar> / 2 ^ 53 + 1 / 2 ^ 1075"
proof -
  have "\<bar>c / c2_54\<bar> = \<bar>c\<bar> / c2_54" by (simp add: c2_54_def)
  also have "\<dots> \<le> \<bar>c\<bar> / 2" by (simp add: c2_54_def field_simps)
  also have "\<dots> \<le> 2 ^ 1023" using assms by simp
  finally obtain q where q: "fl (c / c2_54) = Fin q" using fl_finite by blast
  from fl_error[OF q] have "\<bar>q - c / c2_54\<bar> \<le> \<bar>c / c2_54\<bar> / 2 ^ 53 + 1 / 2 ^ 1075" .
  moreover have "\<bar>c / c2_54\<bar> / 2 ^ 53 = \<bar>c\<bar> * (1 / (c2_54 * 2 ^ 53))" by (simp add: c2_54_def)
  moreover have "\<bar>c / c2_54 - c / (254 / 100)\<bar> = \<bar>c\<bar> * (100 / 254 - 1 / c2_54)"
  proof -
    have "c / c2_54 - c / (254 / 100) = - (c * (100 / 254 - 1 / c2_54))" by (simp add: field_simps)
    moreover have "0 \<le> (100 / 254 - 1 / c2_54)" by (simp add: c2_54_def)
    ultimately show ?thesis by (simp add: abs_mult)
  qed
  moreover have "\<bar>c\<bar> * (1 / (c2_54 * 2 ^ 53)) + \<bar>c\<bar> * (100 / 254 - 1 / c2_54) \<le> \<bar>c\<bar> / 2 ^ 53"
  proof -
    have k: "1 / (c2_54 * 2 ^ 53) + (100 / 254 - 1 / c2_54) \<le> 1 / 2 ^ 53" by (simp add: c2_54_def)
    have "\<bar>c\<bar> * (1 / (c2_54 * 2 ^ 53)) + \<bar>c\<bar> * (100 / 254 - 1 / c2_54)
        = \<bar>c\<bar> * (1 / (c2_54 * 2 ^ 53) + (100 / 254 - 1 / c2_54))"
      by (rule distrib_left[symmetric])
    also have "\<dots> \<le> \<bar>c\<bar> * (1 / 2 ^ 53)"
      using k by (rule mult_left_mono) simp
    also have "\<dots> = \<bar>c\<bar> / 2 ^ 53" by simp
    finally show ?thesis .
  qed
  ultimately have "\<bar>q - c / (254 / 100)\<bar> \<le> \<bar>c\<bar> / 2 ^ 53 + 1 / 2 ^ 1075" by linarith
  with q show ?thesis by blast
qed

lemma tremblant_json:
  assumes "fetchJSON w ''https://www.tremblant.ca/api/mountain-conditions'' = Inr data"
    and "doc_get data ''conditions'' = Inr a"
    and "member_view (if target_truthy a then a else doc_itself data) = Inr d"
  shows "\<exists>m. tremblant w = Inr m
       \<and> base m = js_or (cmToIn (d ''baseDepthCm'')) (parseInches w (d ''baseDepth''))"
  using assms by (simp add: tremblant_def Let_def try_catch_def and_then_def)

lemma cmToIn_142: "cmToIn (JNum (Fin 142)) = JNum (Fin 56)"
  by code_simp

text \<open>
  \<open>leMassif\<close> turns the depth it reads into centimetres and back: a page showing
  \<open>15.5\<close> gives 15, the quotient of \<open>15.5 * 2.54\<close> by \<open>2.54\<close> being just under
  \<open>15.5\<close> in binary64.
\<close>

lemma leMassif_15_5: "cmToIn (JNum (num_times (Fin (31 / 2)) c2_54)) = JNum (Fin 15)"
  by code_simp

text \<open>A depth written as the decimal \<open>39.37\<close> is read as the literal is.\<close>

lemma cmToIn_39_37: "cmToIn (JNum (Fin (3937 / 100))) = JNum (Fin 15)"
  by code_simp

text \<open>
  C8, as the code has it. \<open>cmToIn\<close> gives \<^verbatim>\<open>null\<close> for \<^verbatim>\<open>null\<close> (and
  \<^verbatim>\<open>undefined\<close>). For a number of centimetres \<open>c\<close> (a binary64 number, as every
  number of the language is) it gives \<^verbatim>\<open>Math.round\<close> of the binary64 quotient \<open>q\<close>
  of \<open>c\<close> by the literal \<^verbatim>\<open>2.54\<close>: the integer nearest to \<open>q\<close>, a tie going up.
  \<open>q\<close> is within \<open>\<bar>c\<bar> / 2 ^ 53 + 1 / 2 ^ 1075\<close> of the exact quotient \<open>c / 2.54\<close>, so
  the result is the integer \<open>n\<close> nearest to \<open>c / 2.54\<close> whenever \<open>c / 2.54\<close> is further
  than that from the two ties \<open>n - 1 / 2\<close> and \<open>n + 1 / 2\<close>. 142 gives 56, and
  \<open>tremblant\<close>, reading \<open>baseDepthCm = 142\<close> from its JSON source, returns
  \<open>base = 56\<close>.
\<close>

theorem C8_cmToIn_rounds:
  "cmToIn JNull = JNull \<and> cmToIn JUndefined = JNull
   \<and> fl (254 / 100) = Fin c2_54
   \<and> (fl c = Fin c \<longrightarrow>
        (\<exists>q. fl (c / c2_54) = Fin q
           \<and> cmToIn (JNum (Fin c)) = JNum (Fin (of_int \<lfloor>q + 1 / 2\<rfloor>))
           \<and> \<bar>of_int \<lfloor>q + 1 / 2\<rfloor> - q\<bar> \<le> 1 / 2
           \<and> \<bar>q - c / (254 / 100)\<bar> \<le> \<bar>c\<bar> / 2 ^ 53 + 1 / 2 ^ 1075)
      \<and> (\<forall>n. of_int n - 1 / 2 + (\<bar>c\<bar> / 2 ^ 53 + 1 / 2 ^ 1075) \<le> c / (254 / 100)
             \<and> c / (254 / 100) < of_int n + 1 / 2 - (\<bar>c\<bar> / 2 ^ 53 + 1 / 2 ^ 1075)
             \<longrightarrow> cmToIn (JNum (Fin c)) = JNum (Fin (of_int n))))
   \<and> fl 142 = Fin 142
   \<and> cmToIn (JNum (Fin 142)) = JNum (Fin 56)
   \<and> (\<forall>data a d.
         fetchJSON w ''https://www.tremblant.ca/api/mountain-conditions'' = Inr data
       \<and> doc_get data ''conditions'' = Inr a
       \<and> member_view (if target_truthy a then a else doc_itself data) = Inr d
       \<and> d ''baseDepthCm'' = JNum (Fin 142)
       \<longrightarrow> (\<exists>m. tremblant w = Inr m \<and> base m = JNum (Fin 56)))"
proof (intro conjI allI impI)
  show "cmToIn JNull = JNull" "cmToIn JUndefined = JNull"
    by (simp_all add: cmToIn_def)
  show "fl (254 / 100) = Fin c2_54"
    by (rule c2_54_literal)
  show "fl 142 = Fin 142"
    by code_simp
  show "cmToIn (JNum (Fin 142)) = JNum (Fin 56)"
    by (rule cmToIn_142)
next
  assume b: "fl c = Fin c"
  then have c: "\<bar>c\<bar> < 2 ^ 1024"
    by (rule binary64_bound)
  from quotient_error[OF c] obtain q where q: "fl (c / c2_54) = Fin q"
    and e: "\<bar>q - c / (254 / 100)\<bar> \<le> \<bar>c\<bar> / 2 ^ 53 + 1 / 2 ^ 1075"
    by blast
  have r: "cmToIn (JNum (Fin c)) = JNum (Fin (of_int \<lfloor>q + 1 / 2\<rfloor>))"
    by (simp add: cmToIn_def num_over_binary64[OF b] q)
  show "\<exists>q. fl (c / c2_54) = Fin q
           \<and> cmToIn (JNum (Fin c)) = JNum (Fin (of_int \<lfloor>q + 1 / 2\<rfloor>))
           \<and> \<bar>of_int \<lfloor>q + 1 / 2\<rfloor> - q\<bar> \<le> 1 / 2
           \<and> \<bar>q - c / (254 / 100)\<bar> \<le> \<bar>c\<bar> / 2 ^ 53 + 1 / 2 ^ 1075"
    using q r e round_nearest[of q] by blast
  fix n :: int
  assume n: "of_int n - 1 / 2 + (\<bar>c\<bar> / 2 ^ 53 + 1 / 2 ^ 1075) \<le> c / (254 / 100)
             \<and> c / (254 / 100) < of_int n + 1 / 2 - (\<bar>c\<bar> / 2 ^ 53 + 1 / 2 ^ 1075)"
  from e n have "of_int n \<le> q + 1 / 2" "q + 1 / 2 < of_int n + 1"
    by linarith+
  then have "\<lfloor>q + 1 / 2\<rfloor> = n"
    by (rule floor_unique)
  with r show "cmToIn (JNum (Fin c)) = JNum (Fin (of_int n))"
    by simp
next
  fix data a d
  assume h: "fetchJSON w ''https://www.tremblant.ca/api/mountain-conditions'' = Inr data
       \<and> doc_get data ''conditions'' = Inr a
       \<and> member_view (if target_truthy a then a else doc_itself data) = Inr d
       \<and> d ''baseDepthCm'' = JNum (Fin 142)"
  then obtain m where m: "tremblant w = Inr m"
    "base m = js_or (cmToIn (d ''baseDepthCm'')) (parseInches w (d ''baseDepth''))"
    using tremblant_json[of w data a d] by blast
  from h cmToIn_142 have "js_or (cmToIn (d ''baseDepthCm'')) (parseInches w (d ''baseDepth'')) = JNum (Fin 56)"
    by (simp add: js_or_def)
  with m show "\<exists>m. tremblant w = Inr m \<and> base m = JNum (Fin 56)" by simp
qed

text \<open>
  In \<open>tremblant_world\<close> the JSON source reports 142 centimetres; and 254 centimetres
  are 100 inches, the quotient being far from a tie.
\<close>

theorem C8_cmToIn_rounds_witness:
  "fetchJSON tremblant_world ''https://www.tremblant.ca/api/mountain-conditions''
     = Inr (DocObject Map.empty [''baseDepthCm'' \<mapsto> JNum (Fin 142)])
   \<and> (\<exists>m. tremblant tremblant_world = Inr m \<and> base m = JNum (Fin 56))
   \<and> fl 254 = Fin 254
   \<and> cmToIn (JNum (Fin 254)) = JNum (Fin 100)"
proof -
  let ?data = "DocObject Map.empty [''baseDepthCm'' \<mapsto> JNum (Fin 142)]"
  have f: "fetchJSON tremblant_world ''https://www.tremblant.ca/api/mountain-conditions'' = Inr ?data"
    by (simp add: fetchJSON_def fetchPage_def try_catch_def and_then_def tremblant_world_def
        vt_world_def res_ok_def)
  have g: "doc_get ?data ''conditions'' = Inr (TScalar JUndefined)"
    by (simp add: doc_get_def get_def)
  have v: "member_view (if target_truthy (TScalar JUndefined) then TScalar JUndefined else doc_itself ?data)
             = Inr (get [''baseDepthCm'' \<mapsto> JNum (Fin 142)])"
    by simp
  have d: "get [''baseDepthCm'' \<mapsto> JNum (Fin 142)] ''baseDepthCm'' = JNum (Fin 142)"
    by (simp add: get_def)
  have small: "fl 254 = Fin 254"
    by code_simp
  have far: "of_int 100 - 1 / 2 + (\<bar>254\<bar> / 2 ^ 53 + 1 / 2 ^ 1075) \<le> (254 :: rat) / (254 / 100)
             \<and> (254 :: rat) / (254 / 100) < of_int 100 + 1 / 2 - (\<bar>254\<bar> / 2 ^ 53 + 1 / 2 ^ 1075)"
    by simp
  note inst = C8_cmToIn_rounds[of 254 tremblant_world]
  from inst f g v d have "\<exists>m. tremblant tremblant_world = Inr m \<and> base m = JNum (Fin 56)"
    by blast
  moreover from inst small far have "cmToIn (JNum (Fin 254)) = JNum (Fin (of_int 100))"
    by blast
  ultimately show ?thesis using f small by simp
qed

text \<open>
  The integer nearest to the exact quotient is not always what the code gives. For the
  binary64 number nearest to 6.35 the exact quotient by 2.54 is just under \<open>2.5\<close> and its
  nearest integer is 2, but the binary64 quotient is \<open>2.5\<close> and \<open>cmToIn\<close> gives 3, which
  is further than \<open>1 / 2\<close> from the exact quotient. For the binary64 number nearest to
  39.37, \<open>cmToIn\<close> gives 15, where \<open>39.37 / 2.54\<close> is \<open>15.5\<close> and rounds to 16.
\<close>

theorem C8_exact_quotient_differs:
  "fl (635 / 100) = Fin cm_6_35
   \<and> cmToIn (JNum (Fin cm_6_35)) = JNum (Fin 3)
   \<and> \<lfloor>cm_6_35 / (254 / 100) + 1 / 2\<rfloor> = 2
   \<and> 1 / 2 < \<bar>3 - cm_6_35 / (254 / 100)\<bar>
   \<and> fl (3937 / 100) = Fin cm_39_37
   \<and> cmToIn (JNum (Fin cm_39_37)) = JNum (Fin 15)
   \<and> \<lfloor>(3937 / 100 :: rat) / (254 / 100) + 1 / 2\<rfloor> = 16"
proof -
  have "fl (635 / 100) = Fin cm_6_35" "fl (3937 / 100) = Fin cm_39_37"
    unfolding cm_6_35_def cm_39_37_def by code_simp+
  moreover have "cmToIn (JNum (Fin cm_6_35)) = JNum (Fin 3)"
    "cmToIn (JNum (Fin cm_39_37)) = JNum (Fin 15)"
    unfolding cm_6_35_def cm_39_37_def by code_simp+
  moreover have "\<lfloor>cm_6_35 / (254 / 100) + 1 / 2\<rfloor> = 2"
    "\<lfloor>(3937 / 100 :: rat) / (254 / 100) + 1 / 2\<rfloor> = 16"
    unfolding cm_6_35_def by code_simp+
  moreover have "1 / 2 < \<bar>3 - cm_6_35 / (254 / 100)\<bar>"
    unfolding cm_6_35_def by simp
  ultimately show ?thesis by blast
qed

text \<open>
  C9. The registry holds 33 scraper functions; each always fulfills, so every settled
  result is \<open>Fulfilled\<close> and the branch for a rejected one is never taken: the records
  of \<open>mountains\<close> are, in order, the records the functions returned, and their number
  is \<open>ALL_SCRAPERS.length\<close>, which is \<open>totalCount\<close>.
\<close>

theorem C9_scrapers_always_fulfill:
  "length ALL_SCRAPERS = 33
   \<and> (\<forall>x \<in> set ALL_SCRAPERS. \<exists>m. snd x w = Inr m)
   \<and> map Fulfilled (mountains (runAllScrapers_resort w)) = map (\<lambda>x. settle (snd x w)) ALL_SCRAPERS
   \<and> length (mountains (runAllScrapers_resort w)) = length ALL_SCRAPERS
   \<and> totalCount (runAllScrapers_resort w) = length ALL_SCRAPERS"
proof (intro conjI)
  show "length ALL_SCRAPERS = 33"
    by (simp add: ALL_SCRAPERS_def)
  show "\<forall>x \<in> set ALL_SCRAPERS. \<exists>m. snd x w = Inr m"
    using ALL_SCRAPERS_return[of w] by blast
  show "map Fulfilled (mountains (runAllScrapers_resort w)) = map (\<lambda>x. settle (snd x w)) ALL_SCRAPERS"
    by (rule resort_all_fulfilled)
  show "length (mountains (runAllScrapers_resort w)) = length ALL_SCRAPERS"
    using resort_counts[of w] by simp
  show "totalCount (runAllScrapers_resort w) = length ALL_SCRAPERS"
    by (rule resort_totalCount)
qed

theorem C9_scrapers_always_fulfill_witness:
  "(\<exists>m. stowe vt_world = Inr m)
   \<and> length (mountains (runAllScrapers_resort vt_world)) = 33
   \<and> totalCount (runAllScrapers_resort vt_world) = 33"
proof -
  have mem: "(''stowe'', stowe) \<in> set ALL_SCRAPERS"
    by (simp add: ALL_SCRAPERS_def)
  from C9_scrapers_always_fulfill[of vt_world] mem show ?thesis by fastforce
qed

subsection \<open>Zero and absence\<close>

lemma num_or_null_eq: "num_or_null n = (if n = Fin 0 \<or> n = NaN then JNull else JNum n)"
  by (cases n) (simp_all add: num_or_null_def js_or_def)

lemma parse_absent:
  "js_parseFloat ns JUndefined = NaN" "js_parseInt ns JUndefined = NaN"
  by (simp_all add: parse_defs Let_def)

lemma parseRecord_fields:
  assumes "parseRecord w r = Inr (Some m)"
  shows "base m = num_or_null (js_parseFloat (numstr w) (js_or (get r ''base_depth'') (get r ''baseDepth'')))
       \<and> summit m = num_or_null (js_parseFloat (numstr w) (js_or (get r ''summit_depth'') (get r ''summitDepth'')))
       \<and> newSnow24 m = num_or_null (js_parseFloat (numstr w)
                         (js_or (js_or (js_or (get r ''fresh_snow'') (get r ''freshSnow''))
                                   (get r ''snow_last_24h'')) (get r ''snowLast24Hours'')))
       \<and> newSnow48 m = num_or_null (js_parseFloat (numstr w) (js_or (get r ''snow_last_48h'') (get r ''snowLast48Hours'')))
       \<and> newSnow7d m = num_or_null (js_parseFloat (numstr w) (js_or (get r ''snow_last_7d'') (get r ''snowLast7Days'')))
       \<and> trailsOpen m = num_or_null (js_parseInt (numstr w)
                         (js_or (js_or (js_or (get r ''open_runs'') (get r ''openRuns''))
                                   (get r ''open_trails'')) (get r ''openTrails'')))
       \<and> trailsTotal m = num_or_null (js_parseInt (numstr w)
                         (js_or (js_or (js_or (get r ''total_runs'') (get r ''totalRuns''))
                                   (get r ''total_trails'')) (get r ''totalTrails'')))
       \<and> liftsOpen m = num_or_null (js_parseInt (numstr w) (js_or (get r ''open_lifts'') (get r ''openLifts'')))
       \<and> liftsTotal m = num_or_null (js_parseInt (numstr w) (js_or (get r ''total_lifts'') (get r ''totalLifts'')))
       \<and> season m = num_or_null (js_parseFloat (numstr w) (js_or (get r ''season_total'') (get r ''seasonTotal'')))"
proof -
  from assms obtain ourName where "ourName \<noteq> Missing"
    and m: "m = \<lparr>name = js_or (get r ''resort_name'') (get r ''resortName''),
             base = num_or_null (js_parseFloat (numstr w) (js_or (get r ''base_depth'') (get r ''baseDepth''))),
             summit = num_or_null (js_parseFloat (numstr w) (js_or (get r ''summit_depth'') (get r ''summitDepth''))),
             newSnow24 = num_or_null (js_parseFloat (numstr w)
                           (js_or (js_or (js_or (get r ''fresh_snow'') (get r ''freshSnow''))
                                     (get r ''snow_last_24h'')) (get r ''snowLast24Hours''))),
             newSnow48 = num_or_null (js_parseFloat (numstr w) (js_or (get r ''snow_last_48h'') (get r ''snowLast48Hours''))),
             newSnow7d = num_or_null (js_parseFloat (numstr w) (js_or (get r ''snow_last_7d'') (get r ''snowLast7Days''))),
             trailsOpen = num_or_null (js_parseInt (numstr w)
                           (js_or (js_or (js_or (get r ''open_runs'') (get r ''openRuns''))
                                     (get r ''open_trails'')) (get r ''openTrails''))),
             trailsTotal = num_or_null (js_parseInt (numstr w)
                           (js_or (js_or (js_or (get r ''total_runs'') (get r ''totalRuns''))
                                     (get r ''total_trails'')) (get r ''totalTrails''))),
             liftsOpen = num_or_null (js_parseInt (numstr w) (js_or (get r ''open_lifts'') (get r ''openLifts''))),
             liftsTotal = num_or_null (js_parseInt (numstr w) (js_or (get r ''total_lifts'') (get r ''totalLifts''))),
             surface = js_or (js_or (get r ''primary_surface_condition'')
                                    (get r ''primarySurfaceCondition'')) JNull,
             season = num_or_null (js_parseFloat (numstr w) (js_or (get r ''season_total'') (get r ''seasonTotal''))),
             status = JStr (if num_le
                 (if truthy (JNum (js_parseInt (numstr w) (js_or (get r ''resort_status'') (get r ''resortStatus''))))
                  then js_parseInt (numstr w) (js_or (get r ''resort_status'') (get r ''resortStatus''))
                  else Fin 0) 3 then ''Open'' else ''Closed''),
             updatedAt = js_or (js_or (get r ''report_date_time'') (get r ''reportDateTime''))
                               (JStr (now w)),
             source = JStr ''SnoCountry''\<rparr>"
    unfolding parseRecord_def Let_def and_then_Inr
    by (auto split: if_splits)
  show ?thesis
    by (simp add: m)
qed

lemma parse_zero_entry:
  "parseRecord w zero_entry =
     Inr (Some \<lparr>name = JStr ''Stowe'', base = JNull, summit = JNull,
      newSnow24 = JNull, newSnow48 = JNull, newSnow7d = JNull, trailsOpen = JNull,
      trailsTotal = JNull, liftsOpen = JNull, liftsTotal = JNull, surface = JNull,
      season = JNull, status = JStr ''Open'', updatedAt = JStr (now w),
      source = JStr ''SnoCountry''\<rparr>)"
  by (simp add: parseRecord_def resolve_def NAME_MAP_get_def NAME_MAP_def get_def and_then_def
      zero_entry_def parse_defs Let_def)

lemma parse_bare_entry:
  "parseRecord w bare_entry =
     Inr (Some \<lparr>name = JStr ''Stowe'', base = JNull, summit = JNull,
      newSnow24 = JNull, newSnow48 = JNull, newSnow7d = JNull, trailsOpen = JNull,
      trailsTotal = JNull, liftsOpen = JNull, liftsTotal = JNull, surface = JNull,
      season = JNull, status = JStr ''Open'', updatedAt = JStr (now w),
      source = JStr ''SnoCountry''\<rparr>)"
  by (simp add: parseRecord_def resolve_def NAME_MAP_get_def NAME_MAP_def get_def and_then_def
      bare_entry_def parse_defs Let_def)

lemma parse_killington_base:
  "js_parseFloat (numstr vt_world) (js_or (get killington_entry ''base_depth'') (get killington_entry ''baseDepth''))
     = Fin 58"
  by (simp add: killington_entry_def get_def parse_defs Let_def)

text \<open>
  C10. In the record the SnoCountry parser returns, each of the ten numeric fields is
  \<^verbatim>\<open>parse(...) || null\<close> of its own members of the entry, and \<^verbatim>\<open>n || null\<close> is
  \<^verbatim>\<open>null\<close> when \<open>n\<close> is 0 or \<open>NaN\<close> and \<open>n\<close> itself otherwise. So a parsed 0 is
  emitted as \<^verbatim>\<open>null\<close>, as an absent member is (it parses to \<open>NaN\<close>), while any other
  parsed number is emitted as it is; an entry reporting a depth and a count of zero
  gives the very record of the entry that reports neither. \<open>parseInches\<close> gives
  \<^verbatim>\<open>null\<close> for the number 0 and 0 for the text \<open>0\<close>.
\<close>

theorem C10_zero_becomes_null:
  "(\<forall>m. parseRecord w r = Inr (Some m) \<longrightarrow>
         base m = num_or_null (js_parseFloat (numstr w) (js_or (get r ''base_depth'') (get r ''baseDepth'')))
         \<and> summit m = num_or_null (js_parseFloat (numstr w) (js_or (get r ''summit_depth'') (get r ''summitDepth'')))
         \<and> newSnow24 m = num_or_null (js_parseFloat (numstr w)
                           (js_or (js_or (js_or (get r ''fresh_snow'') (get r ''freshSnow''))
                                     (get r ''snow_last_24h'')) (get r ''snowLast24Hours'')))
         \<and> newSnow48 m = num_or_null (js_parseFloat (numstr w) (js_or (get r ''snow_last_48h'') (get r ''snowLast48Hours'')))
         \<and> newSnow7d m = num_or_null (js_parseFloat (numstr w) (js_or (get r ''snow_last_7d'') (get r ''snowLast7Days'')))
         \<and> trailsOpen m = num_or_null (js_parseInt (numstr w)
                           (js_or (js_or (js_or (get r ''open_runs'') (get r ''openRuns''))
                                     (get r ''open_trails'')) (get r ''openTrails'')))
         \<and> trailsTotal m = num_or_null (js_parseInt (numstr w)
                           (js_or (js_or (js_or (get r ''total_runs'') (get r ''totalRuns''))
                                     (get r ''total_trails'')) (get r ''totalTrails'')))
         \<and> liftsOpen m = num_or_null (js_parseInt (numstr w) (js_or (get r ''open_lifts'') (get r ''openLifts'')))
         \<and> liftsTotal m = num_or_null (js_parseInt (numstr w) (js_or (get r ''total_lifts'') (get r ''totalLifts'')))
         \<and> season m = num_or_null (js_parseFloat (numstr w) (js_or (get r ''season_total'') (get r ''seasonTotal''))))
   \<and> (\<forall>n. num_or_null n = (if n = Fin 0 \<or> n = NaN then JNull else JNum n))
   \<and> js_parseFloat (numstr w) JUndefined = NaN
   \<and> js_parseInt (numstr w) JUndefined = NaN
   \<and> parseRecord w zero_entry = parseRecord w bare_entry
   \<and> parseInches w (JNum (Fin 0)) = JNull
   \<and> parseInches w (JStr ''0'') = JNum (Fin 0)"
proof -
  have "parseInches w (JNum (Fin 0)) = JNull"
    by (simp add: parseInches_def)
  moreover have "parseInches w (JStr ''0'') = JNum (Fin 0)"
    by (simp add: parseInches_def parse_defs Let_def)
  moreover have "parseRecord w zero_entry = parseRecord w bare_entry"
    by (simp only: parse_zero_entry parse_bare_entry)
  ultimately show ?thesis
    using parseRecord_fields[of w r] num_or_null_eq parse_absent[of "numstr w"]
    by blast
qed

text \<open>
  In \<open>vt_world\<close>: the entry for Stowe reports a depth of 0 and 0 open lifts, and both
  fields of its record are \<^verbatim>\<open>null\<close>; the entry for Killington reports a depth of
  58, and its record has \<open>base = 58\<close>.
\<close>

theorem C10_zero_becomes_null_witness:
  "parseRecord vt_world zero_entry = Inr (Some stowe_record)
   \<and> parseRecord vt_world bare_entry = Inr (Some stowe_record)
   \<and> js_parseFloat (numstr vt_world) (js_or (get zero_entry ''base_depth'') (get zero_entry ''baseDepth'')) = Fin 0
   \<and> js_parseInt (numstr vt_world) (js_or (get zero_entry ''open_lifts'') (get zero_entry ''openLifts'')) = Fin 0
   \<and> base stowe_record = JNull \<and> liftsOpen stowe_record = JNull
   \<and> parseRecord vt_world killington_entry = Inr (Some killington_record)
   \<and> base killington_record = JNum (Fin 58)"
proof -
  have z: "parseRecord vt_world zero_entry = Inr (Some stowe_record)"
    by (simp add: parse_zero_entry stowe_record_def vt_world_def)
  have d: "js_parseFloat (numstr vt_world) (js_or (get zero_entry ''base_depth'') (get zero_entry ''baseDepth'')) = Fin 0"
    by (simp add: zero_entry_def get_def parse_defs Let_def)
  have l: "js_parseInt (numstr vt_world) (js_or (get zero_entry ''open_lifts'') (get zero_entry ''openLifts'')) = Fin 0"
    by (simp add: zero_entry_def get_def parse_defs Let_def)
  note inst = C10_zero_becomes_null[of vt_world zero_entry]
  note inst2 = C10_zero_becomes_null[of vt_world killington_entry]
  from inst z have b: "parseRecord vt_world bare_entry = Inr (Some stowe_record)"
    by simp
  from inst z d have "base stowe_record = num_or_null (Fin 0)"
    by metis
  moreover from inst z l have "liftsOpen stowe_record = num_or_null (Fin 0)"
    by metis
  moreover from inst have "num_or_null (Fin 0) = JNull" by simp
  moreover from inst2 parse_killington_entry parse_killington_base
  have "base killington_record = num_or_null (Fin 58)"
    by metis
  moreover from inst2 have "num_or_null (Fin 58) = JNum (Fin 58)" by simp
  ultimately show ?thesis using z b d l parse_killington_entry by simp
qed

end
